theory Spec2Isabelle
  imports Main
begin

section \<open>Strings and numbers of the host language\<close>

text \<open>
  A string is a list of code units. The model covers the code units below 256 (the
  Latin-1 block), which is what \<^typ>\<open>char\<close> holds. \<open>trim\<close> removes the white space and
  line terminators of that block from both ends; \<open>toLowerCase\<close> maps A-Z and the
  upper-case letters U+00C0..U+00DE (without the multiplication sign U+00D7) to the code
  unit 32 above, which is the same as setting bit 5 (it is clear in both ranges).
\<close>

definition isWhiteSpace :: "char \<Rightarrow> bool" where
  "isWhiteSpace c = (of_char c \<in> {9, 10, 11, 12, 13, 32, 160 :: nat})"

definition trim :: "string \<Rightarrow> string" where
  "trim s = rev (dropWhile isWhiteSpace (rev (dropWhile isWhiteSpace s)))"

definition isUpper :: "char \<Rightarrow> bool" where
  "isUpper c = (let n = of_char c :: nat in
     (65 \<le> n \<and> n \<le> 90) \<or> (192 \<le> n \<and> n \<le> 222 \<and> n \<noteq> 215))"

definition toLowerChar :: "char \<Rightarrow> char" where
  "toLowerChar c =
     (if isUpper c
      then (case c of Char b0 b1 b2 b3 b4 b5 b6 b7 \<Rightarrow> Char b0 b1 b2 b3 b4 True b6 b7)
      else c)"

definition toLowerCase :: "string \<Rightarrow> string" where
  "toLowerCase s = map toLowerChar s"

text \<open>\<open>startsWith\<close> and \<open>includes\<close> of the host language, used to say that a text mentions
  another.\<close>

fun startsWith :: "string \<Rightarrow> string \<Rightarrow> bool" where
  "startsWith s [] = True"
| "startsWith [] (p # ps) = False"
| "startsWith (c # cs) (p # ps) = (c = p \<and> startsWith cs ps)"

fun includesStr :: "string \<Rightarrow> string \<Rightarrow> bool" where
  "includesStr [] p = (p = [])"
| "includesStr (c # cs) p = (startsWith (c # cs) p \<or> includesStr cs p)"

text \<open>The relational operator \<open>>\<close> on two strings: code units compared from the left, a
  proper prefix is smaller.\<close>

fun string_gt :: "string \<Rightarrow> string \<Rightarrow> bool" where
  "string_gt [] ys = False"
| "string_gt (x # xs) [] = True"
| "string_gt (x # xs) (y # ys) =
     (if (of_char y :: nat) < of_char x then True
      else if (of_char x :: nat) < of_char y then False
      else string_gt xs ys)"

text \<open>\<open>Array.prototype.join\<close> on a list of strings.\<close>

fun join :: "string \<Rightarrow> string list \<Rightarrow> string" where
  "join sep [] = []"
| "join sep [x] = x"
| "join sep (x # y # ys) = x @ sep @ join sep (y # ys)"

text \<open>Decimal rendering of an integer (\<open>String(n)\<close>, and \<open>${n}\<close> in a template), and
  \<open>padStart\<close> with a single pad character.\<close>

definition digitChar :: "nat \<Rightarrow> char" where
  "digitChar d = ''0123456789'' ! (d mod 10)"

fun natToString :: "nat \<Rightarrow> string" where
  "natToString n = (if n < 10 then [digitChar n] else natToString (n div 10) @ [digitChar n])"

declare natToString.simps [simp del]

definition intToString :: "int \<Rightarrow> string" where
  "intToString i = (if i < 0 then CHR ''-'' # natToString (nat (- i)) else natToString (nat i))"

definition padStart :: "nat \<Rightarrow> char \<Rightarrow> string \<Rightarrow> string" where
  "padStart n c s = replicate (n - length s) c @ s"

text \<open>The character class \<open>\d\<close> and \<open>Number\<close> on a string of decimal digits.\<close>

definition isDigit :: "char \<Rightarrow> bool" where
  "isDigit c = (let n = of_char c :: nat in 48 \<le> n \<and> n \<le> 57)"

definition digitsToNat :: "string \<Rightarrow> nat" where
  "digitsToNat s = foldl (\<lambda>acc c. 10 * acc + (of_char c - 48)) 0 s"

definition nl :: string where
  "nl = [CHR 0x0A]"

definition dq :: string where
  "dq = [CHR 0x22]"

definition bt :: string where
  "bt = [CHR 0x60]"

section \<open>errors.ts\<close>

datatype CapacitiesErrorCode =
  config_error | validation_error | network_error | api_error | rate_limit | unsupported

record CapacitiesError =
  code :: CapacitiesErrorCode
  message :: string
  status :: "nat option"
  actionableMessage :: string

definition createConfigError :: "string \<Rightarrow> CapacitiesError" where
  "createConfigError msg =
     \<lparr>code = config_error, message = msg, status = None,
      actionableMessage = ''Set required environment variables and restart the server.''\<rparr>"

definition createValidationError :: "string \<Rightarrow> CapacitiesError" where
  "createValidationError msg =
     \<lparr>code = validation_error, message = msg, status = None,
      actionableMessage = ''Fix input values and retry.''\<rparr>"

definition createUnsupportedError :: "string \<Rightarrow> CapacitiesError" where
  "createUnsupportedError msg =
     \<lparr>code = unsupported, message = msg, status = None,
      actionableMessage =
        ''Use a supported Capacities API endpoint documented in https://api.capacities.io/docs.''\<rparr>"

definition createNetworkError :: "string \<Rightarrow> CapacitiesError" where
  "createNetworkError msg =
     \<lparr>code = network_error, message = msg, status = None,
      actionableMessage =
        ''Check network connectivity and retry. If this persists, verify api.capacities.io reachability.''\<rparr>"

definition createApiError :: "string \<Rightarrow> nat option \<Rightarrow> string option \<Rightarrow> CapacitiesError" where
  "createApiError msg st act =
     \<lparr>code = api_error, message = msg, status = st,
      actionableMessage =
        (case act of
           None \<Rightarrow> ''Retry the request. If it persists, verify the upstream API response.''
         | Some a \<Rightarrow> a)\<rparr>"

text \<open>
  A response of the remote service, as \<open>createHttpError\<close> and the client read it: the
  status, the two headers the code asks for (\<open>headers.get\<close> gives \<open>null\<close> or the value), and
  the body text.
\<close>

record Response =
  resp_status :: nat
  retry_after :: "string option"
  ratelimit_reset :: "string option"
  resp_text :: string

definition resp_ok :: "Response \<Rightarrow> bool" where
  "resp_ok r = (200 \<le> resp_status r \<and> resp_status r \<le> 299)"

definition truthy :: "string option \<Rightarrow> bool" where
  "truthy v = (case v of None \<Rightarrow> False | Some s \<Rightarrow> s \<noteq> [])"

definition retryHint :: "Response \<Rightarrow> string" where
  "retryHint response =
     (if truthy (retry_after response)
      then '' Retry after '' @ the (retry_after response) @ '' seconds.''
      else if truthy (ratelimit_reset response)
      then '' Retry when rate limit resets ('' @ the (ratelimit_reset response) @ '').''
      else '' Retry after a short delay.'')"

definition createHttpError :: "Response \<Rightarrow> CapacitiesError" where
  "createHttpError response =
     (let responseBody = trim (resp_text response);
          st = resp_status response;
          statusPrefix = ''Capacities API request failed with status '' @ natToString st @ ''.'';
          responseHint = (if responseBody \<noteq> [] then '' Response: '' @ responseBody else [])
      in if st = 401 then
           \<lparr>code = api_error, message = statusPrefix @ '' Unauthorized.'' @ responseHint,
            status = Some st,
            actionableMessage =
              ''Verify CAPACITIES_API_TOKEN is valid for your Capacities account.''\<rparr>
         else if st = 404 then
           \<lparr>code = api_error, message = statusPrefix @ '' Not found.'' @ responseHint,
            status = Some st,
            actionableMessage =
              ''Verify endpoint and identifiers (for example space ID) and retry.''\<rparr>
         else if st = 429 then
           \<lparr>code = rate_limit,
            message = statusPrefix @ '' Rate limit exceeded.'' @ retryHint response @ responseHint,
            status = Some st,
            actionableMessage =
              ''Back off and retry with lower request frequency. Respect RateLimit headers when present.''\<rparr>
         else if st = 503 \<or> st = 555 \<or> st \<ge> 500 then
           \<lparr>code = api_error, message = statusPrefix @ '' Server error.'' @ responseHint,
            status = Some st,
            actionableMessage =
              ''Retry with exponential backoff. If repeated, treat as temporary upstream outage.''\<rparr>
         else if st \<ge> 400 then
           \<lparr>code = api_error, message = statusPrefix @ responseHint, status = Some st,
            actionableMessage =
              ''Check request parameters and payload shape against Capacities API docs, then retry.''\<rparr>
         else
           \<lparr>code = api_error, message = statusPrefix @ responseHint, status = Some st,
            actionableMessage = ''Retry the request.''\<rparr>)"

text \<open>
  What a \<open>throw\<close> or a rejected promise carries: a \<open>CapacitiesError\<close>, another \<open>Error\<close> with
  its message, or a value that is no \<open>Error\<close> at all.
\<close>

datatype thrown = ThrownCapacities CapacitiesError | ThrownError string | ThrownOther

definition normalizeCapacitiesError :: "thrown \<Rightarrow> CapacitiesError" where
  "normalizeCapacitiesError error =
     (case error of
        ThrownCapacities e \<Rightarrow> e
      | ThrownError m \<Rightarrow> createNetworkError (''Network request to Capacities API failed: '' @ m)
      | ThrownOther \<Rightarrow>
          createNetworkError ''Network request to Capacities API failed with an unknown error.'')"

section \<open>config.ts\<close>

definition CAPACITIES_API_BASE_URL :: string where
  "CAPACITIES_API_BASE_URL = ''https://api.capacities.io''"

definition CAPACITIES_API_TOKEN_ENV :: string where
  "CAPACITIES_API_TOKEN_ENV = ''CAPACITIES_API_TOKEN''"

definition CAPACITIES_SPACE_ID_ENV :: string where
  "CAPACITIES_SPACE_ID_ENV = ''CAPACITIES_SPACE_ID''"

text \<open>
  \<open>UUID_PATTERN\<close> is anchored at both ends and has one character class per position, so
  it is a list of classes that the string has to match position by position. With the
  flag \<open>i\<close> the class \<open>[0-9a-f]\<close> also holds A-F, and \<open>[89ab]\<close> also A and B.
\<close>

definition hexClass :: "char \<Rightarrow> bool" where
  "hexClass c = (c \<in> set ''0123456789abcdefABCDEF'')"

definition dashClass :: "char \<Rightarrow> bool" where
  "dashClass c = (c = CHR ''-'')"

definition versionClass :: "char \<Rightarrow> bool" where
  "versionClass c = (c \<in> set ''12345'')"

definition variantClass :: "char \<Rightarrow> bool" where
  "variantClass c = (c \<in> set ''89abAB'')"

definition UUID_PATTERN :: "(char \<Rightarrow> bool) list" where
  "UUID_PATTERN =
     replicate 8 hexClass @ [dashClass] @
     replicate 4 hexClass @ [dashClass] @
     [versionClass] @ replicate 3 hexClass @ [dashClass] @
     [variantClass] @ replicate 3 hexClass @ [dashClass] @
     replicate 12 hexClass"

fun matchClasses :: "(char \<Rightarrow> bool) list \<Rightarrow> string \<Rightarrow> bool" where
  "matchClasses [] [] = True"
| "matchClasses (p # ps) (c # cs) = (p c \<and> matchClasses ps cs)"
| "matchClasses [] (c # cs) = False"
| "matchClasses (p # ps) [] = False"

definition isUuid :: "string \<Rightarrow> bool" where
  "isUuid v = matchClasses UUID_PATTERN v"

record CapacitiesConfig =
  baseUrl :: string
  apiToken :: string
  defaultSpaceId :: "string option"

definition getOptionalTrimmedEnv :: "(string \<Rightarrow> string option) \<Rightarrow> string \<Rightarrow> string option" where
  "getOptionalTrimmedEnv env name =
     (case env name of
        None \<Rightarrow> None
      | Some raw \<Rightarrow> (if length (trim raw) > 0 then Some (trim raw) else None))"

definition getRequiredTrimmedEnv ::
  "(string \<Rightarrow> string option) \<Rightarrow> string \<Rightarrow> CapacitiesError + string" where
  "getRequiredTrimmedEnv env name =
     (case getOptionalTrimmedEnv env name of
        None \<Rightarrow> Inl (createConfigError (name @ '' is required and must be a non-empty string.''))
      | Some v \<Rightarrow> Inr v)"

definition loadCapacitiesConfig ::
  "(string \<Rightarrow> string option) \<Rightarrow> CapacitiesError + CapacitiesConfig" where
  "loadCapacitiesConfig env =
     (case getRequiredTrimmedEnv env CAPACITIES_API_TOKEN_ENV of
        Inl e \<Rightarrow> Inl e
      | Inr tok \<Rightarrow>
          (let defaultSpaceIdRaw = getOptionalTrimmedEnv env CAPACITIES_SPACE_ID_ENV
           in if defaultSpaceIdRaw \<noteq> None \<and> \<not> isUuid (the defaultSpaceIdRaw)
              then Inl (createValidationError
                     (CAPACITIES_SPACE_ID_ENV @ '' must be a UUID when provided. Received: '' @
                      dq @ the defaultSpaceIdRaw @ dq @ ''.''))
              else Inr \<lparr>baseUrl = CAPACITIES_API_BASE_URL, apiToken = tok,
                        defaultSpaceId = defaultSpaceIdRaw\<rparr>))"

text \<open>
  \<open>explicitSpaceId?.trim() || config.defaultSpaceId\<close>: the trimmed explicit value when it
  is a non-empty string, the configured default otherwise. An empty candidate is falsy,
  as a missing one is.
\<close>

definition spaceCandidate :: "string option \<Rightarrow> string option \<Rightarrow> string option" where
  "spaceCandidate explicitSpaceId dflt =
     (case explicitSpaceId of
        None \<Rightarrow> dflt
      | Some e \<Rightarrow> (if trim e \<noteq> [] then Some (trim e) else dflt))"

definition resolveSpaceId :: "string option \<Rightarrow> CapacitiesConfig \<Rightarrow> CapacitiesError + string" where
  "resolveSpaceId explicitSpaceId config =
     (let candidate = spaceCandidate explicitSpaceId (defaultSpaceId config)
      in if \<not> truthy candidate then
           Inl (createConfigError
                 (''Missing space ID. Provide a space ID in the request or set '' @
                  CAPACITIES_SPACE_ID_ENV @ ''.''))
         else if \<not> isUuid (the candidate) then
           Inl (createValidationError
                 (''Space ID must be a UUID. Received: '' @ dq @ the candidate @ dq @ ''.''))
         else Inr (the candidate))"

section \<open>date.ts\<close>

text \<open>
  A \<open>Date\<close> holds a time value: the milliseconds since 1970-01-01T00:00:00Z, or \<open>NaN\<close> (here
  \<open>None\<close>) for an invalid date. The functions on time values are those of the language
  standard: \<open>Day\<close>, \<open>TimeWithinDay\<close>, \<open>DayFromYear\<close>, \<open>MakeDay\<close>, \<open>MakeDate\<close>, \<open>TimeClip\<close>,
  \<open>LocalTime\<close> and \<open>UTC\<close>. The time zone of the host is the function \<open>LocalTZA\<close> of the
  standard: \<open>LocalTZA t True\<close> is the offset of local time at the instant \<open>t\<close>, and
  \<open>LocalTZA t False\<close> is the offset by which the host reads \<open>t\<close> as a local time (for a local
  time that a transition skips or repeats the standard asks for the offset before the
  transition). It is a property of the host, not of the program, so the model takes it as
  a field of the \<open>Date\<close>.
\<close>

definition msPerDay :: int where
  "msPerDay = 86400000"

definition Day :: "int \<Rightarrow> int" where
  "Day t = t div msPerDay"

definition TimeWithinDay :: "int \<Rightarrow> int" where
  "TimeWithinDay t = t mod msPerDay"

definition isLeapYear :: "int \<Rightarrow> bool" where
  "isLeapYear y = (y mod 4 = 0 \<and> (y mod 100 \<noteq> 0 \<or> y mod 400 = 0))"

definition DayFromYear :: "int \<Rightarrow> int" where
  "DayFromYear y =
     365 * (y - 1970) + (y - 1969) div 4 - (y - 1901) div 100 + (y - 1601) div 400"

definition daysInMonth :: "int \<Rightarrow> nat \<Rightarrow> int" where
  "daysInMonth y m =
     (if m = 1 then (if isLeapYear y then 29 else 28)
      else if m = 3 \<or> m = 5 \<or> m = 8 \<or> m = 10 then 30
      else 31)"

text \<open>The number of the first day of month \<open>m\<close> within its year (the table of
  \<open>MonthFromTime\<close>).\<close>

definition daysBeforeMonth :: "int \<Rightarrow> nat \<Rightarrow> int" where
  "daysBeforeMonth y m = sum_list (map (daysInMonth y) [0..<m])"

text \<open>
  \<open>MakeDay(year, month, date)\<close>: the month is carried into the year, and the result is the
  number of the first day of that month plus \<open>date - 1\<close>, whatever \<open>date\<close> is.
\<close>

definition MakeDay :: "int \<Rightarrow> int \<Rightarrow> int \<Rightarrow> int" where
  "MakeDay year month date =
     DayFromYear (year + month div 12) +
     daysBeforeMonth (year + month div 12) (nat (month mod 12)) + date - 1"

definition MakeDate :: "int \<Rightarrow> int \<Rightarrow> int" where
  "MakeDate day time = day * msPerDay + time"

definition TimeClip :: "int \<Rightarrow> int option" where
  "TimeClip t = (if 8640000000000000 < \<bar>t\<bar> then None else Some t)"

text \<open>
  \<open>YearFromTime\<close>, \<open>MonthFromTime\<close> and \<open>DateFromTime\<close> read the calendar date of a day
  number. \<open>civilFromDay\<close> computes the three together: it starts at the first of January of
  a year near the day and carries the day of the month into the months before or after
  until it lies in its month.
\<close>

record CivilDate =
  civilYear :: int
  civilMonth :: nat
  civilDay :: int

definition prevMonthYear :: "int \<Rightarrow> nat \<Rightarrow> int" where
  "prevMonthYear y m = (if m = 0 then y - 1 else y)"

definition prevMonthIndex :: "nat \<Rightarrow> nat" where
  "prevMonthIndex m = (if m = 0 then 11 else m - 1)"

definition nextMonthYear :: "int \<Rightarrow> nat \<Rightarrow> int" where
  "nextMonthYear y m = (if 11 \<le> m then y + 1 else y)"

definition nextMonthIndex :: "nat \<Rightarrow> nat" where
  "nextMonthIndex m = (if 11 \<le> m then 0 else m + 1)"

function carryDay :: "int \<Rightarrow> nat \<Rightarrow> int \<Rightarrow> CivilDate" where
  "carryDay y m d =
     (if d < 1 then
        carryDay (prevMonthYear y m) (prevMonthIndex m)
                 (d + daysInMonth (prevMonthYear y m) (prevMonthIndex m))
      else if daysInMonth y m < d then
        carryDay (nextMonthYear y m) (nextMonthIndex m) (d - daysInMonth y m)
      else \<lparr>civilYear = y, civilMonth = m, civilDay = d\<rparr>)"
  by pat_completeness auto
termination
  by (relation "measure (\<lambda>(y, m, d). if d < 1 then nat (32 - d) else nat d)")
     (auto simp: daysInMonth_def)

declare carryDay.simps [simp del]

definition civilFromDay :: "int \<Rightarrow> CivilDate" where
  "civilFromDay n =
     (let y0 = 1970 + n div 366 in carryDay y0 0 (n - DayFromYear y0 + 1))"

definition YearFromTime :: "int \<Rightarrow> int" where
  "YearFromTime t = civilYear (civilFromDay (Day t))"

definition MonthFromTime :: "int \<Rightarrow> nat" where
  "MonthFromTime t = civilMonth (civilFromDay (Day t))"

definition DateFromTime :: "int \<Rightarrow> int" where
  "DateFromTime t = civilDay (civilFromDay (Day t))"

record Date =
  timeValue :: "int option"
  LocalTZA :: "int \<Rightarrow> bool \<Rightarrow> int"

definition LocalTime :: "Date \<Rightarrow> int \<Rightarrow> int" where
  "LocalTime date t = t + LocalTZA date t True"

definition UTC :: "Date \<Rightarrow> int \<Rightarrow> int" where
  "UTC date t = t - LocalTZA date t False"

text \<open>The getters give \<open>NaN\<close> on an invalid date.\<close>

definition getFullYear :: "Date \<Rightarrow> int option" where
  "getFullYear date = map_option (\<lambda>t. YearFromTime (LocalTime date t)) (timeValue date)"

definition getMonth :: "Date \<Rightarrow> int option" where
  "getMonth date = map_option (\<lambda>t. int (MonthFromTime (LocalTime date t))) (timeValue date)"

definition getDate :: "Date \<Rightarrow> int option" where
  "getDate date = map_option (\<lambda>t. DateFromTime (LocalTime date t)) (timeValue date)"

text \<open>
  \<open>Date.prototype.setDate\<close>: the local time of the date is taken apart, the day of the month
  is replaced, and the new local time is read back through the zone and clipped. The
  argument is a number or \<open>NaN\<close>.
\<close>

definition setDate :: "Date \<Rightarrow> int option \<Rightarrow> Date" where
  "setDate date dt =
     (case timeValue date of
        None \<Rightarrow> date
      | Some tv \<Rightarrow>
          (case dt of
             None \<Rightarrow> date\<lparr>timeValue := None\<rparr>
           | Some d \<Rightarrow>
               (let t = LocalTime date tv;
                    newDate = MakeDate (MakeDay (YearFromTime t) (int (MonthFromTime t)) d)
                                (TimeWithinDay t);
                    u = TimeClip (UTC date newDate)
                in date\<lparr>timeValue := u\<rparr>)))"

text \<open>
  \<open>Date.UTC(year, month, day)\<close>, as the time value of \<open>new Date(Date.UTC(...))\<close>: a year from
  0 to 99 stands for 1900 + year, and the time of day is midnight. The getters
  \<open>getUTCFullYear\<close>, \<open>getUTCMonth\<close> and \<open>getUTCDate\<close> read a time value without the zone.
\<close>

definition Date_UTC :: "int \<Rightarrow> int \<Rightarrow> int \<Rightarrow> int option" where
  "Date_UTC y m d =
     TimeClip (MakeDate (MakeDay (if 0 \<le> y \<and> y \<le> 99 then 1900 + y else y) m d) 0)"

definition getUTCFullYear :: "int option \<Rightarrow> int option" where
  "getUTCFullYear tv = map_option YearFromTime tv"

definition getUTCMonth :: "int option \<Rightarrow> int option" where
  "getUTCMonth tv = map_option (\<lambda>t. int (MonthFromTime t)) tv"

definition getUTCDate :: "int option \<Rightarrow> int option" where
  "getUTCDate tv = map_option DateFromTime tv"

text \<open>\<open>String(n)\<close> and \<open>${n}\<close> for a number that may be \<open>NaN\<close>.\<close>

definition numberToString :: "int option \<Rightarrow> string" where
  "numberToString n = (case n of None \<Rightarrow> ''NaN'' | Some i \<Rightarrow> intToString i)"

definition toIsoLocalDate :: "Date \<Rightarrow> string" where
  "toIsoLocalDate date =
     (let year = getFullYear date;
          month = padStart 2 (CHR ''0'') (numberToString (map_option (\<lambda>m. m + 1) (getMonth date)));
          day = padStart 2 (CHR ''0'') (numberToString (getDate date))
      in numberToString year @ ''-'' @ month @ ''-'' @ day)"

text \<open>
  \<open>ABSOLUTE_DATE_PATTERN.exec\<close>: the three groups of a string of the form
  \<open>dddd-dd-dd\<close>, and no match for every other string.
\<close>

definition ABSOLUTE_DATE_PATTERN_exec :: "string \<Rightarrow> (string \<times> string \<times> string) option" where
  "ABSOLUTE_DATE_PATTERN_exec s =
     (case s of
        [y1, y2, y3, y4, s1, m1, m2, s2, d1, d2] \<Rightarrow>
          (if isDigit y1 \<and> isDigit y2 \<and> isDigit y3 \<and> isDigit y4 \<and> s1 = CHR ''-'' \<and>
              isDigit m1 \<and> isDigit m2 \<and> s2 = CHR ''-'' \<and> isDigit d1 \<and> isDigit d2
           then Some ([y1, y2, y3, y4], [m1, m2], [d1, d2])
           else None)
      | _ \<Rightarrow> None)"

text \<open>
  In \<open>normalizeDateInput\<close> the reference time is copied (\<open>new Date(now)\<close>) before \<open>setDate\<close>
  changes it; here \<open>setDate\<close> returns the changed copy.
\<close>

definition normalizeDateInput :: "string \<Rightarrow> Date \<Rightarrow> CapacitiesError + string" where
  "normalizeDateInput input now =
     (let normalizedInput = trim input;
          lower = toLowerCase normalizedInput
      in if lower = ''yesterday'' then
           Inr (toIsoLocalDate (setDate now (map_option (\<lambda>d. d - 1) (getDate now))))
         else
           (case ABSOLUTE_DATE_PATTERN_exec normalizedInput of
              None \<Rightarrow>
                Inl (createValidationError
                      (''Invalid date '' @ dq @ input @ dq @
                       ''. Expected YYYY-MM-DD or relative value '' @ dq @ ''yesterday'' @ dq @ ''.''))
            | Some (g1, g2, g3) \<Rightarrow>
                (let year = int (digitsToNat g1);
                     month = int (digitsToNat g2);
                     day = int (digitsToNat g3);
                     parsed = Date_UTC year (month - 1) day
                 in if getUTCFullYear parsed \<noteq> Some year \<or>
                       map_option (\<lambda>m. m + 1) (getUTCMonth parsed) \<noteq> Some month \<or>
                       getUTCDate parsed \<noteq> Some day
                    then Inl (createValidationError
                           (''Invalid date '' @ dq @ input @ dq @
                            ''. Use a real calendar date in YYYY-MM-DD format.''))
                    else Inr normalizedInput)))"

section \<open>Values of the host language and \<open>JSON.stringify\<close>\<close>

text \<open>
  The object literals that the handlers return are kept as they are written: an object is
  the list of its properties in the order of the literal, and a property whose value is
  \<open>undefined\<close> is a property still. Numbers are the integers the code produces (counts, the
  limit, a status).
\<close>

datatype jsval =
    JUndefined
  | JNull
  | JBool bool
  | JNum int
  | JStr string
  | JArr "jsval list"
  | JObj "(string \<times> jsval) list"

definition jget :: "string \<Rightarrow> jsval \<Rightarrow> jsval option" where
  "jget k v = (case v of JObj kvs \<Rightarrow> map_of kvs k | _ \<Rightarrow> None)"

definition optStr :: "string option \<Rightarrow> jsval" where
  "optStr v = (case v of None \<Rightarrow> JUndefined | Some s \<Rightarrow> JStr s)"

definition hexDigit :: "nat \<Rightarrow> char" where
  "hexDigit d = ''0123456789abcdef'' ! (d mod 16)"

definition quoteChar :: "char \<Rightarrow> string" where
  "quoteChar c =
     (let n = of_char c :: nat
      in if n = 8 then [CHR 0x5C, CHR ''b'']
         else if n = 9 then [CHR 0x5C, CHR ''t'']
         else if n = 10 then [CHR 0x5C, CHR ''n'']
         else if n = 12 then [CHR 0x5C, CHR ''f'']
         else if n = 13 then [CHR 0x5C, CHR ''r'']
         else if n = 34 then [CHR 0x5C, CHR 0x22]
         else if n = 92 then [CHR 0x5C, CHR 0x5C]
         else if n < 32 then [CHR 0x5C, CHR ''u'', CHR ''0'', CHR ''0'', hexDigit (n div 16), hexDigit n]
         else [c])"

definition QuoteJSONString :: "string \<Rightarrow> string" where
  "QuoteJSONString s = dq @ concat (map quoteChar s) @ dq"

text \<open>
  \<open>JSON.stringify(value, null, 2)\<close>, with the indentation reached so far as first argument.
  A property whose value is \<open>undefined\<close> is left out of an object; in an array \<open>undefined\<close> is
  written \<open>null\<close>. At the top \<open>undefined\<close> gives no text.
\<close>

function stringifyAt :: "string \<Rightarrow> jsval \<Rightarrow> string" where
  "stringifyAt ind JUndefined = []"
| "stringifyAt ind JNull = ''null''"
| "stringifyAt ind (JBool b) = (if b then ''true'' else ''false'')"
| "stringifyAt ind (JNum n) = intToString n"
| "stringifyAt ind (JStr s) = QuoteJSONString s"
| "stringifyAt ind (JArr xs) =
     (if xs = [] then ''[]''
      else ''['' @ nl @ (ind @ ''  '') @
           join ('','' @ nl @ (ind @ ''  ''))
             (map (\<lambda>x. if x = JUndefined then ''null'' else stringifyAt (ind @ ''  '') x) xs) @
           nl @ ind @ '']'')"
| "stringifyAt ind (JObj kvs) =
     (if filter (\<lambda>p. snd p \<noteq> JUndefined) kvs = [] then ''{}''
      else ''{'' @ nl @ (ind @ ''  '') @
           join ('','' @ nl @ (ind @ ''  ''))
             (map (\<lambda>p. QuoteJSONString (fst p) @ '': '' @ stringifyAt (ind @ ''  '') (snd p))
                (filter (\<lambda>p. snd p \<noteq> JUndefined) kvs)) @
           nl @ ind @ ''}'')"
  by pat_completeness auto
termination
proof (relation "measure (\<lambda>(ind, v). size v)")
  show "wf (measure (\<lambda>(ind, v). size v))" by simp
next
  fix ind :: string and xs :: "jsval list" and x :: jsval
  assume "x \<in> set xs"
  then have "size x < Suc (size_list size xs)"
    by (induction xs) auto
  then show "((ind @ ''  '', x), (ind, JArr xs)) \<in> measure (\<lambda>(ind, v). size v)"
    by simp
next
  fix ind :: string and kvs :: "(string \<times> jsval) list" and x :: "string \<times> jsval"
  assume "x \<in> set (filter (\<lambda>p. snd p \<noteq> JUndefined) kvs)"
  then have "x \<in> set kvs" by simp
  then have "size (snd x) < Suc (size_list (size_prod (\<lambda>_. 0) size) kvs)"
    by (induction kvs) auto
  then show "((ind @ ''  '', snd x), (ind, JObj kvs)) \<in> measure (\<lambda>(ind, v). size v)"
    by simp
qed

definition JSON_stringify2 :: "jsval \<Rightarrow> string" where
  "JSON_stringify2 v = stringifyAt [] v"

section \<open>Tool results: \<open>unsupportedResult\<close> and \<open>errorResult\<close>\<close>

text \<open>
  Both tool files define \<open>unsupportedResult\<close>, \<open>errorResult\<close>, \<open>trimToUndefined\<close> and
  \<open>toTextContent\<close> with the same text; they are modelled once.
\<close>

record TextContent =
  content_type :: string
  content_text :: string

record ToolResult =
  content :: "TextContent list"
  structuredContent :: jsval
  isError :: "bool option"

definition toTextContent :: "string \<Rightarrow> TextContent list" where
  "toTextContent t = [\<lparr>content_type = ''text'', content_text = t\<rparr>]"

definition codeString :: "CapacitiesErrorCode \<Rightarrow> string" where
  "codeString c =
     (case c of
        config_error \<Rightarrow> ''config_error''
      | validation_error \<Rightarrow> ''validation_error''
      | network_error \<Rightarrow> ''network_error''
      | api_error \<Rightarrow> ''api_error''
      | rate_limit \<Rightarrow> ''rate_limit''
      | unsupported \<Rightarrow> ''unsupported'')"

definition trimToUndefined :: "string option \<Rightarrow> string option" where
  "trimToUndefined v =
     (if \<not> truthy v then None
      else if length (trim (the v)) > 0 then Some (trim (the v)) else None)"

definition unsupportedResult :: "string \<Rightarrow> string \<Rightarrow> jsval \<Rightarrow> ToolResult" where
  "unsupportedResult toolName msg details =
     (let unsupportedError = createUnsupportedError msg;
          markdown = join nl
            [''## '' @ toolName,
             [],
             ''- Supported: **no**'',
             ''- Error code: '' @ bt @ codeString (code unsupportedError) @ bt,
             ''- Message: '' @ message unsupportedError,
             ''- Action: '' @ actionableMessage unsupportedError,
             [],
             ''### Details'',
             bt @ bt @ bt @ ''json'',
             JSON_stringify2 details,
             bt @ bt @ bt]
      in \<lparr>content = toTextContent markdown,
          structuredContent = JObj
            [(''tool'', JStr toolName),
             (''supported'', JBool False),
             (''error'', JObj
                [(''code'', JStr (codeString (code unsupportedError))),
                 (''message'', JStr (message unsupportedError)),
                 (''actionableMessage'', JStr (actionableMessage unsupportedError))]),
             (''details'', details)],
          isError = None\<rparr>)"

definition errorResult :: "string \<Rightarrow> thrown \<Rightarrow> ToolResult" where
  "errorResult toolName error =
     (let normalizedError = normalizeCapacitiesError error;
          statusLine =
            (case status normalizedError of
               Some st \<Rightarrow> ''- Status: '' @ natToString st
             | None \<Rightarrow> []);
          markdown = join nl (filter (\<lambda>line. length line > 0)
            [''## '' @ toolName @ '' error'',
             [],
             ''- Code: '' @ bt @ codeString (code normalizedError) @ bt,
             ''- Message: '' @ message normalizedError,
             statusLine,
             ''- Action: '' @ actionableMessage normalizedError])
      in \<lparr>content = toTextContent markdown,
          structuredContent = JObj
            [(''tool'', JStr toolName),
             (''ok'', JBool False),
             (''error'', JObj
                [(''code'', JStr (codeString (code normalizedError))),
                 (''message'', JStr (message normalizedError)),
                 (''status'',
                    (case status normalizedError of Some st \<Rightarrow> JNum (int st) | None \<Rightarrow> JNull)),
                 (''actionableMessage'', JStr (actionableMessage normalizedError))])],
          isError = Some True\<rparr>)"

definition AVAILABLE_ENDPOINTS :: jsval where
  "AVAILABLE_ENDPOINTS =
     JArr [JStr ''/spaces'', JStr ''/space-info'', JStr ''/lookup'', JStr ''/save-weblink'',
           JStr ''/save-to-daily-note'']"

section \<open>capacities-client.ts\<close>

text \<open>
  The remote service takes part through \<open>fetchImpl\<close>: a request is answered by a response,
  or the call is rejected with some thrown value. \<open>JSON.parse\<close> belongs to the host; the
  client casts its result to the interface it declares for the endpoint, so the model has
  one reading of a body text for each of the three interfaces (\<open>None\<close> when \<open>JSON.parse\<close>
  throws), and takes a body that parses to have the declared shape. Reading the body text
  of a response is taken to succeed. Every function that can reach the service returns,
  beside its result, the requests it handed to \<open>fetchImpl\<close>, in order.
\<close>

record CapacitiesSpace =
  space_id :: string
  space_title :: string
  space_icon :: "string option"

record CapacitiesStructureInfo =
  structure_id :: string
  structure_title :: string
  structure_fields :: "(string \<times> jsval) list"

record CapacitiesLookupResult =
  result_id :: string
  result_structureId :: string
  result_title :: string

datatype HttpMethod = GET | POST

record Request =
  req_method :: HttpMethod
  req_base :: string
  req_path :: string
  req_query :: "(string \<times> string) list"
  req_authorization :: string
  req_contentType :: "string option"
  req_body :: "jsval option"

datatype FetchOutcome = FetchRejects thrown | FetchResolves Response

record Host =
  fetchImpl :: "Request \<Rightarrow> FetchOutcome"
  parseSpacesResponse :: "string \<Rightarrow> CapacitiesSpace list option"
  parseSpaceInfoResponse :: "string \<Rightarrow> CapacitiesStructureInfo list option"
  parseLookupResponse :: "string \<Rightarrow> CapacitiesLookupResult list option"
  now :: Date
  spacesSettlesFirst :: bool

definition methodString :: "HttpMethod \<Rightarrow> string" where
  "methodString m = (case m of GET \<Rightarrow> ''GET'' | POST \<Rightarrow> ''POST'')"

definition requestJson ::
  "CapacitiesConfig \<Rightarrow> (Request \<Rightarrow> FetchOutcome) \<Rightarrow> (string \<Rightarrow> 'a option) \<Rightarrow> HttpMethod \<Rightarrow>
   string \<Rightarrow> (string \<times> string option) list \<Rightarrow> jsval option \<Rightarrow>
   (CapacitiesError + 'a) \<times> Request list" where
  "requestJson config fetch parse method path query body =
     (let request =
            \<lparr>req_method = method,
             req_base = baseUrl config,
             req_path = path,
             req_query = map (\<lambda>kv. (fst kv, the (snd kv))) (filter (\<lambda>kv. snd kv \<noteq> None) query),
             req_authorization = ''Bearer '' @ apiToken config,
             req_contentType = (if body \<noteq> None then Some ''application/json'' else None),
             req_body = body\<rparr>
      in (case fetch request of
            FetchRejects e \<Rightarrow> Inl (normalizeCapacitiesError e)
          | FetchResolves response \<Rightarrow>
              (if \<not> resp_ok response then
                 Inl (normalizeCapacitiesError (ThrownCapacities (createHttpError response)))
               else if trim (resp_text response) = [] then
                 Inl (normalizeCapacitiesError (ThrownCapacities
                   (createApiError
                      (''Capacities API returned an empty response body for '' @
                       methodString method @ '' '' @ path @ ''.'')
                      (Some (resp_status response))
                      (Some ''Check endpoint behavior in Capacities docs. Use only endpoints with documented response bodies.''))))
               else
                 (case parse (resp_text response) of
                    None \<Rightarrow>
                      Inl (normalizeCapacitiesError (ThrownCapacities
                        (createApiError
                           (''Capacities API returned invalid JSON for '' @
                            methodString method @ '' '' @ path @ ''.'')
                           (Some (resp_status response)) None)))
                  | Some v \<Rightarrow> Inr v)),
          [request]))"

definition getSpaces ::
  "Host \<Rightarrow> CapacitiesConfig \<Rightarrow> (CapacitiesError + CapacitiesSpace list) \<times> Request list" where
  "getSpaces host config =
     requestJson config (fetchImpl host) (parseSpacesResponse host) GET ''/spaces'' [] None"

definition getSpaceInfo ::
  "Host \<Rightarrow> CapacitiesConfig \<Rightarrow> string option \<Rightarrow>
   (CapacitiesError + CapacitiesStructureInfo list) \<times> Request list" where
  "getSpaceInfo host config spaceId =
     (case resolveSpaceId spaceId config of
        Inl e \<Rightarrow> (Inl e, [])
      | Inr resolvedSpaceId \<Rightarrow>
          requestJson config (fetchImpl host) (parseSpaceInfoResponse host) GET ''/space-info''
            [(''spaceid'', Some resolvedSpaceId)] None)"

definition lookup ::
  "Host \<Rightarrow> CapacitiesConfig \<Rightarrow> string \<Rightarrow> string option \<Rightarrow>
   (CapacitiesError + CapacitiesLookupResult list) \<times> Request list" where
  "lookup host config searchTerm spaceId =
     (let trimmedSearchTerm = trim searchTerm
      in if trimmedSearchTerm = [] then
           (Inl (createValidationError ''lookup searchTerm must be a non-empty string.''), [])
         else
           (case resolveSpaceId spaceId config of
              Inl e \<Rightarrow> (Inl e, [])
            | Inr resolvedSpaceId \<Rightarrow>
                requestJson config (fetchImpl host) (parseLookupResponse host) POST ''/lookup'' []
                  (Some (JObj [(''searchTerm'', JStr trimmedSearchTerm),
                               (''spaceId'', JStr resolvedSpaceId)]))))"

section \<open>read-query-tools.ts\<close>

text \<open>
  A handler is modelled on the argument that the tool's input schema hands to it: the
  optional strings are \<open>None\<close> when the property is missing. The clock is read through
  \<open>now\<close> of the host; one invocation is taken to read the same time each time.
\<close>

definition DEFAULT_LIMIT :: int where
  "DEFAULT_LIMIT = 20"

record SearchEntitiesInput =
  se_spaceId :: "string option"
  se_text :: "string option"
  se_type :: "string option"
  se_date :: "string option"
  se_dateFrom :: "string option"
  se_dateTo :: "string option"
  se_limit :: "int option"

record SearchEntitiesFilters =
  sf_spaceId :: "string option"
  sf_text :: "string option"
  sf_type :: "string option"
  sf_date :: "string option"
  sf_dateFrom :: "string option"
  sf_dateTo :: "string option"
  sf_limit :: int

datatype ListTasksStatus = StatusOpen | StatusCompleted | StatusAll

record ListTasksInput =
  lt_spaceId :: "string option"
  lt_status :: "ListTasksStatus option"
  lt_date :: "string option"
  lt_dateFrom :: "string option"
  lt_dateTo :: "string option"

record ListTasksFilters =
  lf_spaceId :: "string option"
  lf_status :: ListTasksStatus
  lf_date :: "string option"
  lf_dateFrom :: "string option"
  lf_dateTo :: "string option"

record GetEntityByIdInput =
  ge_entityId :: string
  ge_structureId :: string
  ge_spaceId :: "string option"

text \<open>\<open>input.date ? normalizeDateInput(input.date) : undefined\<close>\<close>

definition normalizeIfPresent :: "string option \<Rightarrow> Date \<Rightarrow> CapacitiesError + string option" where
  "normalizeIfPresent v clock =
     (if truthy v
      then (case normalizeDateInput (the v) clock of Inl e \<Rightarrow> Inl e | Inr d \<Rightarrow> Inr (Some d))
      else Inr None)"

text \<open>\<open>validateDateInputs\<close> returns the error it throws, or \<open>None\<close> when it returns.\<close>

definition validateDateInputs ::
  "string option \<Rightarrow> string option \<Rightarrow> string option \<Rightarrow> CapacitiesError option" where
  "validateDateInputs date dateFrom dateTo =
     (if truthy date \<and> (truthy dateFrom \<or> truthy dateTo) then
        Some (createValidationError ''Use either date or dateFrom/dateTo, not both.'')
      else if (truthy dateFrom \<and> \<not> truthy dateTo) \<or> (\<not> truthy dateFrom \<and> truthy dateTo) then
        Some (createValidationError ''dateFrom and dateTo must be provided together.'')
      else if truthy dateFrom \<and> truthy dateTo \<and> string_gt (the dateFrom) (the dateTo) then
        Some (createValidationError ''dateFrom must be earlier than or equal to dateTo.'')
      else None)"

definition normalizeSearchEntitiesFilters ::
  "SearchEntitiesInput \<Rightarrow> Date \<Rightarrow> CapacitiesError + SearchEntitiesFilters" where
  "normalizeSearchEntitiesFilters input clock =
     (case normalizeIfPresent (se_date input) clock of
        Inl e \<Rightarrow> Inl e
      | Inr date \<Rightarrow>
     (case normalizeIfPresent (se_dateFrom input) clock of
        Inl e \<Rightarrow> Inl e
      | Inr dateFrom \<Rightarrow>
     (case normalizeIfPresent (se_dateTo input) clock of
        Inl e \<Rightarrow> Inl e
      | Inr dateTo \<Rightarrow>
     (case validateDateInputs date dateFrom dateTo of
        Some e \<Rightarrow> Inl e
      | None \<Rightarrow>
          Inr \<lparr>sf_spaceId = trimToUndefined (se_spaceId input),
               sf_text = trimToUndefined (se_text input),
               sf_type = trimToUndefined (se_type input),
               sf_date = date,
               sf_dateFrom = dateFrom,
               sf_dateTo = dateTo,
               sf_limit = (case se_limit input of None \<Rightarrow> DEFAULT_LIMIT | Some l \<Rightarrow> l)\<rparr>))))"

definition normalizeListTasksFilters ::
  "ListTasksInput \<Rightarrow> Date \<Rightarrow> CapacitiesError + ListTasksFilters" where
  "normalizeListTasksFilters input clock =
     (case normalizeIfPresent (lt_date input) clock of
        Inl e \<Rightarrow> Inl e
      | Inr date \<Rightarrow>
     (case normalizeIfPresent (lt_dateFrom input) clock of
        Inl e \<Rightarrow> Inl e
      | Inr dateFrom \<Rightarrow>
     (case normalizeIfPresent (lt_dateTo input) clock of
        Inl e \<Rightarrow> Inl e
      | Inr dateTo \<Rightarrow>
     (case validateDateInputs date dateFrom dateTo of
        Some e \<Rightarrow> Inl e
      | None \<Rightarrow>
          Inr \<lparr>lf_spaceId = trimToUndefined (lt_spaceId input),
               lf_status = (case lt_status input of None \<Rightarrow> StatusAll | Some st \<Rightarrow> st),
               lf_date = date,
               lf_dateFrom = dateFrom,
               lf_dateTo = dateTo\<rparr>))))"

text \<open>\<open>record[key]\<close> on a structure, and \<open>getOptionalStringField\<close>.\<close>

definition structureProperty :: "CapacitiesStructureInfo \<Rightarrow> string \<Rightarrow> jsval option" where
  "structureProperty structure key =
     (if key = ''id'' then Some (JStr (structure_id structure))
      else if key = ''title'' then Some (JStr (structure_title structure))
      else map_of (structure_fields structure) key)"

definition getOptionalStringField :: "CapacitiesStructureInfo \<Rightarrow> string \<Rightarrow> string option" where
  "getOptionalStringField rec key =
     (case structureProperty rec key of Some (JStr v) \<Rightarrow> Some v | _ \<Rightarrow> None)"

text \<open>The \<open>Set\<close> of structure ids is the list of its members in insertion order.\<close>

definition structureMatchesType :: "string \<Rightarrow> CapacitiesStructureInfo \<Rightarrow> bool" where
  "structureMatchesType normalizedType structure =
     (let titleMatches = (toLowerCase (structure_title structure) = normalizedType);
          idMatches = (toLowerCase (structure_id structure) = normalizedType);
          pluralName = getOptionalStringField structure ''pluralName'';
          pluralMatches =
            (case pluralName of None \<Rightarrow> False | Some pn \<Rightarrow> toLowerCase pn = normalizedType)
      in titleMatches \<or> idMatches \<or> pluralMatches)"

fun addStructureIds ::
  "string \<Rightarrow> CapacitiesStructureInfo list \<Rightarrow> string list \<Rightarrow> string list" where
  "addStructureIds normalizedType [] structureIds = structureIds"
| "addStructureIds normalizedType (structure # rest) structureIds =
     addStructureIds normalizedType rest
       (if structureMatchesType normalizedType structure
        then (if structure_id structure \<in> set structureIds then structureIds
              else structureIds @ [structure_id structure])
        else structureIds)"

definition resolveStructureIdsByType ::
  "string \<Rightarrow> CapacitiesStructureInfo list \<Rightarrow> string list" where
  "resolveStructureIdsByType typeFilter structures =
     addStructureIds (toLowerCase typeFilter) structures []"

definition matchesTypeFilter :: "CapacitiesLookupResult \<Rightarrow> string \<Rightarrow> string list \<Rightarrow> bool" where
  "matchesTypeFilter result typeFilter allowedStructureIds =
     (if length allowedStructureIds > 0 then result_structureId result \<in> set allowedStructureIds
      else toLowerCase (result_structureId result) = toLowerCase typeFilter)"

definition renderSpaceInfoMarkdown ::
  "string \<Rightarrow> string option \<Rightarrow> nat \<Rightarrow> CapacitiesStructureInfo list \<Rightarrow> string" where
  "renderSpaceInfoMarkdown spaceId spaceTitle spacesCount structures =
     (let structureLines =
            (if length structures > 0
             then join nl (map (\<lambda>structure.
                    ''- '' @ bt @ structure_id structure @ bt @ '' - '' @ structure_title structure)
                    structures)
             else ''- No structures returned by Capacities API.'')
      in join nl
           [''## Space Info'',
            [],
            ''- Space ID: '' @ bt @ spaceId @ bt,
            ''- Space title: '' @
              (case spaceTitle of None \<Rightarrow> ''_Unknown in /spaces response_'' | Some t \<Rightarrow> t),
            ''- Accessible spaces in token scope: '' @ natToString spacesCount,
            ''- Structures returned: '' @ natToString (length structures),
            [],
            ''### Structures'',
            structureLines])"

definition renderDateFilter :: "SearchEntitiesFilters \<Rightarrow> string" where
  "renderDateFilter filters =
     (if truthy (sf_date filters) then bt @ the (sf_date filters) @ bt
      else if truthy (sf_dateFrom filters) \<and> truthy (sf_dateTo filters)
      then bt @ the (sf_dateFrom filters) @ bt @ '' to '' @ bt @ the (sf_dateTo filters) @ bt
      else ''_Not provided_'')"

definition renderSearchEntitiesMarkdown ::
  "SearchEntitiesFilters \<Rightarrow> CapacitiesLookupResult list \<Rightarrow> nat \<Rightarrow> string list \<Rightarrow> string" where
  "renderSearchEntitiesMarkdown filters results totalBeforeLimit notes =
     (let resultsLines =
            (if length results > 0
             then join nl (map (\<lambda>result.
                    ''- **'' @ result_title result @ ''**  '' @ nl @ ''  ID: '' @ bt @
                    result_id result @ bt @ ''  '' @ nl @ ''  Structure: '' @ bt @
                    result_structureId result @ bt) results)
             else ''- No matching entities.'');
          notesLines =
            (if length notes > 0 then join nl (map (\<lambda>note. ''- '' @ note) notes)
             else ''- None.'')
      in join nl
           [''## Search Entities'',
            [],
            ''- Text query: '' @
              (if truthy (sf_text filters) then bt @ the (sf_text filters) @ bt
               else ''_Not provided_''),
            ''- Type filter: '' @
              (if truthy (sf_type filters) then bt @ the (sf_type filters) @ bt
               else ''_Not provided_''),
            ''- Date filter: '' @ renderDateFilter filters,
            ''- Matches before limit: '' @ natToString totalBeforeLimit,
            ''- Returned after limit ('' @ intToString (sf_limit filters) @ ''): '' @
              natToString (length results),
            [],
            ''### Results'',
            resultsLines,
            [],
            ''### Notes'',
            notesLines])"

definition structureJson :: "CapacitiesStructureInfo \<Rightarrow> jsval" where
  "structureJson structure =
     JObj ((''id'', JStr (structure_id structure)) #
           (''title'', JStr (structure_title structure)) # structure_fields structure)"

definition lookupResultJson :: "CapacitiesLookupResult \<Rightarrow> jsval" where
  "lookupResultJson result =
     JObj [(''id'', JStr (result_id result)),
           (''structureId'', JStr (result_structureId result)),
           (''title'', JStr (result_title result))]"

definition searchFiltersJson :: "SearchEntitiesFilters \<Rightarrow> jsval" where
  "searchFiltersJson filters =
     JObj [(''spaceId'', optStr (sf_spaceId filters)),
           (''text'', optStr (sf_text filters)),
           (''type'', optStr (sf_type filters)),
           (''date'', optStr (sf_date filters)),
           (''dateFrom'', optStr (sf_dateFrom filters)),
           (''dateTo'', optStr (sf_dateTo filters)),
           (''limit'', JNum (sf_limit filters))]"

definition listStatusString :: "ListTasksStatus \<Rightarrow> string" where
  "listStatusString st =
     (case st of StatusOpen \<Rightarrow> ''open'' | StatusCompleted \<Rightarrow> ''completed'' | StatusAll \<Rightarrow> ''all'')"

definition listFiltersJson :: "ListTasksFilters \<Rightarrow> jsval" where
  "listFiltersJson filters =
     JObj [(''spaceId'', optStr (lf_spaceId filters)),
           (''status'', JStr (listStatusString (lf_status filters))),
           (''date'', optStr (lf_date filters)),
           (''dateFrom'', optStr (lf_dateFrom filters)),
           (''dateTo'', optStr (lf_dateTo filters))]"

text \<open>\<open>Array.prototype.slice(0, end)\<close>: a negative end counts from the end of the array.\<close>

definition slice0 :: "'a list \<Rightarrow> int \<Rightarrow> 'a list" where
  "slice0 xs e = (if e < 0 then take (nat (int (length xs) + e)) xs else take (nat e) xs)"

text \<open>
  \<open>Promise.all\<close> over the two calls of \<open>get_space_info\<close>: both have been started; when both
  are rejected the one that settles first decides the error.
\<close>

definition Promise_all ::
  "bool \<Rightarrow> CapacitiesError + 'a \<Rightarrow> CapacitiesError + 'b \<Rightarrow> CapacitiesError + ('a \<times> 'b)" where
  "Promise_all firstSettlesFirst r1 r2 =
     (case r1 of
        Inl e1 \<Rightarrow>
          (case r2 of
             Inl e2 \<Rightarrow> Inl (if firstSettlesFirst then e1 else e2)
           | Inr v2 \<Rightarrow> Inl e1)
      | Inr v1 \<Rightarrow> (case r2 of Inl e2 \<Rightarrow> Inl e2 | Inr v2 \<Rightarrow> Inr (v1, v2)))"

definition get_space_info ::
  "Host \<Rightarrow> CapacitiesConfig \<Rightarrow> string option \<Rightarrow> ToolResult \<times> Request list" where
  "get_space_info host config spaceId =
     (case resolveSpaceId spaceId config of
        Inl e \<Rightarrow> (errorResult ''get_space_info'' (ThrownCapacities e), [])
      | Inr resolvedSpaceId \<Rightarrow>
          (let first = getSpaces host config;
               second = getSpaceInfo host config (Some resolvedSpaceId)
           in (case Promise_all (spacesSettlesFirst host) (fst first) (fst second) of
                 Inl e \<Rightarrow> errorResult ''get_space_info'' (ThrownCapacities e)
               | Inr (spaces, structures) \<Rightarrow>
                   (let selectedSpace = find (\<lambda>space. space_id space = resolvedSpaceId) spaces;
                        spaceTitle = map_option space_title selectedSpace;
                        markdown = renderSpaceInfoMarkdown resolvedSpaceId spaceTitle
                                     (length spaces) structures
                    in \<lparr>content = toTextContent markdown,
                        structuredContent = JObj
                          [(''tool'', JStr ''get_space_info''),
                           (''spaceId'', JStr resolvedSpaceId),
                           (''spaceTitle'',
                              (case spaceTitle of None \<Rightarrow> JNull | Some t \<Rightarrow> JStr t)),
                           (''spacesCount'', JNum (int (length spaces))),
                           (''structures'', JArr (map structureJson structures))],
                        isError = None\<rparr>),
               snd first @ snd second)))"

definition typeFilterNote :: "string \<Rightarrow> string" where
  "typeFilterNote typeFilter =
     ''No results matched type filter '' @ bt @ typeFilter @ bt @
     '' using structure metadata from '' @ bt @ ''/space-info'' @ bt @ ''.''"

definition dateFilterNote :: string where
  "dateFilterNote =
     ''Date filters are accepted for compatibility but not applied because /lookup does not return entity date fields.''"

text \<open>The end of the \<open>search_entities\<close> handler, from the date note on.\<close>

definition searchEntitiesSuccess ::
  "SearchEntitiesFilters \<Rightarrow> CapacitiesLookupResult list \<Rightarrow> string list \<Rightarrow> ToolResult" where
  "searchEntitiesSuccess filters filteredResults notes0 =
     (let notes =
            (if truthy (sf_date filters) \<or> truthy (sf_dateFrom filters) \<or> truthy (sf_dateTo filters)
             then notes0 @ [dateFilterNote] else notes0);
          limitedResults = slice0 filteredResults (sf_limit filters);
          markdown = renderSearchEntitiesMarkdown filters limitedResults
                       (length filteredResults) notes
      in \<lparr>content = toTextContent markdown,
          structuredContent = JObj
            [(''tool'', JStr ''search_entities''),
             (''query'', searchFiltersJson filters),
             (''totalResultsBeforeLimit'', JNum (int (length filteredResults))),
             (''returnedResults'', JNum (int (length limitedResults))),
             (''unsupportedNotes'', JArr (map JStr notes)),
             (''results'', JArr (map lookupResultJson limitedResults))],
          isError = None\<rparr>)"

definition searchSupportedJson :: jsval where
  "searchSupportedJson =
     JObj [(''text'', JBool True),
           (''type'', JStr ''best-effort (via structureId/title mapping)''),
           (''date'', JBool False),
           (''dateRange'', JBool False)]"

definition search_entities ::
  "Host \<Rightarrow> CapacitiesConfig \<Rightarrow> SearchEntitiesInput \<Rightarrow> ToolResult \<times> Request list" where
  "search_entities host config input =
     (case normalizeSearchEntitiesFilters input (now host) of
        Inl e \<Rightarrow> (errorResult ''search_entities'' (ThrownCapacities e), [])
      | Inr filters \<Rightarrow>
     (case resolveSpaceId (sf_spaceId filters) config of
        Inl e \<Rightarrow> (errorResult ''search_entities'' (ThrownCapacities e), [])
      | Inr resolvedSpaceId \<Rightarrow>
          (if \<not> truthy (sf_text filters) then
             (unsupportedResult ''search_entities''
                ''Capacities /lookup requires a non-empty text query. Date-only or type-only search is not supported by the public API.''
                (JObj [(''requestedFilters'', searchFiltersJson filters),
                       (''supported'', searchSupportedJson)]),
              [])
           else
             (let looked = lookup host config (the (sf_text filters)) (Some resolvedSpaceId)
              in (case fst looked of
                    Inl e \<Rightarrow> (errorResult ''search_entities'' (ThrownCapacities e), snd looked)
                  | Inr results \<Rightarrow>
                      (if truthy (sf_type filters) then
                         (let typeFilter = the (sf_type filters);
                              info = getSpaceInfo host config (Some resolvedSpaceId)
                          in (case fst info of
                                Inl e \<Rightarrow>
                                  (errorResult ''search_entities'' (ThrownCapacities e),
                                   snd looked @ snd info)
                              | Inr structures \<Rightarrow>
                                  (let allowedStructureIds =
                                         resolveStructureIdsByType typeFilter structures;
                                       filteredResults =
                                         filter (\<lambda>result.
                                           matchesTypeFilter result typeFilter allowedStructureIds)
                                           results;
                                       notes =
                                         (if length filteredResults = 0
                                          then [typeFilterNote typeFilter] else [])
                                   in (searchEntitiesSuccess filters filteredResults notes,
                                       snd looked @ snd info))))
                       else (searchEntitiesSuccess filters results [], snd looked)))))))"

definition get_entity_by_id :: "CapacitiesConfig \<Rightarrow> GetEntityByIdInput \<Rightarrow> ToolResult \<times> Request list" where
  "get_entity_by_id config input =
     (unsupportedResult ''get_entity_by_id''
        ''Capacities public API does not provide a documented endpoint to fetch an entity by ID and structure.''
        (JObj [(''requestedEntity'', JObj
                  [(''entityId'', JStr (ge_entityId input)),
                   (''structureId'', JStr (ge_structureId input)),
                   (''spaceId'',
                      (case ge_spaceId input of
                         Some s \<Rightarrow> JStr s
                       | None \<Rightarrow>
                           (case defaultSpaceId config of Some d \<Rightarrow> JStr d | None \<Rightarrow> JNull)))]),
               (''availableEndpoints'', AVAILABLE_ENDPOINTS)]),
      [])"

definition list_tasks :: "Date \<Rightarrow> ListTasksInput \<Rightarrow> ToolResult \<times> Request list" where
  "list_tasks clock input =
     (case normalizeListTasksFilters input clock of
        Inl e \<Rightarrow> (errorResult ''list_tasks'' (ThrownCapacities e), [])
      | Inr filters \<Rightarrow>
          (unsupportedResult ''list_tasks''
             ''Capacities public API does not provide a documented endpoint for listing tasks or filtering by task status/date.''
             (JObj [(''requestedFilters'', listFiltersJson filters),
                    (''availableEndpoints'', AVAILABLE_ENDPOINTS)]),
           []))"

section \<open>mutation-tools.ts\<close>

text \<open>A property that may be missing (\<open>undefined\<close>), \<open>null\<close>, or a value.\<close>

datatype 'a nullable = Undefined | Null | Value 'a

datatype UpdateTaskStatus = UpdateOpen | UpdateCompleted

record CreateTaskArgs =
  ct_spaceId :: "string option"
  ct_title :: string
  ct_description :: "string option"
  ct_dueDate :: "string option"

record CreateTaskInput =
  cp_spaceId :: string
  cp_title :: string
  cp_description :: "string option"
  cp_dueDate :: "string option"

record UpdateTaskArgs =
  ut_taskId :: string
  ut_spaceId :: "string option"
  ut_title :: "string option"
  ut_description :: "string nullable"
  ut_dueDate :: "string nullable"
  ut_status :: "UpdateTaskStatus option"

record UpdateTaskInput =
  up_taskId :: string
  up_spaceId :: string
  up_title :: "string option"
  up_description :: "string nullable"
  up_dueDate :: "string nullable"
  up_status :: "UpdateTaskStatus option"

record CompleteTaskArgs =
  cm_taskId :: string
  cm_spaceId :: "string option"
  cm_completed :: "bool option"

record CompleteTaskInput =
  cq_taskId :: string
  cq_spaceId :: string
  cq_completed :: bool

definition normalizeNullableText ::
  "string nullable \<Rightarrow> string \<Rightarrow> CapacitiesError + string nullable" where
  "normalizeNullableText v fieldName =
     (case v of
        Undefined \<Rightarrow> Inr Undefined
      | Null \<Rightarrow> Inr Null
      | Value s \<Rightarrow>
          (case trimToUndefined (Some s) of
             None \<Rightarrow>
               Inl (createValidationError
                     (fieldName @ '' must be a non-empty string when provided.''))
           | Some trimmed \<Rightarrow> Inr (Value trimmed)))"

definition normalizeOptionalDate :: "string option \<Rightarrow> Date \<Rightarrow> CapacitiesError + string option" where
  "normalizeOptionalDate v clock =
     (case v of
        None \<Rightarrow> Inr None
      | Some s \<Rightarrow>
          (case trimToUndefined (Some s) of
             None \<Rightarrow>
               Inl (createValidationError
                     ''dueDate must be a non-empty date string when provided.'')
           | Some trimmed \<Rightarrow>
               (case normalizeDateInput trimmed clock of
                  Inl e \<Rightarrow> Inl e
                | Inr d \<Rightarrow> Inr (Some d))))"

definition normalizeNullableDate ::
  "string nullable \<Rightarrow> Date \<Rightarrow> CapacitiesError + string nullable" where
  "normalizeNullableDate v clock =
     (case v of
        Undefined \<Rightarrow> Inr Undefined
      | Null \<Rightarrow> Inr Null
      | Value s \<Rightarrow>
          (case trimToUndefined (Some s) of
             None \<Rightarrow>
               Inl (createValidationError
                     ''dueDate must be a non-empty date string when provided.'')
           | Some trimmed \<Rightarrow>
               (case normalizeDateInput trimmed clock of
                  Inl e \<Rightarrow> Inl e
                | Inr d \<Rightarrow> Inr (Value d))))"

text \<open>
  The object literal of \<open>normalizeCreateTaskInput\<close> evaluates its properties in order:
  \<open>resolveSpaceId\<close> first, \<open>normalizeOptionalDate\<close> last.
\<close>

definition normalizeCreateTaskInput ::
  "CreateTaskArgs \<Rightarrow> CapacitiesConfig \<Rightarrow> Date \<Rightarrow> CapacitiesError + CreateTaskInput" where
  "normalizeCreateTaskInput input config clock =
     (case trimToUndefined (Some (ct_title input)) of
        None \<Rightarrow> Inl (createValidationError ''title must be a non-empty string.'')
      | Some title \<Rightarrow>
          (case resolveSpaceId (ct_spaceId input) config of
             Inl e \<Rightarrow> Inl e
           | Inr spaceId \<Rightarrow>
               (case normalizeOptionalDate (ct_dueDate input) clock of
                  Inl e \<Rightarrow> Inl e
                | Inr dueDate \<Rightarrow>
                    Inr \<lparr>cp_spaceId = spaceId, cp_title = title,
                         cp_description = trimToUndefined (ct_description input),
                         cp_dueDate = dueDate\<rparr>)))"

definition normalizeUpdateTaskInput ::
  "UpdateTaskArgs \<Rightarrow> CapacitiesConfig \<Rightarrow> Date \<Rightarrow> CapacitiesError + UpdateTaskInput" where
  "normalizeUpdateTaskInput input config clock =
     (case trimToUndefined (Some (ut_taskId input)) of
        None \<Rightarrow> Inl (createValidationError ''taskId must be a non-empty string.'')
      | Some taskId \<Rightarrow>
          (let title = (if ut_title input = None then None else trimToUndefined (ut_title input))
           in if ut_title input \<noteq> None \<and> \<not> truthy title then
                Inl (createValidationError ''title must be a non-empty string when provided.'')
              else
                (case normalizeNullableText (ut_description input) ''description'' of
                   Inl e \<Rightarrow> Inl e
                 | Inr description \<Rightarrow>
                (case normalizeNullableDate (ut_dueDate input) clock of
                   Inl e \<Rightarrow> Inl e
                 | Inr dueDate \<Rightarrow>
                     (let st = ut_status input
                      in if title = None \<and> description = Undefined \<and> dueDate = Undefined \<and>
                            st = None then
                           Inl (createValidationError
                                 ''Provide at least one update field: title, description, dueDate, or status.'')
                         else
                           (case resolveSpaceId (ut_spaceId input) config of
                              Inl e \<Rightarrow> Inl e
                            | Inr spaceId \<Rightarrow>
                                Inr \<lparr>up_taskId = taskId, up_spaceId = spaceId,
                                     up_title = title, up_description = description,
                                     up_dueDate = dueDate, up_status = st\<rparr>))))))"

definition normalizeCompleteTaskInput ::
  "CompleteTaskArgs \<Rightarrow> CapacitiesConfig \<Rightarrow> CapacitiesError + CompleteTaskInput" where
  "normalizeCompleteTaskInput input config =
     (case trimToUndefined (Some (cm_taskId input)) of
        None \<Rightarrow> Inl (createValidationError ''taskId must be a non-empty string.'')
      | Some taskId \<Rightarrow>
          (case resolveSpaceId (cm_spaceId input) config of
             Inl e \<Rightarrow> Inl e
           | Inr spaceId \<Rightarrow>
               Inr \<lparr>cq_taskId = taskId, cq_spaceId = spaceId,
                    cq_completed = (case cm_completed input of None \<Rightarrow> True | Some b \<Rightarrow> b)\<rparr>))"

definition nullableStr :: "string nullable \<Rightarrow> jsval" where
  "nullableStr v = (case v of Undefined \<Rightarrow> JUndefined | Null \<Rightarrow> JNull | Value s \<Rightarrow> JStr s)"

definition updateStatusJson :: "UpdateTaskStatus option \<Rightarrow> jsval" where
  "updateStatusJson st =
     (case st of
        None \<Rightarrow> JUndefined
      | Some UpdateOpen \<Rightarrow> JStr ''open''
      | Some UpdateCompleted \<Rightarrow> JStr ''completed'')"

definition createTaskJson :: "CreateTaskInput \<Rightarrow> jsval" where
  "createTaskJson payload =
     JObj [(''spaceId'', JStr (cp_spaceId payload)),
           (''title'', JStr (cp_title payload)),
           (''description'', optStr (cp_description payload)),
           (''dueDate'', optStr (cp_dueDate payload))]"

definition updateTaskJson :: "UpdateTaskInput \<Rightarrow> jsval" where
  "updateTaskJson payload =
     JObj [(''taskId'', JStr (up_taskId payload)),
           (''spaceId'', JStr (up_spaceId payload)),
           (''title'', optStr (up_title payload)),
           (''description'', nullableStr (up_description payload)),
           (''dueDate'', nullableStr (up_dueDate payload)),
           (''status'', updateStatusJson (up_status payload))]"

definition completeTaskJson :: "CompleteTaskInput \<Rightarrow> jsval" where
  "completeTaskJson payload =
     JObj [(''taskId'', JStr (cq_taskId payload)),
           (''spaceId'', JStr (cq_spaceId payload)),
           (''completed'', JBool (cq_completed payload))]"

definition create_task ::
  "Date \<Rightarrow> CapacitiesConfig \<Rightarrow> CreateTaskArgs \<Rightarrow> ToolResult \<times> Request list" where
  "create_task clock config input =
     (case normalizeCreateTaskInput input config clock of
        Inl e \<Rightarrow> (errorResult ''create_task'' (ThrownCapacities e), [])
      | Inr payload \<Rightarrow>
          (unsupportedResult ''create_task''
             ''Capacities public API does not provide a documented endpoint for creating tasks.''
             (JObj [(''requestedTask'', createTaskJson payload),
                    (''availableEndpoints'', AVAILABLE_ENDPOINTS)]),
           []))"

definition update_task ::
  "Date \<Rightarrow> CapacitiesConfig \<Rightarrow> UpdateTaskArgs \<Rightarrow> ToolResult \<times> Request list" where
  "update_task clock config input =
     (case normalizeUpdateTaskInput input config clock of
        Inl e \<Rightarrow> (errorResult ''update_task'' (ThrownCapacities e), [])
      | Inr payload \<Rightarrow>
          (unsupportedResult ''update_task''
             ''Capacities public API does not provide a documented endpoint for updating task fields or status.''
             (JObj [(''requestedUpdate'', updateTaskJson payload),
                    (''availableEndpoints'', AVAILABLE_ENDPOINTS)]),
           []))"

definition complete_task ::
  "CapacitiesConfig \<Rightarrow> CompleteTaskArgs \<Rightarrow> ToolResult \<times> Request list" where
  "complete_task config input =
     (case normalizeCompleteTaskInput input config of
        Inl e \<Rightarrow> (errorResult ''complete_task'' (ThrownCapacities e), [])
      | Inr payload \<Rightarrow>
          (unsupportedResult ''complete_task''
             ''Capacities public API does not provide a documented endpoint for completing or uncompleting tasks.''
             (JObj [(''requestedAction'', completeTaskJson payload),
                    (''availableEndpoints'', AVAILABLE_ENDPOINTS)]),
           []))"

section \<open>The three shapes of a tool result\<close>

text \<open>
  The shapes are told apart by the properties of the structured payload and by the
  \<open>isError\<close> flag: a success payload has the \<open>tool\<close> tag and none of \<open>supported\<close>, \<open>ok\<close>,
  \<open>error\<close>; an unsupported payload has \<open>supported: false\<close>, an \<open>error\<close> object with the code
  \<open>unsupported\<close>, and \<open>details\<close>; an error payload has \<open>ok: false\<close>, an \<open>error\<close> object with a
  code, a message, a status (a number or \<open>null\<close>) and an action, and the result has
  \<open>isError: true\<close>.
\<close>

definition isStr :: "jsval option \<Rightarrow> bool" where
  "isStr v = (case v of Some (JStr s) \<Rightarrow> True | _ \<Rightarrow> False)"

definition errorCodeOf :: "ToolResult \<Rightarrow> string option" where
  "errorCodeOf r =
     (case jget ''error'' (structuredContent r) of
        Some e \<Rightarrow> (case jget ''code'' e of Some (JStr c) \<Rightarrow> Some c | _ \<Rightarrow> None)
      | None \<Rightarrow> None)"

definition isSuccessShape :: "ToolResult \<Rightarrow> bool" where
  "isSuccessShape r =
     (isStr (jget ''tool'' (structuredContent r)) \<and>
      jget ''supported'' (structuredContent r) = None \<and>
      jget ''ok'' (structuredContent r) = None \<and>
      jget ''error'' (structuredContent r) = None \<and>
      isError r = None)"

definition isUnsupportedShape :: "ToolResult \<Rightarrow> bool" where
  "isUnsupportedShape r =
     (isStr (jget ''tool'' (structuredContent r)) \<and>
      jget ''supported'' (structuredContent r) = Some (JBool False) \<and>
      jget ''ok'' (structuredContent r) = None \<and>
      errorCodeOf r = Some ''unsupported'' \<and>
      (case jget ''error'' (structuredContent r) of
         Some e \<Rightarrow> isStr (jget ''message'' e) \<and> isStr (jget ''actionableMessage'' e) \<and>
                    jget ''status'' e = None
       | None \<Rightarrow> False) \<and>
      jget ''details'' (structuredContent r) \<noteq> None \<and>
      isError r = None)"

definition isErrorShape :: "ToolResult \<Rightarrow> bool" where
  "isErrorShape r =
     (isStr (jget ''tool'' (structuredContent r)) \<and>
      jget ''ok'' (structuredContent r) = Some (JBool False) \<and>
      jget ''supported'' (structuredContent r) = None \<and>
      jget ''details'' (structuredContent r) = None \<and>
      (case jget ''error'' (structuredContent r) of
         Some e \<Rightarrow>
           isStr (jget ''code'' e) \<and> isStr (jget ''message'' e) \<and>
           isStr (jget ''actionableMessage'' e) \<and>
           (case jget ''status'' e of Some (JNum n) \<Rightarrow> True | Some JNull \<Rightarrow> True | _ \<Rightarrow> False)
       | None \<Rightarrow> False) \<and>
      isError r = Some True)"

definition hasErrorCode :: "ToolResult \<Rightarrow> CapacitiesErrorCode \<Rightarrow> bool" where
  "hasErrorCode r c = (isErrorShape r \<and> errorCodeOf r = Some (codeString c))"

section \<open>Populated shapes and the rendered summary\<close>

text \<open>
  Reading a payload: the string, the number, the array and the value of a property, with
  the empty string, zero, the empty array and \<open>undefined\<close> where the property is missing or
  of another kind.
\<close>

definition objectKeys :: "jsval \<Rightarrow> string list" where
  "objectKeys v = (case v of JObj kvs \<Rightarrow> map fst kvs | _ \<Rightarrow> [])"

definition textOf :: "string \<Rightarrow> jsval \<Rightarrow> string" where
  "textOf k v = (case jget k v of Some (JStr s) \<Rightarrow> s | _ \<Rightarrow> [])"

definition numberOf :: "string \<Rightarrow> jsval \<Rightarrow> int" where
  "numberOf k v = (case jget k v of Some (JNum n) \<Rightarrow> n | _ \<Rightarrow> 0)"

definition itemsOf :: "string \<Rightarrow> jsval \<Rightarrow> jsval list" where
  "itemsOf k v = (case jget k v of Some (JArr xs) \<Rightarrow> xs | _ \<Rightarrow> [])"

definition objectOf :: "string \<Rightarrow> jsval \<Rightarrow> jsval" where
  "objectOf k v = (case jget k v of Some w \<Rightarrow> w | None \<Rightarrow> JUndefined)"

definition isCount :: "jsval option \<Rightarrow> bool" where
  "isCount v = (case v of Some (JNum n) \<Rightarrow> 0 \<le> n | _ \<Rightarrow> False)"

definition isStrOrNull :: "jsval option \<Rightarrow> bool" where
  "isStrOrNull v = (case v of Some (JStr s) \<Rightarrow> True | Some JNull \<Rightarrow> True | _ \<Rightarrow> False)"

definition isCountOrNull :: "jsval option \<Rightarrow> bool" where
  "isCountOrNull v = (case v of Some (JNum n) \<Rightarrow> 0 \<le> n | Some JNull \<Rightarrow> True | _ \<Rightarrow> False)"

definition isStrVal :: "jsval \<Rightarrow> bool" where
  "isStrVal v = (case v of JStr s \<Rightarrow> True | _ \<Rightarrow> False)"

text \<open>
  The summary of a payload is the markdown that the render functions of the handlers
  write, read off the structured payload alone: the summary of an error payload, of an
  unsupported payload, of the success payload of \<open>get_space_info\<close> and of the success
  payload of \<open>search_entities\<close>. A result is paired with its summary when its content is the
  one text item that holds the summary of its structured payload.
\<close>

definition errorSummary :: "jsval \<Rightarrow> string" where
  "errorSummary p =
     join nl (filter (\<lambda>line. line \<noteq> [])
       [''## '' @ textOf ''tool'' p @ '' error'',
        [],
        ''- Code: '' @ bt @ textOf ''code'' (objectOf ''error'' p) @ bt,
        ''- Message: '' @ textOf ''message'' (objectOf ''error'' p),
        (case jget ''status'' (objectOf ''error'' p) of
           Some (JNum n) \<Rightarrow> ''- Status: '' @ intToString n
         | _ \<Rightarrow> []),
        ''- Action: '' @ textOf ''actionableMessage'' (objectOf ''error'' p)])"

definition unsupportedSummary :: "jsval \<Rightarrow> string" where
  "unsupportedSummary p =
     join nl
       [''## '' @ textOf ''tool'' p,
        [],
        ''- Supported: **no**'',
        ''- Error code: '' @ bt @ textOf ''code'' (objectOf ''error'' p) @ bt,
        ''- Message: '' @ textOf ''message'' (objectOf ''error'' p),
        ''- Action: '' @ textOf ''actionableMessage'' (objectOf ''error'' p),
        [],
        ''### Details'',
        bt @ bt @ bt @ ''json'',
        JSON_stringify2 (objectOf ''details'' p),
        bt @ bt @ bt]"

definition spaceInfoSummary :: "jsval \<Rightarrow> string" where
  "spaceInfoSummary p =
     join nl
       [''## Space Info'',
        [],
        ''- Space ID: '' @ bt @ textOf ''spaceId'' p @ bt,
        ''- Space title: '' @
          (case jget ''spaceTitle'' p of
             Some (JStr t) \<Rightarrow> t
           | _ \<Rightarrow> ''_Unknown in /spaces response_''),
        ''- Accessible spaces in token scope: '' @ intToString (numberOf ''spacesCount'' p),
        ''- Structures returned: '' @ natToString (length (itemsOf ''structures'' p)),
        [],
        ''### Structures'',
        (if itemsOf ''structures'' p = [] then ''- No structures returned by Capacities API.''
         else join nl (map (\<lambda>s. ''- '' @ bt @ textOf ''id'' s @ bt @ '' - '' @ textOf ''title'' s)
                (itemsOf ''structures'' p)))]"

definition quotedOrMissing :: "string \<Rightarrow> string" where
  "quotedOrMissing s = (if s \<noteq> [] then bt @ s @ bt else ''_Not provided_'')"

definition dateFilterSummary :: "jsval \<Rightarrow> string" where
  "dateFilterSummary q =
     (if textOf ''date'' q \<noteq> [] then bt @ textOf ''date'' q @ bt
      else if textOf ''dateFrom'' q \<noteq> [] \<and> textOf ''dateTo'' q \<noteq> []
      then bt @ textOf ''dateFrom'' q @ bt @ '' to '' @ bt @ textOf ''dateTo'' q @ bt
      else ''_Not provided_'')"

definition searchSummary :: "jsval \<Rightarrow> string" where
  "searchSummary p =
     join nl
       [''## Search Entities'',
        [],
        ''- Text query: '' @ quotedOrMissing (textOf ''text'' (objectOf ''query'' p)),
        ''- Type filter: '' @ quotedOrMissing (textOf ''type'' (objectOf ''query'' p)),
        ''- Date filter: '' @ dateFilterSummary (objectOf ''query'' p),
        ''- Matches before limit: '' @ intToString (numberOf ''totalResultsBeforeLimit'' p),
        ''- Returned after limit ('' @ intToString (numberOf ''limit'' (objectOf ''query'' p)) @
          ''): '' @ natToString (length (itemsOf ''results'' p)),
        [],
        ''### Results'',
        (if itemsOf ''results'' p = [] then ''- No matching entities.''
         else join nl (map (\<lambda>r.
                ''- **'' @ textOf ''title'' r @ ''**  '' @ nl @ ''  ID: '' @ bt @ textOf ''id'' r @
                bt @ ''  '' @ nl @ ''  Structure: '' @ bt @ textOf ''structureId'' r @ bt)
                (itemsOf ''results'' p))),
        [],
        ''### Notes'',
        (if itemsOf ''unsupportedNotes'' p = [] then ''- None.''
         else join nl (map (\<lambda>n. ''- '' @ (case n of JStr s \<Rightarrow> s | _ \<Rightarrow> []))
                (itemsOf ''unsupportedNotes'' p)))]"

definition summaryOf :: "jsval \<Rightarrow> string" where
  "summaryOf p =
     (if jget ''ok'' p \<noteq> None then errorSummary p
      else if jget ''supported'' p \<noteq> None then unsupportedSummary p
      else if jget ''tool'' p = Some (JStr ''get_space_info'') then spaceInfoSummary p
      else searchSummary p)"

definition pairedWithSummary :: "ToolResult \<Rightarrow> bool" where
  "pairedWithSummary r =
     (summaryOf (structuredContent r) \<noteq> [] \<and>
      content r =
        [\<lparr>content_type = ''text'', content_text = summaryOf (structuredContent r)\<rparr>])"

text \<open>
  A populated shape has all the properties of its kind, in the order of the handler's
  literal, each filled with a value of its kind, and no other property. The error payload
  is the tool tag, \<open>ok: false\<close> and a classified error (a code of the closed taxonomy, a
  message, a status that is a number or \<open>null\<close>, an action), on a result flagged \<open>isError\<close>.
  The unsupported payload is the tool tag, \<open>supported: false\<close>, an error object with the code
  \<open>unsupported\<close>, a message and an action, and the details that the tool gives. The success
  payload exists for \<open>get_space_info\<close> (the space id, a UUID; the space title, a string or
  \<open>null\<close>; the number of spaces; the structures, each with an id and a title) and for
  \<open>search_entities\<close> (the query with its text; the number of matches before the limit; the
  number of results returned, which is the length of the results and at most the number
  of matches; the notes; the results, each an id, a structure id and a title). The other
  five tools have no success payload.
\<close>

definition errorCodes :: "string list" where
  "errorCodes =
     [''config_error'', ''validation_error'', ''network_error'', ''api_error'', ''rate_limit'',
      ''unsupported'']"

definition populatesError :: "string \<Rightarrow> ToolResult \<Rightarrow> bool" where
  "populatesError toolName r =
     (objectKeys (structuredContent r) = [''tool'', ''ok'', ''error''] \<and>
      jget ''tool'' (structuredContent r) = Some (JStr toolName) \<and>
      jget ''ok'' (structuredContent r) = Some (JBool False) \<and>
      objectKeys (objectOf ''error'' (structuredContent r)) =
        [''code'', ''message'', ''status'', ''actionableMessage''] \<and>
      isStr (jget ''code'' (objectOf ''error'' (structuredContent r))) \<and>
      textOf ''code'' (objectOf ''error'' (structuredContent r)) \<in> set errorCodes \<and>
      isStr (jget ''message'' (objectOf ''error'' (structuredContent r))) \<and>
      isCountOrNull (jget ''status'' (objectOf ''error'' (structuredContent r))) \<and>
      isStr (jget ''actionableMessage'' (objectOf ''error'' (structuredContent r))) \<and>
      isError r = Some True)"

definition detailKeys :: "string \<Rightarrow> string list" where
  "detailKeys toolName =
     (if toolName = ''search_entities'' then [''requestedFilters'', ''supported'']
      else if toolName = ''get_entity_by_id'' then [''requestedEntity'', ''availableEndpoints'']
      else if toolName = ''list_tasks'' then [''requestedFilters'', ''availableEndpoints'']
      else if toolName = ''create_task'' then [''requestedTask'', ''availableEndpoints'']
      else if toolName = ''update_task'' then [''requestedUpdate'', ''availableEndpoints'']
      else if toolName = ''complete_task'' then [''requestedAction'', ''availableEndpoints'']
      else [])"

definition isFilled :: "jsval \<Rightarrow> bool" where
  "isFilled v =
     (case v of
        JObj kvs \<Rightarrow> kvs \<noteq> []
      | JArr xs \<Rightarrow> xs \<noteq> []
      | _ \<Rightarrow> False)"

definition populatesUnsupported :: "string \<Rightarrow> ToolResult \<Rightarrow> bool" where
  "populatesUnsupported toolName r =
     (objectKeys (structuredContent r) = [''tool'', ''supported'', ''error'', ''details''] \<and>
      jget ''tool'' (structuredContent r) = Some (JStr toolName) \<and>
      jget ''supported'' (structuredContent r) = Some (JBool False) \<and>
      objectKeys (objectOf ''error'' (structuredContent r)) =
        [''code'', ''message'', ''actionableMessage''] \<and>
      jget ''code'' (objectOf ''error'' (structuredContent r)) = Some (JStr ''unsupported'') \<and>
      textOf ''message'' (objectOf ''error'' (structuredContent r)) \<noteq> [] \<and>
      textOf ''actionableMessage'' (objectOf ''error'' (structuredContent r)) \<noteq> [] \<and>
      detailKeys toolName \<noteq> [] \<and>
      objectKeys (objectOf ''details'' (structuredContent r)) = detailKeys toolName \<and>
      list_all (\<lambda>k. isFilled (objectOf k (objectOf ''details'' (structuredContent r))))
        (detailKeys toolName) \<and>
      isError r = None)"

definition spaceInfoPopulated :: "jsval \<Rightarrow> bool" where
  "spaceInfoPopulated p =
     (objectKeys p = [''tool'', ''spaceId'', ''spaceTitle'', ''spacesCount'', ''structures''] \<and>
      jget ''tool'' p = Some (JStr ''get_space_info'') \<and>
      isStr (jget ''spaceId'' p) \<and> isUuid (textOf ''spaceId'' p) \<and>
      isStrOrNull (jget ''spaceTitle'' p) \<and>
      isCount (jget ''spacesCount'' p) \<and>
      (case jget ''structures'' p of
         Some (JArr xs) \<Rightarrow> list_all (\<lambda>s. isStr (jget ''id'' s) \<and> isStr (jget ''title'' s)) xs
       | _ \<Rightarrow> False))"

definition searchPopulated :: "jsval \<Rightarrow> bool" where
  "searchPopulated p =
     (objectKeys p =
        [''tool'', ''query'', ''totalResultsBeforeLimit'', ''returnedResults'',
         ''unsupportedNotes'', ''results''] \<and>
      jget ''tool'' p = Some (JStr ''search_entities'') \<and>
      objectKeys (objectOf ''query'' p) =
        [''spaceId'', ''text'', ''type'', ''date'', ''dateFrom'', ''dateTo'', ''limit''] \<and>
      textOf ''text'' (objectOf ''query'' p) \<noteq> [] \<and>
      (case jget ''limit'' (objectOf ''query'' p) of Some (JNum n) \<Rightarrow> True | _ \<Rightarrow> False) \<and>
      isCount (jget ''totalResultsBeforeLimit'' p) \<and>
      jget ''returnedResults'' p = Some (JNum (int (length (itemsOf ''results'' p)))) \<and>
      int (length (itemsOf ''results'' p)) \<le> numberOf ''totalResultsBeforeLimit'' p \<and>
      (case jget ''unsupportedNotes'' p of
         Some (JArr ns) \<Rightarrow> list_all isStrVal ns
       | _ \<Rightarrow> False) \<and>
      (case jget ''results'' p of
         Some (JArr rs) \<Rightarrow>
           list_all (\<lambda>r. objectKeys r = [''id'', ''structureId'', ''title''] \<and>
                          isStr (jget ''id'' r) \<and> isStr (jget ''structureId'' r) \<and>
                          isStr (jget ''title'' r)) rs
       | _ \<Rightarrow> False))"

definition populatesSuccess :: "string \<Rightarrow> ToolResult \<Rightarrow> bool" where
  "populatesSuccess toolName r =
     (isError r = None \<and>
      (if toolName = ''get_space_info'' then spaceInfoPopulated (structuredContent r)
       else if toolName = ''search_entities'' then searchPopulated (structuredContent r)
       else False))"

datatype ResultShape = SuccessShape | UnsupportedShape | ErrorShape

definition populatedShapes :: "string \<Rightarrow> ToolResult \<Rightarrow> ResultShape list" where
  "populatedShapes toolName r =
     (if populatesSuccess toolName r then [SuccessShape] else []) @
     (if populatesUnsupported toolName r then [UnsupportedShape] else []) @
     (if populatesError toolName r then [ErrorShape] else [])"

text \<open>
  What a result reports: a success or an unsupported outcome is the one populated shape of
  that kind, paired with its summary; an error outcome moreover carries the classified
  error that was raised (its code, message, status or \<open>null\<close>, and action).
\<close>

definition classifiedErrorJson :: "CapacitiesError \<Rightarrow> jsval" where
  "classifiedErrorJson e =
     JObj [(''code'', JStr (codeString (code e))),
           (''message'', JStr (message e)),
           (''status'', (case status e of None \<Rightarrow> JNull | Some st \<Rightarrow> JNum (int st))),
           (''actionableMessage'', JStr (actionableMessage e))]"

definition reportsSuccess :: "string \<Rightarrow> ToolResult \<Rightarrow> bool" where
  "reportsSuccess toolName r =
     (populatedShapes toolName r = [SuccessShape] \<and> pairedWithSummary r)"

definition reportsUnsupported :: "string \<Rightarrow> ToolResult \<Rightarrow> bool" where
  "reportsUnsupported toolName r =
     (populatedShapes toolName r = [UnsupportedShape] \<and> pairedWithSummary r)"

definition reportsError :: "string \<Rightarrow> CapacitiesError \<Rightarrow> ToolResult \<Rightarrow> bool" where
  "reportsError toolName e r =
     (populatedShapes toolName r = [ErrorShape] \<and> pairedWithSummary r \<and>
      jget ''error'' (structuredContent r) = Some (classifiedErrorJson e))"

text \<open>
  The success payload of \<open>get_space_info\<close> in the words of the specification: the resolved
  space id, the title of the space of that id in the list of spaces (\<open>null\<close> when the list
  has none), the number of spaces, and the full list of structures.
\<close>

definition spaceInfoPayload ::
  "string \<Rightarrow> CapacitiesSpace list \<Rightarrow> CapacitiesStructureInfo list \<Rightarrow> jsval" where
  "spaceInfoPayload spaceId spaces structures =
     JObj [(''tool'', JStr ''get_space_info''),
           (''spaceId'', JStr spaceId),
           (''spaceTitle'',
              (case filter (\<lambda>space. space_id space = spaceId) spaces of
                 [] \<Rightarrow> JNull
               | space # others \<Rightarrow> JStr (space_title space))),
           (''spacesCount'', JNum (int (length spaces))),
           (''structures'', JArr (map structureJson structures))]"

text \<open>
  The success payload of \<open>search_entities\<close>: the query, the number of matches, the number
  of results returned, the notes and the results.
\<close>

definition searchPayload ::
  "SearchEntitiesFilters \<Rightarrow> CapacitiesLookupResult list \<Rightarrow> nat \<Rightarrow> string list \<Rightarrow> jsval" where
  "searchPayload filters limited matches notes =
     JObj [(''tool'', JStr ''search_entities''),
           (''query'', searchFiltersJson filters),
           (''totalResultsBeforeLimit'', JNum (int matches)),
           (''returnedResults'', JNum (int (length limited))),
           (''unsupportedNotes'', JArr (map JStr notes)),
           (''results'', JArr (map lookupResultJson limited))]"

section \<open>Vocabulary of the properties\<close>

text \<open>A function that throws fails with the code of the error it throws.\<close>

definition failsWith :: "CapacitiesError + 'a \<Rightarrow> CapacitiesErrorCode \<Rightarrow> bool" where
  "failsWith r c = (case r of Inl e \<Rightarrow> code e = c | Inr v \<Rightarrow> False)"

definition errorMessage :: "CapacitiesError + 'a \<Rightarrow> string" where
  "errorMessage r = (case r of Inl e \<Rightarrow> message e | Inr v \<Rightarrow> [])"

text \<open>
  The calendar: a date is valid when its month index is below 12 and its day lies in the
  month; \<open>dayNumber\<close> counts the days since 1970-01-01 (the days of the years before, then
  the days of the months before, then the day of the month). \<open>localCivil\<close> is the calendar
  date that the local getters of a \<open>Date\<close> give. A local time keeps its day when the host
  reads it as an instant whose local time lies on the same day; that fails only for a
  local time that a transition of the zone skips together with the rest of its day. A
  triple of numbers read from \<open>YYYY-MM-DD\<close> is a real calendar date when the month is 1..12
  and the day lies in that month.
\<close>

definition validDate :: "CivilDate \<Rightarrow> bool" where
  "validDate d =
     (civilMonth d < 12 \<and> 1 \<le> civilDay d \<and> civilDay d \<le> daysInMonth (civilYear d) (civilMonth d))"

definition dayNumber :: "CivilDate \<Rightarrow> int" where
  "dayNumber d =
     DayFromYear (civilYear d) + daysBeforeMonth (civilYear d) (civilMonth d) + civilDay d - 1"

definition localCivil :: "Date \<Rightarrow> CivilDate option" where
  "localCivil date =
     (case getFullYear date of
        None \<Rightarrow> None
      | Some y \<Rightarrow>
          (case getMonth date of
             None \<Rightarrow> None
           | Some m \<Rightarrow>
               (case getDate date of
                  None \<Rightarrow> None
                | Some d \<Rightarrow> Some \<lparr>civilYear = y, civilMonth = nat m, civilDay = d\<rparr>)))"

definition keepsLocalDay :: "Date \<Rightarrow> int \<Rightarrow> bool" where
  "keepsLocalDay date localTime =
     (TimeClip (UTC date localTime) \<noteq> None \<and>
      Day (LocalTime date (UTC date localTime)) = Day localTime)"

definition realCalendarDate :: "int \<Rightarrow> int \<Rightarrow> int \<Rightarrow> bool" where
  "realCalendarDate y m d =
     (1 \<le> m \<and> m \<le> 12 \<and> 1 \<le> d \<and> d \<le> daysInMonth y (nat (m - 1)))"

text \<open>
  The type filter in the words of the specification: a structure is named by the type
  string when its id, its title or its \<open>pluralName\<close> (when that is a string) equals the type
  string up to case; a result is kept when its structure id is one of the ids so named,
  or, when no structure is named, when its structure id equals the type string up to
  case.
\<close>

definition sameIgnoringCase :: "string \<Rightarrow> string \<Rightarrow> bool" where
  "sameIgnoringCase a b = (toLowerCase a = toLowerCase b)"

definition typeNamesStructure :: "string \<Rightarrow> CapacitiesStructureInfo \<Rightarrow> bool" where
  "typeNamesStructure ty s =
     (sameIgnoringCase ty (structure_id s) \<or> sameIgnoringCase ty (structure_title s) \<or>
      (case structureProperty s ''pluralName'' of
         Some (JStr pn) \<Rightarrow> sameIgnoringCase ty pn
       | _ \<Rightarrow> False))"

definition namedStructureIds :: "string \<Rightarrow> CapacitiesStructureInfo list \<Rightarrow> string list" where
  "namedStructureIds ty structures = map structure_id (filter (typeNamesStructure ty) structures)"

definition keptByType ::
  "string \<Rightarrow> CapacitiesStructureInfo list \<Rightarrow> CapacitiesLookupResult \<Rightarrow> bool" where
  "keptByType ty structures r =
     (if namedStructureIds ty structures \<noteq> []
      then result_structureId r \<in> set (namedStructureIds ty structures)
      else sameIgnoringCase (result_structureId r) ty)"

text \<open>Reading a nested property of a structured payload, and the message of its error.\<close>

fun jpath :: "string list \<Rightarrow> jsval \<Rightarrow> jsval option" where
  "jpath [] v = Some v"
| "jpath (k # ks) v = (case jget k v of None \<Rightarrow> None | Some w \<Rightarrow> jpath ks w)"

definition errorMessageOf :: "ToolResult \<Rightarrow> string option" where
  "errorMessageOf r =
     (case jpath [''error'', ''message''] (structuredContent r) of
        Some (JStr m) \<Rightarrow> Some m
      | _ \<Rightarrow> None)"

text \<open>
  The date filters after normalization conflict when a single date stands beside an end
  of a range, when exactly one end of the range is there, or when the range is inverted.
\<close>

definition datesConflict :: "string option \<Rightarrow> string option \<Rightarrow> string option \<Rightarrow> bool" where
  "datesConflict date dateFrom dateTo =
     ((date \<noteq> None \<and> (dateFrom \<noteq> None \<or> dateTo \<noteq> None)) \<or>
      (dateFrom \<noteq> None \<and> dateTo = None) \<or>
      (dateFrom = None \<and> dateTo \<noteq> None) \<or>
      (case dateFrom of
         Some f \<Rightarrow> (case dateTo of Some t \<Rightarrow> string_gt f t | None \<Rightarrow> False)
       | None \<Rightarrow> False))"

text \<open>
  An \<open>update_task\<close> argument supplies an update field when one of title, description,
  dueDate and status is there (\<open>null\<close> counts); its fields are valid when the task id and
  a given title are non-empty after trimming, a description that is a string is non-empty
  after trimming, and a due date that is a string is non-empty after trimming and
  normalizes.
\<close>

definition suppliesUpdateField :: "UpdateTaskArgs \<Rightarrow> bool" where
  "suppliesUpdateField input =
     (ut_title input \<noteq> None \<or> ut_description input \<noteq> Undefined \<or>
      ut_dueDate input \<noteq> Undefined \<or> ut_status input \<noteq> None)"

definition normalizes :: "string \<Rightarrow> Date \<Rightarrow> bool" where
  "normalizes s clock = (case normalizeDateInput s clock of Inl e \<Rightarrow> False | Inr d \<Rightarrow> True)"

definition updateFieldsValid :: "UpdateTaskArgs \<Rightarrow> Date \<Rightarrow> bool" where
  "updateFieldsValid input clock =
     (trim (ut_taskId input) \<noteq> [] \<and>
      (case ut_title input of None \<Rightarrow> True | Some t \<Rightarrow> trim t \<noteq> []) \<and>
      (case ut_description input of Value s \<Rightarrow> trim s \<noteq> [] | _ \<Rightarrow> True) \<and>
      (case ut_dueDate input of
         Value s \<Rightarrow> trim s \<noteq> [] \<and> normalizes (trim s) clock
       | _ \<Rightarrow> True))"

definition atLeastOneMessage :: string where
  "atLeastOneMessage =
     ''Provide at least one update field: title, description, dueDate, or status.''"

text \<open>Concrete values for the instances below.\<close>

definition exampleSpaceId :: string where
  "exampleSpaceId = ''11111111-1111-4111-8111-111111111111''"

definition exampleConfig :: CapacitiesConfig where
  "exampleConfig =
     \<lparr>baseUrl = CAPACITIES_API_BASE_URL, apiToken = ''token'',
      defaultSpaceId = Some exampleSpaceId\<rparr>"

definition configWithoutSpace :: CapacitiesConfig where
  "configWithoutSpace =
     \<lparr>baseUrl = CAPACITIES_API_BASE_URL, apiToken = ''token'', defaultSpaceId = None\<rparr>"

text \<open>
  The example clock is the instant 2026-02-18T23:30:00Z on a host one hour east of
  Greenwich, where the local day is 2026-02-19. \<open>dateLineZone\<close> moves from ten hours west
  to fourteen hours east of Greenwich at the instant 2011-12-30T10:00:00Z, as the zone
  Pacific/Apia did, so that no local time of 2011-12-30 exists; \<open>dateLineNow\<close> is noon of
  2011-12-31 there.
\<close>

definition oneHourEast :: "int \<Rightarrow> bool \<Rightarrow> int" where
  "oneHourEast t isUTC = 3600000"

definition exampleNow :: Date where
  "exampleNow = \<lparr>timeValue = Some 1771457400000, LocalTZA = oneHourEast\<rparr>"

definition dateLineZone :: "int \<Rightarrow> bool \<Rightarrow> int" where
  "dateLineZone t isUTC =
     (if isUTC then (if t < 1325239200000 then - 36000000 else 50400000)
      else (if t < 1325289600000 then - 36000000 else 50400000))"

definition dateLineNow :: Date where
  "dateLineNow = \<lparr>timeValue = Some 1325282400000, LocalTZA = dateLineZone\<rparr>"

text \<open>
  The example host serves one body for each endpoint, the text that \<open>JSON.stringify\<close> gives
  for the response object of that endpoint (\<open>spaces\<close>, \<open>structures\<close>, \<open>results\<close>), and reads
  exactly these texts back as the objects they were made of. Its list of spaces holds the
  example space. \<open>spacesDownHost\<close> is the same host with the endpoint \<open>/spaces\<close> answering
  503.
\<close>

definition okResponse :: "string \<Rightarrow> Response" where
  "okResponse body =
     \<lparr>resp_status = 200, retry_after = None, ratelimit_reset = None, resp_text = body\<rparr>"

definition spaceJson :: "CapacitiesSpace \<Rightarrow> jsval" where
  "spaceJson space =
     JObj [(''id'', JStr (space_id space)),
           (''title'', JStr (space_title space)),
           (''icon'', optStr (space_icon space))]"

definition spacesBody :: "CapacitiesSpace list \<Rightarrow> string" where
  "spacesBody spaces = JSON_stringify2 (JObj [(''spaces'', JArr (map spaceJson spaces))])"

definition spaceInfoBody :: "CapacitiesStructureInfo list \<Rightarrow> string" where
  "spaceInfoBody structures =
     JSON_stringify2 (JObj [(''structures'', JArr (map structureJson structures))])"

definition lookupBody :: "CapacitiesLookupResult list \<Rightarrow> string" where
  "lookupBody results = JSON_stringify2 (JObj [(''results'', JArr (map lookupResultJson results))])"

definition exampleSpaces :: "CapacitiesSpace list" where
  "exampleSpaces =
     [\<lparr>space_id = ''22222222-2222-4222-8222-222222222222'', space_title = ''Work'',
       space_icon = None\<rparr>,
      \<lparr>space_id = exampleSpaceId, space_title = ''Home'', space_icon = None\<rparr>]"

definition exampleBody ::
  "CapacitiesLookupResult list \<Rightarrow> CapacitiesStructureInfo list \<Rightarrow> string \<Rightarrow> string" where
  "exampleBody results structures path =
     (if path = ''/spaces'' then spacesBody exampleSpaces
      else if path = ''/space-info'' then spaceInfoBody structures
      else lookupBody results)"

definition exampleHost ::
  "CapacitiesLookupResult list \<Rightarrow> CapacitiesStructureInfo list \<Rightarrow> Host" where
  "exampleHost results structures =
     \<lparr>fetchImpl =
        (\<lambda>request. FetchResolves (okResponse (exampleBody results structures (req_path request)))),
      parseSpacesResponse =
        (\<lambda>body. if body = spacesBody exampleSpaces then Some exampleSpaces else None),
      parseSpaceInfoResponse =
        (\<lambda>body. if body = spaceInfoBody structures then Some structures else None),
      parseLookupResponse =
        (\<lambda>body. if body = lookupBody results then Some results else None),
      now = exampleNow,
      spacesSettlesFirst = True\<rparr>"

definition spacesDownHost :: "CapacitiesStructureInfo list \<Rightarrow> Host" where
  "spacesDownHost structures =
     (exampleHost [] structures)
       \<lparr>fetchImpl :=
          (\<lambda>request.
             if req_path request = ''/spaces''
             then FetchResolves
                    \<lparr>resp_status = 503, retry_after = None, ratelimit_reset = None,
                     resp_text = []\<rparr>
             else FetchResolves (okResponse (exampleBody [] structures (req_path request))))\<rparr>"

definition exampleUpdate :: UpdateTaskArgs where
  "exampleUpdate =
     \<lparr>ut_taskId = ''t1'', ut_spaceId = None, ut_title = None, ut_description = Undefined,
      ut_dueDate = Undefined, ut_status = None\<rparr>"

definition exampleCreate :: CreateTaskArgs where
  "exampleCreate =
     \<lparr>ct_spaceId = None, ct_title = ''  x  '', ct_description = None, ct_dueDate = None\<rparr>"

definition exampleComplete :: CompleteTaskArgs where
  "exampleComplete = \<lparr>cm_taskId = ''t1'', cm_spaceId = None, cm_completed = None\<rparr>"

definition exampleEntity :: GetEntityByIdInput where
  "exampleEntity = \<lparr>ge_entityId = ''e1'', ge_structureId = ''s1'', ge_spaceId = None\<rparr>"

definition emptySearch :: SearchEntitiesInput where
  "emptySearch =
     \<lparr>se_spaceId = None, se_text = None, se_type = None, se_date = None, se_dateFrom = None,
      se_dateTo = None, se_limit = None\<rparr>"

definition emptyListTasks :: ListTasksInput where
  "emptyListTasks =
     \<lparr>lt_spaceId = None, lt_status = None, lt_date = None, lt_dateFrom = None, lt_dateTo = None\<rparr>"

definition rateLimited :: "string option \<Rightarrow> string option \<Rightarrow> Response" where
  "rateLimited retryAfter reset =
     \<lparr>resp_status = 429, retry_after = retryAfter, ratelimit_reset = reset, resp_text = []\<rparr>"

definition pageResult :: CapacitiesLookupResult where
  "pageResult = \<lparr>result_id = ''r1'', result_structureId = ''page'', result_title = ''A page''\<rparr>"

definition noteStructure :: CapacitiesStructureInfo where
  "noteStructure =
     \<lparr>structure_id = ''RootDailyNote'', structure_title = ''Daily Note'',
      structure_fields = [(''pluralName'', JStr ''Daily Notes'')]\<rparr>"

definition noteResult :: CapacitiesLookupResult where
  "noteResult =
     \<lparr>result_id = ''r2'', result_structureId = ''RootDailyNote'', result_title = ''2026-02-18''\<rparr>"

definition yesterdayFilters :: SearchEntitiesFilters where
  "yesterdayFilters =
     \<lparr>sf_spaceId = None, sf_text = None, sf_type = None, sf_date = Some ''2026-02-18'',
      sf_dateFrom = None, sf_dateTo = None, sf_limit = 20\<rparr>"

definition typedFilters :: "string \<Rightarrow> SearchEntitiesFilters" where
  "typedFilters ty =
     \<lparr>sf_spaceId = None, sf_text = Some ''note'', sf_type = Some ty, sf_date = None,
      sf_dateFrom = None, sf_dateTo = None, sf_limit = 20\<rparr>"

section \<open>Basic facts\<close>

lemma truthy_simps [simp]:
  "truthy None = False" "truthy (Some s) = (s \<noteq> [])"
  by (simp_all add: truthy_def)

lemma createError_simps [simp]:
  "code (createConfigError m) = config_error"
  "code (createValidationError m) = validation_error"
  "code (createUnsupportedError m) = unsupported"
  "code (createNetworkError m) = network_error"
  "message (createConfigError m) = m"
  "message (createValidationError m) = m"
  "message (createUnsupportedError m) = m"
  "message (createNetworkError m) = m"
  "status (createConfigError m) = None"
  "status (createValidationError m) = None"
  "status (createUnsupportedError m) = None"
  "status (createNetworkError m) = None"
  by (simp_all add: createConfigError_def createValidationError_def createUnsupportedError_def
      createNetworkError_def)

lemma failsWith_simps [simp]:
  "failsWith (Inl e) c = (code e = c)" "failsWith (Inr v) c = False"
  by (simp_all add: failsWith_def)

lemma errorMessage_simps [simp]:
  "errorMessage (Inl e) = message e" "errorMessage (Inr v) = []"
  by (simp_all add: errorMessage_def)

lemma startsWith_append: "startsWith (p @ ys) p"
  by (induction p) simp_all

lemma includesStr_self_append: "includesStr (p @ ys) p"
proof (cases "p @ ys")
  case Nil
  then show ?thesis by simp
next
  case (Cons a list)
  have "startsWith (p @ ys) p" by (rule startsWith_append)
  with Cons show ?thesis by simp
qed

lemma includesStr_append: "includesStr (xs @ p @ ys) p"
proof (induction xs)
  case Nil
  show ?case by (simp add: includesStr_self_append)
next
  case (Cons x xs)
  then show ?case by simp
qed

lemma includesStr_append_end: "includesStr (xs @ p) p"
  using includesStr_append[of xs p "[]"] by simp

subsection \<open>resolveSpaceId\<close>

lemma resolveSpaceId_Inr:
  "spaceCandidate x (defaultSpaceId config) = Some c \<Longrightarrow> c \<noteq> [] \<Longrightarrow> isUuid c \<Longrightarrow>
   resolveSpaceId x config = Inr c"
  by (simp add: resolveSpaceId_def)

lemma resolveSpaceId_not_uuid:
  "spaceCandidate x (defaultSpaceId config) = Some c \<Longrightarrow> c \<noteq> [] \<Longrightarrow> \<not> isUuid c \<Longrightarrow>
   resolveSpaceId x config =
     Inl (createValidationError (''Space ID must be a UUID. Received: '' @ dq @ c @ dq @ ''.''))"
  by (simp add: resolveSpaceId_def)

lemma resolveSpaceId_missing:
  "\<not> truthy (spaceCandidate x (defaultSpaceId config)) \<Longrightarrow>
   resolveSpaceId x config =
     Inl (createConfigError (''Missing space ID. Provide a space ID in the request or set '' @
            CAPACITIES_SPACE_ID_ENV @ ''.''))"
  by (simp add: resolveSpaceId_def)

text \<open>
  Claim C6. The effective space id: an explicit value that is non-empty after trimming
  wins and is returned trimmed when it is a UUID; without one the configured default is
  returned when it is a UUID; when neither is present the call fails with \<open>config_error\<close>;
  and a winning candidate that is not a UUID fails with \<open>validation_error\<close>, whether it is
  the explicit value or the default. (A default that is the empty string counts as not
  present.)
\<close>

theorem resolveSpaceId_effective:
  "(trim e \<noteq> [] \<and> isUuid (trim e) \<longrightarrow> resolveSpaceId (Some e) config = Inr (trim e)) \<and>
   (trim e \<noteq> [] \<and> \<not> isUuid (trim e) \<longrightarrow>
      failsWith (resolveSpaceId (Some e) config) validation_error) \<and>
   ((x = None \<or> trim (the x) = []) \<and> defaultSpaceId config = Some d \<and> d \<noteq> [] \<and> isUuid d \<longrightarrow>
      resolveSpaceId x config = Inr d) \<and>
   ((x = None \<or> trim (the x) = []) \<and> defaultSpaceId config = Some d \<and> d \<noteq> [] \<and> \<not> isUuid d \<longrightarrow>
      failsWith (resolveSpaceId x config) validation_error) \<and>
   ((x = None \<or> trim (the x) = []) \<and>
    (defaultSpaceId config = None \<or> defaultSpaceId config = Some []) \<longrightarrow>
      failsWith (resolveSpaceId x config) config_error)"
proof -
  have absent: "spaceCandidate x (defaultSpaceId config) = defaultSpaceId config"
    if "x = None \<or> trim (the x) = []"
    using that by (cases x) (auto simp: spaceCandidate_def)
  have present: "spaceCandidate (Some e) (defaultSpaceId config) = Some (trim e)" if "trim e \<noteq> []"
    using that by (simp add: spaceCandidate_def)
  show ?thesis
    using absent present
    by (auto simp: resolveSpaceId_Inr resolveSpaceId_not_uuid resolveSpaceId_missing)
qed

text \<open>Instances of C6: one for each case, with the UUID check evaluated.\<close>

theorem resolveSpaceId_effective_witness:
  "resolveSpaceId (Some ''  11111111-1111-4111-8111-111111111111 '') configWithoutSpace =
     Inr ''11111111-1111-4111-8111-111111111111'' \<and>
   failsWith (resolveSpaceId (Some ''my-space'') exampleConfig) validation_error \<and>
   resolveSpaceId (Some ''   '') exampleConfig = Inr exampleSpaceId \<and>
   resolveSpaceId None exampleConfig = Inr exampleSpaceId \<and>
   failsWith (resolveSpaceId None (exampleConfig\<lparr>defaultSpaceId := Some ''11111111-1111-6111-8111-111111111111''\<rparr>))
     validation_error \<and>
   failsWith (resolveSpaceId None configWithoutSpace) config_error \<and>
   resolveSpaceId (Some ''ABCDEF01-2345-4678-9ABC-DEF012345678'') configWithoutSpace =
     Inr ''ABCDEF01-2345-4678-9ABC-DEF012345678'' \<and>
   failsWith (resolveSpaceId (Some ''11111111-1111-4111-c111-111111111111'') exampleConfig)
     validation_error"
proof -
  have t4: "trim ''ABCDEF01-2345-4678-9ABC-DEF012345678'' = ''ABCDEF01-2345-4678-9ABC-DEF012345678''"
    by code_simp
  have u4: "isUuid ''ABCDEF01-2345-4678-9ABC-DEF012345678''" by code_simp
  have t5: "trim ''11111111-1111-4111-c111-111111111111'' = ''11111111-1111-4111-c111-111111111111''"
    by code_simp
  have u5: "\<not> isUuid ''11111111-1111-4111-c111-111111111111''" by code_simp
  have t1: "trim ''  11111111-1111-4111-8111-111111111111 '' = ''11111111-1111-4111-8111-111111111111''"
    by code_simp
  have u1: "isUuid ''11111111-1111-4111-8111-111111111111''" by code_simp
  have t2: "trim ''my-space'' = ''my-space''" by code_simp
  have u2: "\<not> isUuid ''my-space''" by code_simp
  have t3: "trim ''   '' = []" by code_simp
  have u3: "\<not> isUuid ''11111111-1111-6111-8111-111111111111''" by code_simp
  show ?thesis
    using resolveSpaceId_effective[of "''  11111111-1111-4111-8111-111111111111 ''" configWithoutSpace None "[]"]
      resolveSpaceId_effective[of "''my-space''" exampleConfig None "[]"]
      resolveSpaceId_effective[of "[]" exampleConfig "Some ''   ''" exampleSpaceId]
      resolveSpaceId_effective[of "[]" exampleConfig None exampleSpaceId]
      resolveSpaceId_effective[of "[]" "exampleConfig\<lparr>defaultSpaceId := Some ''11111111-1111-6111-8111-111111111111''\<rparr>"
         None "''11111111-1111-6111-8111-111111111111''"]
      resolveSpaceId_effective[of "[]" configWithoutSpace None "[]"]
      resolveSpaceId_effective[of "''ABCDEF01-2345-4678-9ABC-DEF012345678''" configWithoutSpace None "[]"]
      resolveSpaceId_effective[of "''11111111-1111-4111-c111-111111111111''" exampleConfig None "[]"]
    by (simp add: t1 u1 t2 u2 t3 u3 t4 u4 t5 u5 exampleConfig_def configWithoutSpace_def
        exampleSpaceId_def)
qed

subsection \<open>createHttpError on status 429\<close>

lemma natToString_429: "natToString 429 = ''429''"
  by code_simp

text \<open>
  Claim C7, amended. A response with status 429 is classified as \<open>rate_limit\<close> with status
  429. The retry hint goes into the message of the error, not into its actionable
  guidance, which is the same fixed text for every 429: with a non-empty \<open>retry-after\<close>
  header the message says to retry after that many seconds; otherwise, with a non-empty
  \<open>ratelimit-reset\<close> header, it says to retry when the limit resets and names the value;
  otherwise it advises retrying after a short delay.
\<close>

theorem createHttpError_rate_limit:
  assumes "resp_status response = 429"
  shows "code (createHttpError response) = rate_limit \<and>
         status (createHttpError response) = Some 429 \<and>
         actionableMessage (createHttpError response) =
           ''Back off and retry with lower request frequency. Respect RateLimit headers when present.'' \<and>
         message (createHttpError response) =
           ''Capacities API request failed with status 429. Rate limit exceeded.'' @
           retryHint response @
           (if trim (resp_text response) \<noteq> [] then '' Response: '' @ trim (resp_text response) else []) \<and>
         (truthy (retry_after response) \<longrightarrow>
            includesStr (message (createHttpError response))
              ('' Retry after '' @ the (retry_after response) @ '' seconds.'')) \<and>
         (\<not> truthy (retry_after response) \<and> truthy (ratelimit_reset response) \<longrightarrow>
            includesStr (message (createHttpError response))
              ('' Retry when rate limit resets ('' @ the (ratelimit_reset response) @ '').'')) \<and>
         (\<not> truthy (retry_after response) \<and> \<not> truthy (ratelimit_reset response) \<longrightarrow>
            includesStr (message (createHttpError response)) '' Retry after a short delay.'')"
proof -
  let ?prefix = "''Capacities API request failed with status 429. Rate limit exceeded.''"
  let ?hint = "(if trim (resp_text response) \<noteq> [] then '' Response: '' @ trim (resp_text response) else [])"
  have fields: "code (createHttpError response) = rate_limit"
    "status (createHttpError response) = Some 429"
    "actionableMessage (createHttpError response) =
       ''Back off and retry with lower request frequency. Respect RateLimit headers when present.''"
    using assms by (simp_all add: createHttpError_def Let_def)
  have msg: "message (createHttpError response) = ?prefix @ retryHint response @ ?hint"
    using assms by (simp add: createHttpError_def Let_def natToString_429)
  have inc: "includesStr (message (createHttpError response)) (retryHint response)"
    unfolding msg by (rule includesStr_append)
  have h1: "retryHint response = '' Retry after '' @ the (retry_after response) @ '' seconds.''"
    if "truthy (retry_after response)"
    using that by (simp add: retryHint_def)
  have h2: "retryHint response =
              '' Retry when rate limit resets ('' @ the (ratelimit_reset response) @ '').''"
    if "\<not> truthy (retry_after response) \<and> truthy (ratelimit_reset response)"
    using that by (simp add: retryHint_def)
  have h3: "retryHint response = '' Retry after a short delay.''"
    if "\<not> truthy (retry_after response) \<and> \<not> truthy (ratelimit_reset response)"
    using that by (simp add: retryHint_def)
  have c1: "truthy (retry_after response) \<longrightarrow>
            includesStr (message (createHttpError response))
              ('' Retry after '' @ the (retry_after response) @ '' seconds.'')"
    using inc h1 by metis
  have c2: "\<not> truthy (retry_after response) \<and> truthy (ratelimit_reset response) \<longrightarrow>
            includesStr (message (createHttpError response))
              ('' Retry when rate limit resets ('' @ the (ratelimit_reset response) @ '').'')"
    using inc h2 by metis
  have c3: "\<not> truthy (retry_after response) \<and> \<not> truthy (ratelimit_reset response) \<longrightarrow>
            includesStr (message (createHttpError response)) '' Retry after a short delay.''"
    using inc h3 by metis
  from fields msg c1 c2 c3 show ?thesis
    by blast
qed

text \<open>Instances of C7: \<open>retry-after: 5\<close>, a reset timestamp, and an empty header value.\<close>

theorem createHttpError_rate_limit_witness:
  "includesStr (message (createHttpError (rateLimited (Some ''5'') None))) '' Retry after 5 seconds.'' \<and>
   includesStr (message (createHttpError (rateLimited None (Some ''1700000000''))))
     '' Retry when rate limit resets (1700000000).'' \<and>
   includesStr (message (createHttpError (rateLimited (Some []) None))) '' Retry after a short delay.'' \<and>
   code (createHttpError (rateLimited (Some ''5'') None)) = rate_limit \<and>
   status (createHttpError (rateLimited (Some ''5'') None)) = Some 429"
proof -
  have st: "resp_status (rateLimited a b) = 429" for a b
    by (simp add: rateLimited_def)
  have h1: "truthy (retry_after (rateLimited (Some ''5'') None))"
    by (simp add: rateLimited_def)
  have h2: "\<not> truthy (retry_after (rateLimited None (Some ''1700000000''))) \<and>
            truthy (ratelimit_reset (rateLimited None (Some ''1700000000'')))"
    by (simp add: rateLimited_def)
  have h3: "\<not> truthy (retry_after (rateLimited (Some []) None)) \<and>
            \<not> truthy (ratelimit_reset (rateLimited (Some []) None))"
    by (simp add: rateLimited_def)
  have v1: "'' Retry after '' @ the (retry_after (rateLimited (Some ''5'') None)) @ '' seconds.'' =
            '' Retry after 5 seconds.''"
    by (simp add: rateLimited_def)
  have v2: "'' Retry when rate limit resets ('' @
              the (ratelimit_reset (rateLimited None (Some ''1700000000''))) @ '').'' =
            '' Retry when rate limit resets (1700000000).''"
    by (simp add: rateLimited_def)
  from createHttpError_rate_limit[OF st[of "Some ''5''" None]] h1
  have a: "includesStr (message (createHttpError (rateLimited (Some ''5'') None)))
             ('' Retry after '' @ the (retry_after (rateLimited (Some ''5'') None)) @ '' seconds.'')"
    and d: "code (createHttpError (rateLimited (Some ''5'') None)) = rate_limit"
    and e: "status (createHttpError (rateLimited (Some ''5'') None)) = Some 429"
    by blast+
  from createHttpError_rate_limit[OF st[of None "Some ''1700000000''"]] h2
  have b: "includesStr (message (createHttpError (rateLimited None (Some ''1700000000''))))
             ('' Retry when rate limit resets ('' @
                the (ratelimit_reset (rateLimited None (Some ''1700000000''))) @ '').'')"
    by blast
  from createHttpError_rate_limit[OF st[of "Some []" None]] h3
  have c: "includesStr (message (createHttpError (rateLimited (Some []) None)))
             '' Retry after a short delay.''"
    by blast
  from a b c d e show ?thesis
    unfolding v1 v2 by blast
qed

text \<open>
  C7 as stated fails: with \<open>retry-after: 5\<close> the guidance string of the error is the one
  produced without any header, and it does not mention the delay. Nor does every
  \<open>ratelimit-reset\<close> header reach the message: beside a \<open>retry-after\<close> header the reset
  value is not mentioned anywhere.
\<close>

theorem rate_limit_guidance_counterexample:
  "actionableMessage (createHttpError (rateLimited (Some ''5'') None)) =
     actionableMessage (createHttpError (rateLimited None None)) \<and>
   \<not> includesStr (actionableMessage (createHttpError (rateLimited (Some ''5'') None))) ''5'' \<and>
   \<not> includesStr (message (createHttpError (rateLimited (Some ''5'') (Some ''1700000000''))))
       ''1700000000'' \<and>
   \<not> includesStr (actionableMessage (createHttpError (rateLimited (Some ''5'') (Some ''1700000000''))))
       ''1700000000''"
  by code_simp

subsection \<open>The shape of the two result builders\<close>

lemma join_nonempty: "x \<noteq> [] \<Longrightarrow> join sep (x # xs) \<noteq> []"
  by (cases xs) simp_all

lemma codeString_nonempty: "codeString c \<noteq> []"
  by (cases c) (simp_all add: codeString_def)

lemma codeString_inject: "codeString a = codeString b \<longleftrightarrow> a = b"
  by (cases a; cases b) (simp_all add: codeString_def)

lemma jget_JObj: "jget k (JObj kvs) = map_of kvs k"
  by (simp add: jget_def)

lemma isStr_simps [simp]:
  "isStr (Some (JStr s))" "\<not> isStr None" "\<not> isStr (Some JNull)" "\<not> isStr (Some (JBool b))"
  by (simp_all add: isStr_def)

lemma unsupportedResult_shape:
  "isUnsupportedShape (unsupportedResult t m d)"
  "\<not> isSuccessShape (unsupportedResult t m d)"
  "\<not> isErrorShape (unsupportedResult t m d)"
  by (simp_all add: unsupportedResult_def isUnsupportedShape_def isSuccessShape_def isErrorShape_def
      errorCodeOf_def jget_JObj Let_def codeString_def)

lemma unsupportedResult_details:
  "jget ''details'' (structuredContent (unsupportedResult t m d)) = Some d"
  by (simp add: unsupportedResult_def jget_JObj Let_def)

lemma errorResult_shape:
  "isErrorShape (errorResult t e)"
  "\<not> isSuccessShape (errorResult t e)"
  "\<not> isUnsupportedShape (errorResult t e)"
  by (simp_all add: errorResult_def isUnsupportedShape_def isSuccessShape_def isErrorShape_def
      errorCodeOf_def jget_JObj Let_def split: option.split)

lemma errorResult_code:
  "errorCodeOf (errorResult t (ThrownCapacities e)) = Some (codeString (code e))"
  by (simp add: errorResult_def errorCodeOf_def jget_JObj Let_def normalizeCapacitiesError_def)

lemma errorResult_hasErrorCode:
  "hasErrorCode (errorResult t (ThrownCapacities e)) c \<longleftrightarrow> code e = c"
  by (simp add: hasErrorCode_def errorResult_shape errorResult_code codeString_inject)

lemma shape_exclusive:
  "isErrorShape r \<Longrightarrow> \<not> isUnsupportedShape r"
  "isErrorShape r \<Longrightarrow> \<not> isSuccessShape r"
  "isUnsupportedShape r \<Longrightarrow> \<not> isSuccessShape r"
  by (auto simp: isErrorShape_def isUnsupportedShape_def isSuccessShape_def)

lemma trimToUndefined_Some:
  "trimToUndefined (Some s) = (if trim s \<noteq> [] then Some (trim s) else None)"
  by (auto simp: trimToUndefined_def trim_def)

lemma trimToUndefined_None [simp]: "trimToUndefined None = None"
  by (simp add: trimToUndefined_def)

text \<open>
  Claim C9, amended. For every argument \<open>get_entity_by_id\<close> returns the unsupported
  shape, never a success or an error shape, and calls nothing. The payload echoes the
  entity id and the structure id it received; its space id is the one received when one
  was given, and otherwise the configured default, or \<open>null\<close> without a default.
\<close>

theorem get_entity_by_id_unsupported:
  "isUnsupportedShape (fst (get_entity_by_id config input)) \<and>
   \<not> isSuccessShape (fst (get_entity_by_id config input)) \<and>
   \<not> isErrorShape (fst (get_entity_by_id config input)) \<and>
   snd (get_entity_by_id config input) = [] \<and>
   jpath [''details'', ''requestedEntity'', ''entityId'']
     (structuredContent (fst (get_entity_by_id config input))) = Some (JStr (ge_entityId input)) \<and>
   jpath [''details'', ''requestedEntity'', ''structureId'']
     (structuredContent (fst (get_entity_by_id config input))) = Some (JStr (ge_structureId input)) \<and>
   jpath [''details'', ''requestedEntity'', ''spaceId'']
     (structuredContent (fst (get_entity_by_id config input))) =
     Some (case ge_spaceId input of
             Some s \<Rightarrow> JStr s
           | None \<Rightarrow> (case defaultSpaceId config of Some d \<Rightarrow> JStr d | None \<Rightarrow> JNull))"
proof -
  let ?r = "fst (get_entity_by_id config input)"
  obtain details where r: "?r = unsupportedResult ''get_entity_by_id''
      ''Capacities public API does not provide a documented endpoint to fetch an entity by ID and structure.''
      details"
    and d: "jget ''requestedEntity'' details = Some (JObj
      [(''entityId'', JStr (ge_entityId input)),
       (''structureId'', JStr (ge_structureId input)),
       (''spaceId'',
          (case ge_spaceId input of
             Some s \<Rightarrow> JStr s
           | None \<Rightarrow> (case defaultSpaceId config of Some d \<Rightarrow> JStr d | None \<Rightarrow> JNull)))])"
    by (simp add: get_entity_by_id_def jget_JObj)
  have shape: "isUnsupportedShape ?r" "\<not> isSuccessShape ?r" "\<not> isErrorShape ?r"
    unfolding r by (rule unsupportedResult_shape)+
  have calls: "snd (get_entity_by_id config input) = []"
    by (simp add: get_entity_by_id_def)
  have payload: "jget ''details'' (structuredContent ?r) = Some details"
    unfolding r by (rule unsupportedResult_details)
  from shape calls payload d show ?thesis
    by (simp add: jget_JObj)
qed

text \<open>Instances of C9: a space id that is echoed as given, and none with no default.\<close>

theorem get_entity_by_id_unsupported_witness:
  "isUnsupportedShape (fst (get_entity_by_id configWithoutSpace
      (exampleEntity\<lparr>ge_spaceId := Some ''my space''\<rparr>))) \<and>
   jpath [''details'', ''requestedEntity'', ''spaceId'']
     (structuredContent (fst (get_entity_by_id configWithoutSpace
        (exampleEntity\<lparr>ge_spaceId := Some ''my space''\<rparr>)))) = Some (JStr ''my space'') \<and>
   jpath [''details'', ''requestedEntity'', ''spaceId'']
     (structuredContent (fst (get_entity_by_id configWithoutSpace exampleEntity))) = Some JNull"
  using get_entity_by_id_unsupported[of configWithoutSpace "exampleEntity\<lparr>ge_spaceId := Some ''my space''\<rparr>"]
    get_entity_by_id_unsupported[of configWithoutSpace exampleEntity]
  by (simp add: exampleEntity_def configWithoutSpace_def)

text \<open>
  C9 as stated fails: a call without a space id is answered with the configured default
  in the payload, a value the call did not receive.
\<close>

theorem get_entity_by_id_echo_counterexample:
  "ge_spaceId exampleEntity = None \<and>
   jpath [''details'', ''requestedEntity'', ''spaceId'']
     (structuredContent (fst (get_entity_by_id exampleConfig exampleEntity))) =
     Some (JStr ''11111111-1111-4111-8111-111111111111'')"
  by (simp add: get_entity_by_id_def unsupportedResult_details jget_JObj exampleEntity_def
      exampleConfig_def exampleSpaceId_def)

subsection \<open>Mutation tools\<close>

lemma normalizeCreateTaskInput_space:
  assumes "trim (ct_title input) \<noteq> []" and "resolveSpaceId (ct_spaceId input) config = Inl e"
  shows "normalizeCreateTaskInput input config clock = Inl e"
  using assms by (simp add: normalizeCreateTaskInput_def trimToUndefined_Some)

lemma normalizeCompleteTaskInput_space:
  assumes "trim (cm_taskId input) \<noteq> []" and "resolveSpaceId (cm_spaceId input) config = Inl e"
  shows "normalizeCompleteTaskInput input config = Inl e"
  using assms by (simp add: normalizeCompleteTaskInput_def trimToUndefined_Some)

lemma normalizeUpdateTaskInput_no_field:
  assumes "trim (ut_taskId input) \<noteq> []" and "\<not> suppliesUpdateField input"
  shows "normalizeUpdateTaskInput input config clock = Inl (createValidationError atLeastOneMessage)"
  using assms
  by (simp add: normalizeUpdateTaskInput_def trimToUndefined_Some suppliesUpdateField_def
      normalizeNullableText_def normalizeNullableDate_def atLeastOneMessage_def)

lemma normalizeUpdateTaskInput_valid:
  assumes "updateFieldsValid input clock" and "suppliesUpdateField input"
  shows "(\<forall>e. resolveSpaceId (ut_spaceId input) config = Inl e \<longrightarrow>
            normalizeUpdateTaskInput input config clock = Inl e) \<and>
         (\<forall>spaceId. resolveSpaceId (ut_spaceId input) config = Inr spaceId \<longrightarrow>
            (\<exists>payload. normalizeUpdateTaskInput input config clock = Inr payload))"
proof -
  from assms(1) have tid: "trim (ut_taskId input) \<noteq> []"
    and ti: "ut_title input = None \<or> (\<exists>t. ut_title input = Some t \<and> trim t \<noteq> [])"
    and de: "ut_description input = Undefined \<or> ut_description input = Null \<or>
             (\<exists>s. ut_description input = Value s \<and> trim s \<noteq> [])"
    and du: "ut_dueDate input = Undefined \<or> ut_dueDate input = Null \<or>
             (\<exists>s d. ut_dueDate input = Value s \<and> trim s \<noteq> [] \<and> normalizeDateInput (trim s) clock = Inr d)"
    by (auto simp: updateFieldsValid_def normalizes_def split: option.splits nullable.splits sum.splits)
  obtain title where title: "title = (if ut_title input = None then None else trimToUndefined (ut_title input))"
    by simp
  have t1: "\<not> (ut_title input \<noteq> None \<and> \<not> truthy title)"
    using ti by (auto simp: title trimToUndefined_Some)
  have t2: "title = None \<longleftrightarrow> ut_title input = None"
    using ti by (auto simp: title trimToUndefined_Some)
  obtain description where d1: "normalizeNullableText (ut_description input) ''description'' = Inr description"
    and d2: "description = Undefined \<longleftrightarrow> ut_description input = Undefined"
    using de by (auto simp: normalizeNullableText_def trimToUndefined_Some)
  obtain dueDate where e1: "normalizeNullableDate (ut_dueDate input) clock = Inr dueDate"
    and e2: "dueDate = Undefined \<longleftrightarrow> ut_dueDate input = Undefined"
    using du by (auto simp: normalizeNullableDate_def trimToUndefined_Some)
  have "normalizeUpdateTaskInput input config clock =
          (case resolveSpaceId (ut_spaceId input) config of
             Inl e \<Rightarrow> Inl e
           | Inr spaceId \<Rightarrow> Inr \<lparr>up_taskId = trim (ut_taskId input), up_spaceId = spaceId,
                 up_title = title, up_description = description, up_dueDate = dueDate,
                 up_status = ut_status input\<rparr>)"
    using tid t1 t2 d1 d2 e1 e2 assms(2)
    by (auto simp: normalizeUpdateTaskInput_def trimToUndefined_Some Let_def title[symmetric]
        suppliesUpdateField_def)
  then show ?thesis by simp
qed

lemma normalizeDateInput_Inl:
  assumes "normalizeDateInput s clock = Inl e"
  shows "code e = validation_error \<and> hd (message e) = CHR ''I''"
  using assms
  by (auto simp: normalizeDateInput_def Let_def split: if_splits option.splits prod.splits)

lemma resolveSpaceId_Inl:
  assumes "resolveSpaceId x config = Inl e"
  shows "(code e = config_error \<and> hd (message e) = CHR ''M'') \<or>
         (code e = validation_error \<and> hd (message e) = CHR ''S'')"
  using assms by (auto simp: resolveSpaceId_def Let_def split: if_splits)

lemma errorMessageOf_errorResult:
  "errorMessageOf (errorResult t (ThrownCapacities e)) = Some (message e)"
  by (simp add: errorMessageOf_def errorResult_def jget_JObj Let_def normalizeCapacitiesError_def)

lemma errorMessageOf_unsupportedResult:
  "errorMessageOf (unsupportedResult t m d) = Some m"
  by (simp add: errorMessageOf_def unsupportedResult_def jget_JObj Let_def)

lemma normalizeUpdateTaskInput_other_error:
  assumes "normalizeUpdateTaskInput input config clock = Inl e" and "suppliesUpdateField input"
  shows "hd (message e) \<noteq> CHR ''P''"
proof -
  have nt: "\<And>v x. normalizeNullableText v ''description'' = Inr x \<Longrightarrow> (x = Undefined) = (v = Undefined)"
    by (auto simp: normalizeNullableText_def split: nullable.splits option.splits)
  have nte: "\<And>v x. normalizeNullableText v ''description'' = Inl x \<Longrightarrow> hd (message x) = CHR ''d''"
    by (auto simp: normalizeNullableText_def split: nullable.splits option.splits)
  have nd: "\<And>v x. normalizeNullableDate v clock = Inr x \<Longrightarrow> (x = Undefined) = (v = Undefined)"
    by (auto simp: normalizeNullableDate_def split: nullable.splits option.splits sum.splits)
  have nde: "\<And>v x. normalizeNullableDate v clock = Inl x \<Longrightarrow>
               hd (message x) = CHR ''d'' \<or> hd (message x) = CHR ''I''"
    by (auto simp: normalizeNullableDate_def split: nullable.splits option.splits sum.splits
        dest: normalizeDateInput_Inl)
  show ?thesis
    using assms
    by (auto simp: normalizeUpdateTaskInput_def Let_def suppliesUpdateField_def
        trimToUndefined_Some
        split: option.splits if_splits sum.splits
        dest!: nt nte nd nde resolveSpaceId_Inl)
qed

text \<open>
  Claim C8. An \<open>update_task\<close> call with a non-empty task id that supplies none of title,
  description, dueDate and status fails with \<open>validation_error\<close> (the message asks for at
  least one update field), before the space id is looked at. A call that supplies one of
  them, \<open>null\<close> for description or dueDate included, never gets that error; and when its
  fields are valid and the space id resolves, it gets the unsupported shape.
\<close>

theorem update_task_requires_a_field:
  "(trim (ut_taskId input) \<noteq> [] \<and> \<not> suppliesUpdateField input \<longrightarrow>
      hasErrorCode (fst (update_task clock config input)) validation_error \<and>
      errorMessageOf (fst (update_task clock config input)) = Some atLeastOneMessage \<and>
      snd (update_task clock config input) = []) \<and>
   (suppliesUpdateField input \<longrightarrow>
      errorMessageOf (fst (update_task clock config input)) \<noteq> Some atLeastOneMessage) \<and>
   (suppliesUpdateField input \<and> updateFieldsValid input clock \<and>
    resolveSpaceId (ut_spaceId input) config = Inr spaceId \<longrightarrow>
      isUnsupportedShape (fst (update_task clock config input)) \<and>
      snd (update_task clock config input) = [])"
proof (intro conjI impI)
  assume a: "trim (ut_taskId input) \<noteq> [] \<and> \<not> suppliesUpdateField input"
  then have n: "normalizeUpdateTaskInput input config clock = Inl (createValidationError atLeastOneMessage)"
    by (simp add: normalizeUpdateTaskInput_no_field)
  show "hasErrorCode (fst (update_task clock config input)) validation_error"
    by (simp add: update_task_def n errorResult_hasErrorCode)
  show "errorMessageOf (fst (update_task clock config input)) = Some atLeastOneMessage"
    by (simp add: update_task_def n errorMessageOf_errorResult)
  show "snd (update_task clock config input) = []"
    by (simp add: update_task_def n)
next
  assume s: "suppliesUpdateField input"
  have p: "hd atLeastOneMessage = CHR ''P''" by (simp add: atLeastOneMessage_def)
  show "errorMessageOf (fst (update_task clock config input)) \<noteq> Some atLeastOneMessage"
  proof (cases "normalizeUpdateTaskInput input config clock")
    case (Inl e)
    then have "hd (message e) \<noteq> CHR ''P''" using s by (rule normalizeUpdateTaskInput_other_error)
    with p have "message e \<noteq> atLeastOneMessage" by auto
    with Inl show ?thesis by (simp add: update_task_def errorMessageOf_errorResult)
  next
    case (Inr payload)
    then show ?thesis
      by (simp add: update_task_def errorMessageOf_unsupportedResult atLeastOneMessage_def)
  qed
next
  assume a: "suppliesUpdateField input \<and> updateFieldsValid input clock \<and>
    resolveSpaceId (ut_spaceId input) config = Inr spaceId"
  with normalizeUpdateTaskInput_valid[of input clock config]
  obtain payload where n: "normalizeUpdateTaskInput input config clock = Inr payload"
    by blast
  show "isUnsupportedShape (fst (update_task clock config input))"
    by (simp add: update_task_def n unsupportedResult_shape)
  show "snd (update_task clock config input) = []"
    by (simp add: update_task_def n)
qed

text \<open>Instances of C8: the task id alone, and an explicit null or a status beside it.\<close>

theorem update_task_requires_a_field_witness:
  "hasErrorCode (fst (update_task exampleNow exampleConfig exampleUpdate)) validation_error \<and>
   errorMessageOf (fst (update_task exampleNow exampleConfig exampleUpdate)) = Some atLeastOneMessage \<and>
   isUnsupportedShape (fst (update_task exampleNow exampleConfig (exampleUpdate\<lparr>ut_description := Null\<rparr>))) \<and>
   isUnsupportedShape (fst (update_task exampleNow exampleConfig (exampleUpdate\<lparr>ut_dueDate := Null\<rparr>))) \<and>
   isUnsupportedShape (fst (update_task exampleNow exampleConfig
      (exampleUpdate\<lparr>ut_status := Some UpdateCompleted\<rparr>)))"
proof -
  have a: "trim (ut_taskId exampleUpdate) \<noteq> [] \<and> \<not> suppliesUpdateField exampleUpdate"
    by code_simp
  have b: "suppliesUpdateField (exampleUpdate\<lparr>ut_description := Null\<rparr>) \<and>
           updateFieldsValid (exampleUpdate\<lparr>ut_description := Null\<rparr>) exampleNow \<and>
           resolveSpaceId (ut_spaceId (exampleUpdate\<lparr>ut_description := Null\<rparr>)) exampleConfig = Inr exampleSpaceId"
    by code_simp
  have c: "suppliesUpdateField (exampleUpdate\<lparr>ut_dueDate := Null\<rparr>) \<and>
           updateFieldsValid (exampleUpdate\<lparr>ut_dueDate := Null\<rparr>) exampleNow \<and>
           resolveSpaceId (ut_spaceId (exampleUpdate\<lparr>ut_dueDate := Null\<rparr>)) exampleConfig = Inr exampleSpaceId"
    by code_simp
  have d: "suppliesUpdateField (exampleUpdate\<lparr>ut_status := Some UpdateCompleted\<rparr>) \<and>
           updateFieldsValid (exampleUpdate\<lparr>ut_status := Some UpdateCompleted\<rparr>) exampleNow \<and>
           resolveSpaceId (ut_spaceId (exampleUpdate\<lparr>ut_status := Some UpdateCompleted\<rparr>)) exampleConfig = Inr exampleSpaceId"
    by code_simp
  from update_task_requires_a_field[of exampleUpdate exampleNow exampleConfig exampleSpaceId] a
    update_task_requires_a_field[of "exampleUpdate\<lparr>ut_description := Null\<rparr>" exampleNow exampleConfig exampleSpaceId] b
    update_task_requires_a_field[of "exampleUpdate\<lparr>ut_dueDate := Null\<rparr>" exampleNow exampleConfig exampleSpaceId] c
    update_task_requires_a_field[of "exampleUpdate\<lparr>ut_status := Some UpdateCompleted\<rparr>" exampleNow exampleConfig exampleSpaceId] d
  show ?thesis by blast
qed

text \<open>
  Claim C10. For \<open>create_task\<close>, \<open>update_task\<close> and \<open>complete_task\<close> with otherwise valid
  arguments: without a space id in the call and without a configured default the result
  is an error shape with \<open>config_error\<close>; with a candidate that is not a UUID it is an error
  shape with \<open>validation_error\<close>; in neither case the unsupported shape.
\<close>

theorem mutation_tools_need_space:
  assumes "trim (ct_title cin) \<noteq> []"
    and "updateFieldsValid uin clock" and "suppliesUpdateField uin"
    and "trim (cm_taskId kin) \<noteq> []"
  shows
  "(ct_spaceId cin = None \<and> defaultSpaceId config = None \<longrightarrow>
      hasErrorCode (fst (create_task clock config cin)) config_error \<and>
      \<not> isUnsupportedShape (fst (create_task clock config cin))) \<and>
   (ut_spaceId uin = None \<and> defaultSpaceId config = None \<longrightarrow>
      hasErrorCode (fst (update_task clock config uin)) config_error \<and>
      \<not> isUnsupportedShape (fst (update_task clock config uin))) \<and>
   (cm_spaceId kin = None \<and> defaultSpaceId config = None \<longrightarrow>
      hasErrorCode (fst (complete_task config kin)) config_error \<and>
      \<not> isUnsupportedShape (fst (complete_task config kin))) \<and>
   (spaceCandidate (ct_spaceId cin) (defaultSpaceId config) = Some c \<and> c \<noteq> [] \<and> \<not> isUuid c \<longrightarrow>
      hasErrorCode (fst (create_task clock config cin)) validation_error \<and>
      \<not> isUnsupportedShape (fst (create_task clock config cin))) \<and>
   (spaceCandidate (ut_spaceId uin) (defaultSpaceId config) = Some c \<and> c \<noteq> [] \<and> \<not> isUuid c \<longrightarrow>
      hasErrorCode (fst (update_task clock config uin)) validation_error \<and>
      \<not> isUnsupportedShape (fst (update_task clock config uin))) \<and>
   (spaceCandidate (cm_spaceId kin) (defaultSpaceId config) = Some c \<and> c \<noteq> [] \<and> \<not> isUuid c \<longrightarrow>
      hasErrorCode (fst (complete_task config kin)) validation_error \<and>
      \<not> isUnsupportedShape (fst (complete_task config kin)))"
proof -
  have missing: "\<exists>e. resolveSpaceId x config = Inl e \<and> code e = config_error"
    if "x = None \<and> defaultSpaceId config = None" for x
    using that by (simp add: resolveSpaceId_missing spaceCandidate_def)
  have bad: "\<exists>e. resolveSpaceId x config = Inl e \<and> code e = validation_error"
    if "spaceCandidate x (defaultSpaceId config) = Some c \<and> c \<noteq> [] \<and> \<not> isUuid c" for x
    using that by (simp add: resolveSpaceId_not_uuid)
  have cr: "hasErrorCode (fst (create_task clock config cin)) k \<and>
            \<not> isUnsupportedShape (fst (create_task clock config cin))"
    if "resolveSpaceId (ct_spaceId cin) config = Inl e" "code e = k" for e k
    using that assms(1)
    by (simp add: create_task_def normalizeCreateTaskInput_space errorResult_hasErrorCode
        errorResult_shape)
  have up: "hasErrorCode (fst (update_task clock config uin)) k \<and>
            \<not> isUnsupportedShape (fst (update_task clock config uin))"
    if "resolveSpaceId (ut_spaceId uin) config = Inl e" "code e = k" for e k
    using that normalizeUpdateTaskInput_valid[OF assms(2,3), of config]
    by (simp add: update_task_def errorResult_hasErrorCode errorResult_shape)
  have co: "hasErrorCode (fst (complete_task config kin)) k \<and>
            \<not> isUnsupportedShape (fst (complete_task config kin))"
    if "resolveSpaceId (cm_spaceId kin) config = Inl e" "code e = k" for e k
    using that assms(4)
    by (simp add: complete_task_def normalizeCompleteTaskInput_space errorResult_hasErrorCode
        errorResult_shape)
  show ?thesis
    using missing bad cr up co by metis
qed

text \<open>Instances of C10: no space at all, and a space id that is no UUID.\<close>

theorem mutation_tools_need_space_witness:
  "hasErrorCode (fst (create_task exampleNow configWithoutSpace exampleCreate)) config_error \<and>
   hasErrorCode (fst (update_task exampleNow configWithoutSpace
      (exampleUpdate\<lparr>ut_status := Some UpdateOpen\<rparr>))) config_error \<and>
   hasErrorCode (fst (complete_task configWithoutSpace exampleComplete)) config_error \<and>
   hasErrorCode (fst (create_task exampleNow exampleConfig
      (exampleCreate\<lparr>ct_spaceId := Some ''my-space''\<rparr>))) validation_error \<and>
   hasErrorCode (fst (update_task exampleNow exampleConfig
      (exampleUpdate\<lparr>ut_status := Some UpdateOpen, ut_spaceId := Some ''my-space''\<rparr>))) validation_error \<and>
   hasErrorCode (fst (complete_task exampleConfig
      (exampleComplete\<lparr>cm_spaceId := Some ''my-space''\<rparr>))) validation_error"
proof -
  let ?u = "exampleUpdate\<lparr>ut_status := Some UpdateOpen\<rparr>"
  let ?c2 = "exampleCreate\<lparr>ct_spaceId := Some ''my-space''\<rparr>"
  let ?u2 = "exampleUpdate\<lparr>ut_status := Some UpdateOpen, ut_spaceId := Some ''my-space''\<rparr>"
  let ?k2 = "exampleComplete\<lparr>cm_spaceId := Some ''my-space''\<rparr>"
  have h1: "trim (ct_title exampleCreate) \<noteq> []" "updateFieldsValid ?u exampleNow"
    "suppliesUpdateField ?u" "trim (cm_taskId exampleComplete) \<noteq> []"
    by code_simp+
  have h2: "trim (ct_title ?c2) \<noteq> []" "updateFieldsValid ?u2 exampleNow"
    "suppliesUpdateField ?u2" "trim (cm_taskId ?k2) \<noteq> []"
    by code_simp+
  have m: "ct_spaceId exampleCreate = None \<and> defaultSpaceId configWithoutSpace = None"
    "ut_spaceId ?u = None \<and> defaultSpaceId configWithoutSpace = None"
    "cm_spaceId exampleComplete = None \<and> defaultSpaceId configWithoutSpace = None"
    by code_simp+
  have b: "spaceCandidate (ct_spaceId ?c2) (defaultSpaceId exampleConfig) = Some ''my-space'' \<and>
           ''my-space'' \<noteq> [] \<and> \<not> isUuid ''my-space''"
    "spaceCandidate (ut_spaceId ?u2) (defaultSpaceId exampleConfig) = Some ''my-space'' \<and>
           ''my-space'' \<noteq> [] \<and> \<not> isUuid ''my-space''"
    "spaceCandidate (cm_spaceId ?k2) (defaultSpaceId exampleConfig) = Some ''my-space'' \<and>
           ''my-space'' \<noteq> [] \<and> \<not> isUuid ''my-space''"
    by code_simp+
  from mutation_tools_need_space[OF h1, of configWithoutSpace "[]"] m
    mutation_tools_need_space[OF h2, of exampleConfig "''my-space''"] b
  show ?thesis by blast
qed

subsection \<open>Every handler returns one shape\<close>

lemma searchEntitiesSuccess_shape:
  "isSuccessShape (searchEntitiesSuccess filters results notes)"
  "\<not> isUnsupportedShape (searchEntitiesSuccess filters results notes)"
  "\<not> isErrorShape (searchEntitiesSuccess filters results notes)"
  by (simp_all add: searchEntitiesSuccess_def isSuccessShape_def isUnsupportedShape_def
      isErrorShape_def jget_JObj Let_def)

lemma objectKeys_JObj [simp]: "objectKeys (JObj kvs) = map fst kvs"
  by (simp add: objectKeys_def)

lemma textOf_JObj: "textOf k (JObj kvs) = (case map_of kvs k of Some (JStr s) \<Rightarrow> s | _ \<Rightarrow> [])"
  by (simp add: textOf_def jget_JObj)

lemma objectOf_JObj: "objectOf k (JObj kvs) = (case map_of kvs k of Some w \<Rightarrow> w | None \<Rightarrow> JUndefined)"
  by (simp add: objectOf_def jget_JObj)

lemma itemsOf_JObj: "itemsOf k (JObj kvs) = (case map_of kvs k of Some (JArr xs) \<Rightarrow> xs | _ \<Rightarrow> [])"
  by (simp add: itemsOf_def jget_JObj)

lemma numberOf_JObj: "numberOf k (JObj kvs) = (case map_of kvs k of Some (JNum n) \<Rightarrow> n | _ \<Rightarrow> 0)"
  by (simp add: numberOf_def jget_JObj)

lemmas payload_simps = jget_JObj textOf_JObj objectOf_JObj itemsOf_JObj numberOf_JObj

lemma intToString_nat: "intToString (int n) = natToString n"
  by (simp add: intToString_def)

lemma codeString_taxonomy: "codeString c \<in> set errorCodes"
  by (cases c) (simp_all add: codeString_def errorCodes_def)

subsection \<open>The error result\<close>

lemma errorResult_payload:
  "structuredContent (errorResult t (ThrownCapacities e)) =
     JObj [(''tool'', JStr t), (''ok'', JBool False), (''error'', classifiedErrorJson e)]"
  "isError (errorResult t (ThrownCapacities e)) = Some True"
  by (simp_all add: errorResult_def Let_def normalizeCapacitiesError_def classifiedErrorJson_def)

lemma errorResult_populates:
  "populatesError t (errorResult t (ThrownCapacities e))"
  unfolding populatesError_def errorResult_payload
  by (simp add: payload_simps classifiedErrorJson_def codeString_taxonomy isCountOrNull_def
      split: option.split)

lemma errorResult_not_success: "\<not> populatesSuccess t (errorResult t (ThrownCapacities e))"
  by (simp add: populatesSuccess_def errorResult_payload)

lemma errorResult_not_unsupported: "\<not> populatesUnsupported t (errorResult t (ThrownCapacities e))"
  unfolding populatesUnsupported_def errorResult_payload by simp

lemma errorResult_summaryOf:
  "summaryOf (structuredContent (errorResult t (ThrownCapacities e))) =
     content_text (hd (content (errorResult t (ThrownCapacities e))))"
  unfolding errorResult_payload
  by (simp add: summaryOf_def errorSummary_def errorResult_def Let_def toTextContent_def
      normalizeCapacitiesError_def payload_simps classifiedErrorJson_def intToString_nat
      split: option.split)

lemma errorResult_paired: "pairedWithSummary (errorResult t (ThrownCapacities e))"
proof -
  have "content_text (hd (content (errorResult t (ThrownCapacities e)))) \<noteq> []"
    by (simp add: errorResult_def Let_def toTextContent_def join_nonempty)
  moreover have "content (errorResult t (ThrownCapacities e)) =
      [\<lparr>content_type = ''text'',
        content_text = content_text (hd (content (errorResult t (ThrownCapacities e))))\<rparr>]"
    by (simp add: errorResult_def Let_def toTextContent_def)
  ultimately show ?thesis
    unfolding pairedWithSummary_def errorResult_summaryOf by simp
qed

lemma errorResult_reports: "reportsError t e (errorResult t (ThrownCapacities e))"
  unfolding reportsError_def populatedShapes_def
  using errorResult_populates[of t e] errorResult_not_success[of t e]
    errorResult_not_unsupported[of t e] errorResult_paired[of t e]
  by (simp add: errorResult_payload jget_JObj)

subsection \<open>The unsupported result\<close>

lemma unsupportedResult_payload:
  "structuredContent (unsupportedResult t m d) =
     JObj [(''tool'', JStr t), (''supported'', JBool False),
           (''error'', JObj [(''code'', JStr ''unsupported''), (''message'', JStr m),
                            (''actionableMessage'', JStr
                               ''Use a supported Capacities API endpoint documented in https://api.capacities.io/docs.'')]),
           (''details'', d)]"
  "isError (unsupportedResult t m d) = None"
  by (simp_all add: unsupportedResult_def Let_def createUnsupportedError_def codeString_def)

lemma unsupportedResult_populates:
  assumes "m \<noteq> []" and "detailKeys t \<noteq> []" and "objectKeys d = detailKeys t"
    and "list_all (\<lambda>k. isFilled (objectOf k d)) (detailKeys t)"
  shows "populatesUnsupported t (unsupportedResult t m d)"
  unfolding populatesUnsupported_def unsupportedResult_payload
  using assms by (simp add: payload_simps)

lemma unsupportedResult_not_success: "\<not> populatesSuccess t (unsupportedResult t m d)"
  unfolding populatesSuccess_def spaceInfoPopulated_def searchPopulated_def
    unsupportedResult_payload
  by simp

lemma unsupportedResult_not_error: "\<not> populatesError t (unsupportedResult t m d)"
  unfolding populatesError_def unsupportedResult_payload by simp

lemma unsupportedResult_paired: "pairedWithSummary (unsupportedResult t m d)"
proof -
  have s: "summaryOf (structuredContent (unsupportedResult t m d)) =
           content_text (hd (content (unsupportedResult t m d)))"
    unfolding unsupportedResult_payload
    by (simp add: summaryOf_def unsupportedSummary_def unsupportedResult_def Let_def
        toTextContent_def payload_simps createUnsupportedError_def codeString_def)
  have "content_text (hd (content (unsupportedResult t m d))) \<noteq> []"
    by (simp add: unsupportedResult_def Let_def toTextContent_def)
  moreover have "content (unsupportedResult t m d) =
      [\<lparr>content_type = ''text'', content_text = content_text (hd (content (unsupportedResult t m d)))\<rparr>]"
    by (simp add: unsupportedResult_def Let_def toTextContent_def)
  ultimately show ?thesis
    unfolding pairedWithSummary_def s by simp
qed

lemma unsupportedResult_reports:
  assumes "m \<noteq> []" and "detailKeys t \<noteq> []" and "objectKeys d = detailKeys t"
    and "list_all (\<lambda>k. isFilled (objectOf k d)) (detailKeys t)"
  shows "reportsUnsupported t (unsupportedResult t m d)"
  unfolding reportsUnsupported_def populatedShapes_def
  using unsupportedResult_populates[OF assms] unsupportedResult_not_success[of t m d]
    unsupportedResult_not_error[of t m d] unsupportedResult_paired[of t m d]
  by simp

lemma isFilled_simps [simp]:
  "isFilled (JObj (kv # kvs))" "isFilled (JArr (x # xs))"
  by (simp_all add: isFilled_def)

lemma AVAILABLE_ENDPOINTS_filled [simp]: "isFilled AVAILABLE_ENDPOINTS"
  by (simp add: AVAILABLE_ENDPOINTS_def)

subsection \<open>The five tools without a remote equivalent\<close>

lemma get_entity_by_id_reports:
  "reportsUnsupported ''get_entity_by_id'' (fst (get_entity_by_id config input))"
  unfolding get_entity_by_id_def fst_conv
  by (rule unsupportedResult_reports) (simp_all add: detailKeys_def payload_simps)

lemma list_tasks_reports:
  "(case normalizeListTasksFilters input clock of
      Inl e \<Rightarrow> reportsError ''list_tasks'' e (fst (list_tasks clock input))
    | Inr filters \<Rightarrow> reportsUnsupported ''list_tasks'' (fst (list_tasks clock input)))"
proof (cases "normalizeListTasksFilters input clock")
  case (Inl e)
  then show ?thesis by (simp add: list_tasks_def errorResult_reports)
next
  case (Inr filters)
  have "reportsUnsupported ''list_tasks''
          (unsupportedResult ''list_tasks''
             ''Capacities public API does not provide a documented endpoint for listing tasks or filtering by task status/date.''
             (JObj [(''requestedFilters'', listFiltersJson filters),
                    (''availableEndpoints'', AVAILABLE_ENDPOINTS)]))"
    by (rule unsupportedResult_reports)
       (simp_all add: detailKeys_def payload_simps listFiltersJson_def)
  with Inr show ?thesis by (simp add: list_tasks_def)
qed

lemma create_task_reports:
  "(case normalizeCreateTaskInput input config clock of
      Inl e \<Rightarrow> reportsError ''create_task'' e (fst (create_task clock config input))
    | Inr payload \<Rightarrow> reportsUnsupported ''create_task'' (fst (create_task clock config input)))"
proof (cases "normalizeCreateTaskInput input config clock")
  case (Inl e)
  then show ?thesis by (simp add: create_task_def errorResult_reports)
next
  case (Inr payload)
  have "reportsUnsupported ''create_task''
          (unsupportedResult ''create_task''
             ''Capacities public API does not provide a documented endpoint for creating tasks.''
             (JObj [(''requestedTask'', createTaskJson payload),
                    (''availableEndpoints'', AVAILABLE_ENDPOINTS)]))"
    by (rule unsupportedResult_reports)
       (simp_all add: detailKeys_def payload_simps createTaskJson_def)
  with Inr show ?thesis by (simp add: create_task_def)
qed

lemma update_task_reports:
  "(case normalizeUpdateTaskInput input config clock of
      Inl e \<Rightarrow> reportsError ''update_task'' e (fst (update_task clock config input))
    | Inr payload \<Rightarrow> reportsUnsupported ''update_task'' (fst (update_task clock config input)))"
proof (cases "normalizeUpdateTaskInput input config clock")
  case (Inl e)
  then show ?thesis by (simp add: update_task_def errorResult_reports)
next
  case (Inr payload)
  have "reportsUnsupported ''update_task''
          (unsupportedResult ''update_task''
             ''Capacities public API does not provide a documented endpoint for updating task fields or status.''
             (JObj [(''requestedUpdate'', updateTaskJson payload),
                    (''availableEndpoints'', AVAILABLE_ENDPOINTS)]))"
    by (rule unsupportedResult_reports)
       (simp_all add: detailKeys_def payload_simps updateTaskJson_def)
  with Inr show ?thesis by (simp add: update_task_def)
qed

lemma complete_task_reports:
  "(case normalizeCompleteTaskInput input config of
      Inl e \<Rightarrow> reportsError ''complete_task'' e (fst (complete_task config input))
    | Inr payload \<Rightarrow> reportsUnsupported ''complete_task'' (fst (complete_task config input)))"
proof (cases "normalizeCompleteTaskInput input config")
  case (Inl e)
  then show ?thesis by (simp add: complete_task_def errorResult_reports)
next
  case (Inr payload)
  have "reportsUnsupported ''complete_task''
          (unsupportedResult ''complete_task''
             ''Capacities public API does not provide a documented endpoint for completing or uncompleting tasks.''
             (JObj [(''requestedAction'', completeTaskJson payload),
                    (''availableEndpoints'', AVAILABLE_ENDPOINTS)]))"
    by (rule unsupportedResult_reports)
       (simp_all add: detailKeys_def payload_simps completeTaskJson_def)
  with Inr show ?thesis by (simp add: complete_task_def)
qed

subsection \<open>The success results\<close>

lemma resolveSpaceId_uuid: "resolveSpaceId x config = Inr sid \<Longrightarrow> isUuid sid"
  by (auto simp: resolveSpaceId_def Let_def split: if_splits)

lemma find_filter_title:
  "(case find P spaces of None \<Rightarrow> JNull | Some space \<Rightarrow> JStr (space_title space)) =
   (case filter P spaces of [] \<Rightarrow> JNull | space # others \<Rightarrow> JStr (space_title space))"
  by (induction spaces) simp_all

lemma find_filter_text:
  "(case (case filter P spaces of [] \<Rightarrow> JNull | space # others \<Rightarrow> JStr (space_title space)) of
      JStr t \<Rightarrow> t | _ \<Rightarrow> d) =
   (case find P spaces of None \<Rightarrow> d | Some space \<Rightarrow> space_title space)"
  by (induction spaces) simp_all

lemma structureJson_fields:
  "jget ''id'' (structureJson s) = Some (JStr (structure_id s))"
  "jget ''title'' (structureJson s) = Some (JStr (structure_title s))"
  "textOf ''id'' (structureJson s) = structure_id s"
  "textOf ''title'' (structureJson s) = structure_title s"
  by (simp_all add: structureJson_def payload_simps)

lemma spaceInfoPayload_populated:
  "isUuid sid \<Longrightarrow> spaceInfoPopulated (spaceInfoPayload sid spaces structures)"
  unfolding spaceInfoPopulated_def spaceInfoPayload_def
  by (simp add: payload_simps isCount_def isStrOrNull_def list_all_iff structureJson_fields
      split: list.split)

lemma spaceInfoPayload_summary:
  "summaryOf (spaceInfoPayload sid spaces structures) =
     renderSpaceInfoMarkdown sid (map_option space_title (find (\<lambda>space. space_id space = sid) spaces))
       (length spaces) structures"
  unfolding summaryOf_def spaceInfoSummary_def spaceInfoPayload_def renderSpaceInfoMarkdown_def
  by (cases "find (\<lambda>space. space_id space = sid) spaces")
     (simp_all add: payload_simps Let_def intToString_nat find_filter_text comp_def
      structureJson_fields del: natToString.simps)

lemma get_space_info_success:
  assumes "resolveSpaceId spaceId config = Inr sid"
    and "fst (getSpaces host config) = Inr spaces"
    and "fst (getSpaceInfo host config (Some sid)) = Inr structures"
  shows "structuredContent (fst (get_space_info host config spaceId)) =
           spaceInfoPayload sid spaces structures"
    and "reportsSuccess ''get_space_info'' (fst (get_space_info host config spaceId))"
proof -
  let ?r = "fst (get_space_info host config spaceId)"
  have r: "?r = \<lparr>content = toTextContent (renderSpaceInfoMarkdown sid
                     (map_option space_title (find (\<lambda>space. space_id space = sid) spaces))
                     (length spaces) structures),
                  structuredContent = spaceInfoPayload sid spaces structures,
                  isError = None\<rparr>"
    using assms
    by (cases "find (\<lambda>space. space_id space = sid) spaces")
       (simp_all add: get_space_info_def Let_def Promise_all_def spaceInfoPayload_def
        find_filter_title[symmetric])
  show p: "structuredContent ?r = spaceInfoPayload sid spaces structures" by (simp add: r)
  have u: "isUuid sid" by (rule resolveSpaceId_uuid[OF assms(1)])
  have s: "populatesSuccess ''get_space_info'' ?r"
    by (simp add: populatesSuccess_def r spaceInfoPayload_populated[OF u])
  have nu: "\<not> populatesUnsupported ''get_space_info'' ?r"
    by (simp add: populatesUnsupported_def detailKeys_def)
  have ne: "\<not> populatesError ''get_space_info'' ?r"
    by (simp add: populatesError_def r)
  have "renderSpaceInfoMarkdown sid
          (map_option space_title (find (\<lambda>space. space_id space = sid) spaces))
          (length spaces) structures \<noteq> []"
    by (simp add: renderSpaceInfoMarkdown_def Let_def)
  then have ps: "pairedWithSummary ?r"
    by (simp add: pairedWithSummary_def r spaceInfoPayload_summary toTextContent_def)
  from s nu ne ps show "reportsSuccess ''get_space_info'' ?r"
    by (simp add: reportsSuccess_def populatedShapes_def)
qed

lemma get_space_info_failure:
  assumes "resolveSpaceId spaceId config = Inr sid"
  shows "fst (getSpaces host config) = Inl e1 \<Longrightarrow>
         fst (getSpaceInfo host config (Some sid)) = Inr structures \<Longrightarrow>
         reportsError ''get_space_info'' e1 (fst (get_space_info host config spaceId))"
    and "fst (getSpaces host config) = Inr spaces \<Longrightarrow>
         fst (getSpaceInfo host config (Some sid)) = Inl e2 \<Longrightarrow>
         reportsError ''get_space_info'' e2 (fst (get_space_info host config spaceId))"
    and "fst (getSpaces host config) = Inl e1 \<Longrightarrow>
         fst (getSpaceInfo host config (Some sid)) = Inl e2 \<Longrightarrow>
         reportsError ''get_space_info'' (if spacesSettlesFirst host then e1 else e2)
           (fst (get_space_info host config spaceId))"
  using assms
  by (simp_all add: get_space_info_def Let_def Promise_all_def errorResult_reports)

lemma optStr_text:
  "(case optStr v of JStr s \<Rightarrow> s | _ \<Rightarrow> []) = (if truthy v then the v else [])"
  by (cases v) (simp_all add: optStr_def truthy_def)

lemma query_fields:
  "textOf ''text'' (searchFiltersJson f) = (if truthy (sf_text f) then the (sf_text f) else [])"
  "textOf ''type'' (searchFiltersJson f) = (if truthy (sf_type f) then the (sf_type f) else [])"
  "textOf ''date'' (searchFiltersJson f) = (if truthy (sf_date f) then the (sf_date f) else [])"
  "textOf ''dateFrom'' (searchFiltersJson f) =
     (if truthy (sf_dateFrom f) then the (sf_dateFrom f) else [])"
  "textOf ''dateTo'' (searchFiltersJson f) = (if truthy (sf_dateTo f) then the (sf_dateTo f) else [])"
  "numberOf ''limit'' (searchFiltersJson f) = sf_limit f"
  "jget ''limit'' (searchFiltersJson f) = Some (JNum (sf_limit f))"
  "objectKeys (searchFiltersJson f) =
     [''spaceId'', ''text'', ''type'', ''date'', ''dateFrom'', ''dateTo'', ''limit'']"
  by (simp_all add: searchFiltersJson_def payload_simps optStr_text)

lemma truthy_the: "truthy v \<Longrightarrow> the v \<noteq> []"
  by (cases v) (simp_all add: truthy_def)

lemma quotedOrMissing_query:
  "quotedOrMissing (if truthy v then the v else []) =
     (if truthy v then bt @ the v @ bt else ''_Not provided_'')"
  by (simp add: quotedOrMissing_def truthy_the)

lemma dateFilterSummary_query: "dateFilterSummary (searchFiltersJson f) = renderDateFilter f"
  by (simp add: dateFilterSummary_def renderDateFilter_def query_fields truthy_the)

lemma lookupResultJson_fields:
  "objectKeys (lookupResultJson r) = [''id'', ''structureId'', ''title'']"
  "jget ''id'' (lookupResultJson r) = Some (JStr (result_id r))"
  "jget ''structureId'' (lookupResultJson r) = Some (JStr (result_structureId r))"
  "jget ''title'' (lookupResultJson r) = Some (JStr (result_title r))"
  "textOf ''id'' (lookupResultJson r) = result_id r"
  "textOf ''structureId'' (lookupResultJson r) = result_structureId r"
  "textOf ''title'' (lookupResultJson r) = result_title r"
  by (simp_all add: lookupResultJson_def payload_simps)

lemma length_slice0: "length (slice0 xs e) \<le> length xs"
  by (simp add: slice0_def) arith

lemma dash_append: "(@) ''- '' = (\<lambda>x. CHR ''-'' # CHR '' '' # x)"
  by (rule ext) simp

lemma searchPayload_populated:
  assumes "truthy (sf_text filters)" and "length limited \<le> matches"
  shows "searchPopulated (searchPayload filters limited matches notes)"
  unfolding searchPopulated_def searchPayload_def
  using assms
  by (simp add: payload_simps query_fields truthy_the isCount_def list_all_iff isStrVal_def
      lookupResultJson_fields)

lemma searchPayload_summary:
  "summaryOf (searchPayload filters limited matches notes) =
     renderSearchEntitiesMarkdown filters limited matches notes"
  unfolding summaryOf_def searchSummary_def searchPayload_def renderSearchEntitiesMarkdown_def
  by (simp add: payload_simps Let_def intToString_nat query_fields quotedOrMissing_query
      dateFilterSummary_query comp_def lookupResultJson_fields dash_append)

lemma searchEntitiesSuccess_reports:
  assumes "truthy (sf_text filters)"
  shows "reportsSuccess ''search_entities'' (searchEntitiesSuccess filters results notes)"
proof -
  define notes' where "notes' =
    (if truthy (sf_date filters) \<or> truthy (sf_dateFrom filters) \<or> truthy (sf_dateTo filters)
     then notes @ [dateFilterNote] else notes)"
  define limited where "limited = slice0 results (sf_limit filters)"
  let ?r = "searchEntitiesSuccess filters results notes"
  have r: "?r = \<lparr>content = toTextContent
                      (renderSearchEntitiesMarkdown filters limited (length results) notes'),
                  structuredContent = searchPayload filters limited (length results) notes',
                  isError = None\<rparr>"
    by (simp add: searchEntitiesSuccess_def Let_def searchPayload_def notes'_def limited_def)
  have l: "length limited \<le> length results" unfolding limited_def by (rule length_slice0)
  have s: "populatesSuccess ''search_entities'' ?r"
    by (simp add: populatesSuccess_def r searchPayload_populated[OF assms l])
  have nu: "\<not> populatesUnsupported ''search_entities'' ?r"
    by (simp add: populatesUnsupported_def r searchPayload_def)
  have ne: "\<not> populatesError ''search_entities'' ?r"
    by (simp add: populatesError_def r)
  have "renderSearchEntitiesMarkdown filters limited (length results) notes' \<noteq> []"
    by (simp add: renderSearchEntitiesMarkdown_def Let_def)
  then have ps: "pairedWithSummary ?r"
    by (simp add: pairedWithSummary_def r searchPayload_summary toTextContent_def)
  from s nu ne ps show ?thesis
    by (simp add: reportsSuccess_def populatedShapes_def)
qed

lemma search_entities_reports:
  "(case normalizeSearchEntitiesFilters input (now host) of
      Inl e \<Rightarrow> reportsError ''search_entities'' e (fst (search_entities host config input))
    | Inr filters \<Rightarrow>
        (case resolveSpaceId (sf_spaceId filters) config of
           Inl e \<Rightarrow> reportsError ''search_entities'' e (fst (search_entities host config input))
         | Inr sid \<Rightarrow>
             (if \<not> truthy (sf_text filters)
              then reportsUnsupported ''search_entities'' (fst (search_entities host config input))
              else
                (case fst (lookup host config (the (sf_text filters)) (Some sid)) of
                   Inl e \<Rightarrow>
                     reportsError ''search_entities'' e (fst (search_entities host config input))
                 | Inr results \<Rightarrow>
                     (if truthy (sf_type filters)
                      then
                        (case fst (getSpaceInfo host config (Some sid)) of
                           Inl e \<Rightarrow>
                             reportsError ''search_entities'' e
                               (fst (search_entities host config input))
                         | Inr structures \<Rightarrow>
                             reportsSuccess ''search_entities''
                               (fst (search_entities host config input)))
                      else reportsSuccess ''search_entities''
                             (fst (search_entities host config input)))))))"
proof -
  have u: "reportsUnsupported ''search_entities''
             (unsupportedResult ''search_entities''
                ''Capacities /lookup requires a non-empty text query. Date-only or type-only search is not supported by the public API.''
                (JObj [(''requestedFilters'', searchFiltersJson filters),
                       (''supported'', searchSupportedJson)]))" for filters
    by (rule unsupportedResult_reports)
       (simp_all add: detailKeys_def payload_simps searchFiltersJson_def searchSupportedJson_def)
  show ?thesis
    by (simp add: search_entities_def Let_def errorResult_reports searchEntitiesSuccess_reports u
        split: sum.split)
qed

lemma get_space_info_reports:
  "(case resolveSpaceId spaceId config of
      Inl e \<Rightarrow> reportsError ''get_space_info'' e (fst (get_space_info host config spaceId))
    | Inr sid \<Rightarrow>
        (case fst (getSpaces host config) of
           Inl e1 \<Rightarrow>
             (case fst (getSpaceInfo host config (Some sid)) of
                Inl e2 \<Rightarrow>
                  reportsError ''get_space_info'' e1 (fst (get_space_info host config spaceId)) \<or>
                  reportsError ''get_space_info'' e2 (fst (get_space_info host config spaceId))
              | Inr structures \<Rightarrow>
                  reportsError ''get_space_info'' e1 (fst (get_space_info host config spaceId)))
         | Inr spaces \<Rightarrow>
             (case fst (getSpaceInfo host config (Some sid)) of
                Inl e2 \<Rightarrow>
                  reportsError ''get_space_info'' e2 (fst (get_space_info host config spaceId))
              | Inr structures \<Rightarrow>
                  reportsSuccess ''get_space_info'' (fst (get_space_info host config spaceId)) \<and>
                  structuredContent (fst (get_space_info host config spaceId)) =
                    spaceInfoPayload sid spaces structures)))"
proof (cases "resolveSpaceId spaceId config")
  case (Inl e)
  then show ?thesis by (simp add: get_space_info_def errorResult_reports)
next
  case (Inr sid)
  note f = get_space_info_failure[OF Inr, of host]
  note s = get_space_info_success[OF Inr, of host]
  show ?thesis
  proof (cases "fst (getSpaces host config)")
    case a: (Inl e1)
    show ?thesis
    proof (cases "fst (getSpaceInfo host config (Some sid))")
      case b: (Inl e2)
      from f(3)[OF a b] Inr a b show ?thesis by (simp split: if_splits)
    next
      case b: (Inr structures)
      from f(1)[OF a b] Inr a b show ?thesis by simp
    qed
  next
    case a: (Inr spaces)
    show ?thesis
    proof (cases "fst (getSpaceInfo host config (Some sid))")
      case b: (Inl e2)
      from f(2)[OF a b] Inr a b show ?thesis by simp
    next
      case b: (Inr structures)
      from s[OF a b] Inr a b show ?thesis by simp
    qed
  qed
qed

text \<open>
  Claim C1. Each of the seven handlers, on every argument and with every answer of the
  remote service (a body that parses being read at the interface that the client declares
  for the endpoint), returns a result with exactly one populated shape, paired with the
  rendered summary of that payload, and the shape is the one that the outcome of the call
  asks for. \<open>get_space_info\<close> reports the error of resolving the space id or of a failed
  remote call (one of the two when both fail), and reports success only when both calls
  succeeded, with the payload made of both answers. \<open>search_entities\<close> reports the error of
  normalizing the filters, of resolving the space id or of a failed remote call, the
  unsupported outcome when there is no text, and success otherwise. \<open>get_entity_by_id\<close>
  always reports the unsupported outcome; \<open>list_tasks\<close>, \<open>create_task\<close>, \<open>update_task\<close> and
  \<open>complete_task\<close> report the error of normalizing their input, and the unsupported
  outcome otherwise.
\<close>

theorem every_tool_returns_one_shape:
  "(case resolveSpaceId spaceId config of
      Inl e \<Rightarrow> reportsError ''get_space_info'' e (fst (get_space_info host config spaceId))
    | Inr sid \<Rightarrow>
        (case fst (getSpaces host config) of
           Inl e1 \<Rightarrow>
             (case fst (getSpaceInfo host config (Some sid)) of
                Inl e2 \<Rightarrow>
                  reportsError ''get_space_info'' e1 (fst (get_space_info host config spaceId)) \<or>
                  reportsError ''get_space_info'' e2 (fst (get_space_info host config spaceId))
              | Inr structures \<Rightarrow>
                  reportsError ''get_space_info'' e1 (fst (get_space_info host config spaceId)))
         | Inr spaces \<Rightarrow>
             (case fst (getSpaceInfo host config (Some sid)) of
                Inl e2 \<Rightarrow>
                  reportsError ''get_space_info'' e2 (fst (get_space_info host config spaceId))
              | Inr structures \<Rightarrow>
                  reportsSuccess ''get_space_info'' (fst (get_space_info host config spaceId)) \<and>
                  structuredContent (fst (get_space_info host config spaceId)) =
                    spaceInfoPayload sid spaces structures))) \<and>
   (case normalizeSearchEntitiesFilters searchInput (now host) of
      Inl e \<Rightarrow> reportsError ''search_entities'' e (fst (search_entities host config searchInput))
    | Inr filters \<Rightarrow>
        (case resolveSpaceId (sf_spaceId filters) config of
           Inl e \<Rightarrow>
             reportsError ''search_entities'' e (fst (search_entities host config searchInput))
         | Inr sid \<Rightarrow>
             (if \<not> truthy (sf_text filters)
              then reportsUnsupported ''search_entities''
                     (fst (search_entities host config searchInput))
              else
                (case fst (lookup host config (the (sf_text filters)) (Some sid)) of
                   Inl e \<Rightarrow>
                     reportsError ''search_entities'' e
                       (fst (search_entities host config searchInput))
                 | Inr results \<Rightarrow>
                     (if truthy (sf_type filters)
                      then
                        (case fst (getSpaceInfo host config (Some sid)) of
                           Inl e \<Rightarrow>
                             reportsError ''search_entities'' e
                               (fst (search_entities host config searchInput))
                         | Inr structures \<Rightarrow>
                             reportsSuccess ''search_entities''
                               (fst (search_entities host config searchInput)))
                      else reportsSuccess ''search_entities''
                             (fst (search_entities host config searchInput))))))) \<and>
   reportsUnsupported ''get_entity_by_id'' (fst (get_entity_by_id config entityInput)) \<and>
   (case normalizeListTasksFilters listInput clock of
      Inl e \<Rightarrow> reportsError ''list_tasks'' e (fst (list_tasks clock listInput))
    | Inr filters \<Rightarrow> reportsUnsupported ''list_tasks'' (fst (list_tasks clock listInput))) \<and>
   (case normalizeCreateTaskInput createInput config clock of
      Inl e \<Rightarrow> reportsError ''create_task'' e (fst (create_task clock config createInput))
    | Inr payload \<Rightarrow>
        reportsUnsupported ''create_task'' (fst (create_task clock config createInput))) \<and>
   (case normalizeUpdateTaskInput updateInput config clock of
      Inl e \<Rightarrow> reportsError ''update_task'' e (fst (update_task clock config updateInput))
    | Inr payload \<Rightarrow>
        reportsUnsupported ''update_task'' (fst (update_task clock config updateInput))) \<and>
   (case normalizeCompleteTaskInput completeInput config of
      Inl e \<Rightarrow> reportsError ''complete_task'' e (fst (complete_task config completeInput))
    | Inr payload \<Rightarrow>
        reportsUnsupported ''complete_task'' (fst (complete_task config completeInput)))"
  by (intro conjI get_space_info_reports search_entities_reports get_entity_by_id_reports
      list_tasks_reports create_task_reports update_task_reports complete_task_reports)

text \<open>
  Instances of C1: one call of each handler. \<open>get_space_info\<close> succeeds on the example host
  with the payload of both answers, and reports the error of \<open>/spaces\<close> (status 503) when
  only \<open>/space-info\<close> answers; \<open>search_entities\<close> is unsupported without text and succeeds with
  it; \<open>update_task\<close> with no field reports its validation error.
\<close>

theorem every_tool_returns_one_shape_witness:
  "reportsSuccess ''get_space_info''
     (fst (get_space_info (exampleHost [] [noteStructure]) exampleConfig None)) \<and>
   structuredContent (fst (get_space_info (exampleHost [] [noteStructure]) exampleConfig None)) =
     JObj [(''tool'', JStr ''get_space_info''),
           (''spaceId'', JStr exampleSpaceId),
           (''spaceTitle'', JStr ''Home''),
           (''spacesCount'', JNum 2),
           (''structures'', JArr [structureJson noteStructure])] \<and>
   reportsError ''get_space_info''
     (createHttpError
        \<lparr>resp_status = 503, retry_after = None, ratelimit_reset = None, resp_text = []\<rparr>)
     (fst (get_space_info (spacesDownHost [noteStructure]) exampleConfig None)) \<and>
   reportsError ''get_space_info''
     (createConfigError (''Missing space ID. Provide a space ID in the request or set '' @
        CAPACITIES_SPACE_ID_ENV @ ''.''))
     (fst (get_space_info (exampleHost [] [noteStructure]) configWithoutSpace None)) \<and>
   reportsUnsupported ''search_entities''
     (fst (search_entities (exampleHost [] []) exampleConfig emptySearch)) \<and>
   reportsSuccess ''search_entities''
     (fst (search_entities (exampleHost [pageResult, noteResult] [noteStructure]) exampleConfig
        (emptySearch\<lparr>se_text := Some ''note''\<rparr>))) \<and>
   reportsUnsupported ''get_entity_by_id'' (fst (get_entity_by_id exampleConfig exampleEntity)) \<and>
   reportsUnsupported ''list_tasks'' (fst (list_tasks exampleNow emptyListTasks)) \<and>
   reportsUnsupported ''create_task'' (fst (create_task exampleNow exampleConfig exampleCreate)) \<and>
   reportsError ''update_task'' (createValidationError atLeastOneMessage)
     (fst (update_task exampleNow exampleConfig exampleUpdate)) \<and>
   reportsUnsupported ''complete_task'' (fst (complete_task exampleConfig exampleComplete))"
proof -
  let ?h = "exampleHost [] [noteStructure]"
  let ?d = "spacesDownHost [noteStructure]"
  let ?s = "exampleHost [pageResult, noteResult] [noteStructure]"
  let ?e = "exampleHost [] []"
  let ?q = "emptySearch\<lparr>se_text := Some ''note''\<rparr>"
  have r: "resolveSpaceId None exampleConfig = Inr exampleSpaceId" by code_simp
  have r0: "resolveSpaceId None configWithoutSpace =
              Inl (createConfigError (''Missing space ID. Provide a space ID in the request or set '' @
                     CAPACITIES_SPACE_ID_ENV @ ''.''))" by code_simp
  have h1: "fst (getSpaces ?h exampleConfig) = Inr exampleSpaces" by code_simp
  have h2: "fst (getSpaceInfo ?h exampleConfig (Some exampleSpaceId)) = Inr [noteStructure]"
    by code_simp
  have hp: "spaceInfoPayload exampleSpaceId exampleSpaces [noteStructure] =
     JObj [(''tool'', JStr ''get_space_info''),
           (''spaceId'', JStr exampleSpaceId),
           (''spaceTitle'', JStr ''Home''),
           (''spacesCount'', JNum 2),
           (''structures'', JArr [structureJson noteStructure])]" by code_simp
  have d1: "fst (getSpaces ?d exampleConfig) =
              Inl (createHttpError
                \<lparr>resp_status = 503, retry_after = None, ratelimit_reset = None, resp_text = []\<rparr>)"
    by code_simp
  have d2: "fst (getSpaceInfo ?d exampleConfig (Some exampleSpaceId)) = Inr [noteStructure]"
    by code_simp
  have e1: "normalizeSearchEntitiesFilters emptySearch (now ?e) =
              Inr \<lparr>sf_spaceId = None, sf_text = None, sf_type = None, sf_date = None,
                   sf_dateFrom = None, sf_dateTo = None, sf_limit = 20\<rparr>" by code_simp
  have s1: "normalizeSearchEntitiesFilters ?q (now ?s) =
              Inr \<lparr>sf_spaceId = None, sf_text = Some ''note'', sf_type = None, sf_date = None,
                   sf_dateFrom = None, sf_dateTo = None, sf_limit = 20\<rparr>" by code_simp
  have s2: "fst (lookup ?s exampleConfig ''note'' (Some exampleSpaceId)) =
              Inr [pageResult, noteResult]" by code_simp
  have l1: "normalizeListTasksFilters emptyListTasks exampleNow =
              Inr \<lparr>lf_spaceId = None, lf_status = StatusAll, lf_date = None, lf_dateFrom = None,
                   lf_dateTo = None\<rparr>" by code_simp
  have c1: "normalizeCreateTaskInput exampleCreate exampleConfig exampleNow =
              Inr \<lparr>cp_spaceId = exampleSpaceId, cp_title = ''x'', cp_description = None,
                   cp_dueDate = None\<rparr>" by code_simp
  have u1: "normalizeUpdateTaskInput exampleUpdate exampleConfig exampleNow =
              Inl (createValidationError atLeastOneMessage)" by code_simp
  have m1: "normalizeCompleteTaskInput exampleComplete exampleConfig =
              Inr \<lparr>cq_taskId = ''t1'', cq_spaceId = exampleSpaceId, cq_completed = True\<rparr>"
    by code_simp
  note A = every_tool_returns_one_shape[where host = ?h and config = exampleConfig
      and spaceId = None and searchInput = ?q and entityInput = exampleEntity
      and clock = exampleNow and listInput = emptyListTasks and createInput = exampleCreate
      and updateInput = exampleUpdate and completeInput = exampleComplete]
  note B = every_tool_returns_one_shape[where host = ?d and config = exampleConfig
      and spaceId = None]
  note C = every_tool_returns_one_shape[where host = ?h and config = configWithoutSpace
      and spaceId = None]
  note D = every_tool_returns_one_shape[where host = ?e and config = exampleConfig
      and searchInput = emptySearch]
  note E = every_tool_returns_one_shape[where host = ?s and config = exampleConfig
      and searchInput = ?q]
  have a: "reportsSuccess ''get_space_info'' (fst (get_space_info ?h exampleConfig None)) \<and>
           structuredContent (fst (get_space_info ?h exampleConfig None)) =
             spaceInfoPayload exampleSpaceId exampleSpaces [noteStructure]"
    using A[THEN conjunct1] by (simp add: r h1 h2)
  have b: "reportsError ''get_space_info''
     (createHttpError
        \<lparr>resp_status = 503, retry_after = None, ratelimit_reset = None, resp_text = []\<rparr>)
     (fst (get_space_info ?d exampleConfig None))"
    using B[THEN conjunct1] by (simp add: r d1 d2)
  have c: "reportsError ''get_space_info''
     (createConfigError (''Missing space ID. Provide a space ID in the request or set '' @
        CAPACITIES_SPACE_ID_ENV @ ''.''))
     (fst (get_space_info ?h configWithoutSpace None))"
    using C[THEN conjunct1] by (simp add: r0)
  have d: "reportsUnsupported ''search_entities'' (fst (search_entities ?e exampleConfig emptySearch))"
    using D[THEN conjunct2, THEN conjunct1] by (simp add: e1 r)
  have e: "reportsSuccess ''search_entities'' (fst (search_entities ?s exampleConfig ?q))"
    using E[THEN conjunct2, THEN conjunct1] by (simp add: s1 r s2)
  have f: "reportsUnsupported ''get_entity_by_id'' (fst (get_entity_by_id exampleConfig exampleEntity))"
    using A by blast
  have g: "reportsUnsupported ''list_tasks'' (fst (list_tasks exampleNow emptyListTasks))"
    using A[THEN conjunct2, THEN conjunct2, THEN conjunct2, THEN conjunct1] by (simp add: l1)
  have h: "reportsUnsupported ''create_task'' (fst (create_task exampleNow exampleConfig exampleCreate))"
    using A[THEN conjunct2, THEN conjunct2, THEN conjunct2, THEN conjunct2, THEN conjunct1]
    by (simp add: c1)
  have i: "reportsError ''update_task'' (createValidationError atLeastOneMessage)
     (fst (update_task exampleNow exampleConfig exampleUpdate))"
    using A[THEN conjunct2, THEN conjunct2, THEN conjunct2, THEN conjunct2, THEN conjunct2,
        THEN conjunct1]
    by (simp add: u1)
  have j: "reportsUnsupported ''complete_task'' (fst (complete_task exampleConfig exampleComplete))"
    using A[THEN conjunct2, THEN conjunct2, THEN conjunct2, THEN conjunct2, THEN conjunct2,
        THEN conjunct2]
    by (simp add: m1)
  from a b c d e f g h i j show ?thesis unfolding hp by blast
qed

section \<open>Dates\<close>

subsection \<open>The calendar\<close>

lemma div_succ:
  fixes a n :: int
  assumes "0 < n"
  shows "(a + 1) div n = a div n + (if (a + 1) mod n = 0 then 1 else 0)"
proof -
  define q where "q = a div n"
  define r where "r = a mod n"
  have a: "a = n * q + r" by (simp add: q_def r_def)
  have r: "0 \<le> r" "r < n" using assms by (simp_all add: r_def)
  show ?thesis
  proof (cases "r + 1 = n")
    case True
    have "a + 1 = n * (q + 1) + 0"
      using True a by (simp add: algebra_simps)
    then have "(a + 1) div n = q + 1" "(a + 1) mod n = 0"
      using assms int_div_pos_eq[of "a + 1" n "q + 1" 0] int_mod_pos_eq[of "a + 1" n "q + 1" 0]
      by simp_all
    then show ?thesis by (simp add: q_def)
  next
    case False
    with r have lt: "r + 1 < n" by simp
    have "a + 1 = n * q + (r + 1)"
      using a by simp
    then have "(a + 1) div n = q" "(a + 1) mod n = r + 1"
      using r lt int_div_pos_eq[of "a + 1" n q "r + 1"]
        int_mod_pos_eq[of "a + 1" n q "r + 1"]
      by simp_all
    with r show ?thesis by (simp add: q_def)
  qed
qed

lemma mod_shift:
  fixes y n k :: int
  shows "(y - n * k) mod n = y mod n"
  by (metis mod_diff_right_eq mod_mult_self1_is_0 diff_zero mod_mod_trivial)

lemma m100: "((y::int) - 1900) mod 100 = y mod 100"
  using mod_shift[of y 100 19] by simp
lemma m4: "((y::int) - 1968) mod 4 = y mod 4"
  using mod_shift[of y 4 492] by simp
lemma m400: "((y::int) - 1600) mod 400 = y mod 400"
  using mod_shift[of y 400 4] by simp

lemma DayFromYear_Suc:
  "DayFromYear (y + 1) = DayFromYear y + (if isLeapYear y then 366 else 365)"
proof -
  define A where "A = (y - 1969) div 4"
  define B where "B = (y - 1901) div 100"
  define C where "C = (y - 1601) div 400"
  define p4 where "p4 = (y mod 4 = 0)"
  define p100 where "p100 = (y mod 100 = 0)"
  define p400 where "p400 = (y mod 400 = 0)"
  have a: "(y - 1968) div 4 = A + (if p4 then 1 else 0)"
    using div_succ[of 4 "y - 1969"] m4[of y] by (simp add: A_def p4_def)
  have b: "(y - 1900) div 100 = B + (if p100 then 1 else 0)"
    using div_succ[of 100 "y - 1901"] m100[of y] by (simp add: B_def p100_def)
  have c: "(y - 1600) div 400 = C + (if p400 then 1 else 0)"
    using div_succ[of 400 "y - 1601"] m400[of y] by (simp add: C_def p400_def)
  have "(100::int) dvd 400" "(4::int) dvd 100" by simp_all
  then have d: "p400 \<Longrightarrow> p100" "p100 \<Longrightarrow> p4"
    using dvd_trans[of 100 400 y] dvd_trans[of 4 100 y]
    by (simp_all add: mod_eq_0_iff_dvd p4_def p100_def p400_def)
  have L: "DayFromYear (y + 1) = 365 * (y - 1969) + (y - 1968) div 4 - (y - 1900) div 100 + (y - 1600) div 400"
    by (simp add: DayFromYear_def)
  have R: "DayFromYear y = 365 * (y - 1970) + A - B + C"
    by (simp add: DayFromYear_def A_def B_def C_def)
  have leap: "isLeapYear y = (p4 \<and> (\<not> p100 \<or> p400))"
    by (simp add: isLeapYear_def p4_def p100_def p400_def)
  show ?thesis
    unfolding L R leap a b c using d by auto
qed

lemma DayFromYear_less: "DayFromYear y < DayFromYear (y + 1)"
  by (simp add: DayFromYear_Suc)

lemma DayFromYear_mono_nat: "DayFromYear y \<le> DayFromYear (y + int k)"
proof (induction k)
  case 0
  show ?case by simp
next
  case (Suc k)
  have "y + int (Suc k) = (y + int k) + 1" by simp
  then have "DayFromYear (y + int (Suc k)) = DayFromYear ((y + int k) + 1)" by (rule arg_cong)
  with DayFromYear_less[of "y + int k"] Suc show ?case by simp
qed

lemma DayFromYear_mono: "y \<le> z \<Longrightarrow> DayFromYear y \<le> DayFromYear z"
  using DayFromYear_mono_nat[of y "nat (z - y)"] by simp

lemma DayFromYear_next: "y < z \<Longrightarrow> DayFromYear (y + 1) \<le> DayFromYear z"
  by (rule DayFromYear_mono) simp

lemma daysInMonth_bounds: "28 \<le> daysInMonth y m" "daysInMonth y m \<le> 31"
  by (simp_all add: daysInMonth_def)

lemma daysBeforeMonth_0 [simp]: "daysBeforeMonth y 0 = 0"
  by (simp add: daysBeforeMonth_def)

lemma daysBeforeMonth_Suc: "daysBeforeMonth y (Suc m) = daysBeforeMonth y m + daysInMonth y m"
  by (simp add: daysBeforeMonth_def)

lemma daysBeforeMonth_12: "daysBeforeMonth y 12 = (if isLeapYear y then 366 else 365)"
  by (simp add: daysBeforeMonth_def daysInMonth_def upt_conv_Cons)

lemma daysBeforeMonth_mono_nat: "daysBeforeMonth y m \<le> daysBeforeMonth y (m + k)"
proof (induction k)
  case 0
  show ?case by simp
next
  case (Suc k)
  have "0 \<le> daysInMonth y (m + k)" using daysInMonth_bounds(1)[of y "m + k"] by simp
  with Suc show ?case by (simp add: daysBeforeMonth_Suc)
qed

lemma daysBeforeMonth_mono: "m \<le> n \<Longrightarrow> daysBeforeMonth y m \<le> daysBeforeMonth y n"
  using daysBeforeMonth_mono_nat[of y m "n - m"] by simp

lemma daysBeforeMonth_nonneg: "0 \<le> daysBeforeMonth y m"
  using daysBeforeMonth_mono[of 0 m y] by simp

lemma daysBeforeMonth_next: "m < n \<Longrightarrow> daysBeforeMonth y m + daysInMonth y m \<le> daysBeforeMonth y n"
  using daysBeforeMonth_mono[of "Suc m" n y] by (simp add: daysBeforeMonth_Suc)

text \<open>A valid date lies in its year, and two valid dates of one day number are equal.\<close>

lemma dayNumber_in_year:
  assumes "validDate c"
  shows "DayFromYear (civilYear c) \<le> dayNumber c" and "dayNumber c < DayFromYear (civilYear c + 1)"
proof -
  from assms have m: "civilMonth c < 12" and d: "1 \<le> civilDay c"
    "civilDay c \<le> daysInMonth (civilYear c) (civilMonth c)"
    by (simp_all add: validDate_def)
  show "DayFromYear (civilYear c) \<le> dayNumber c"
    using d daysBeforeMonth_nonneg[of "civilYear c" "civilMonth c"] by (simp add: dayNumber_def)
  have "daysBeforeMonth (civilYear c) (civilMonth c) + daysInMonth (civilYear c) (civilMonth c)
          \<le> daysBeforeMonth (civilYear c) 12"
    by (rule daysBeforeMonth_next[OF m])
  also have "\<dots> = DayFromYear (civilYear c + 1) - DayFromYear (civilYear c)"
    by (simp add: daysBeforeMonth_12 DayFromYear_Suc)
  finally show "dayNumber c < DayFromYear (civilYear c + 1)"
    using d by (simp add: dayNumber_def)
qed

lemma dayNumber_year_unique:
  assumes "validDate a" and "validDate b" and "dayNumber a = dayNumber b"
  shows "civilYear a = civilYear b"
proof (rule ccontr)
  assume "civilYear a \<noteq> civilYear b"
  then consider "civilYear a < civilYear b" | "civilYear b < civilYear a" by linarith
  then show False
  proof cases
    case 1
    from DayFromYear_next[OF 1] dayNumber_in_year(2)[OF assms(1)] dayNumber_in_year(1)[OF assms(2)]
      assms(3)
    show False by simp
  next
    case 2
    from DayFromYear_next[OF 2] dayNumber_in_year(2)[OF assms(2)] dayNumber_in_year(1)[OF assms(1)]
      assms(3)
    show False by simp
  qed
qed

lemma dayNumber_month_unique:
  assumes "validDate a" and "validDate b" and "dayNumber a = dayNumber b"
  shows "civilMonth a = civilMonth b"
proof (rule ccontr)
  have y: "civilYear a = civilYear b" by (rule dayNumber_year_unique[OF assms])
  assume "civilMonth a \<noteq> civilMonth b"
  then consider "civilMonth a < civilMonth b" | "civilMonth b < civilMonth a" by linarith
  then show False
  proof cases
    case 1
    from daysBeforeMonth_next[OF 1, of "civilYear b"] assms y show False
      by (simp add: dayNumber_def validDate_def)
  next
    case 2
    from daysBeforeMonth_next[OF 2, of "civilYear b"] assms y show False
      by (simp add: dayNumber_def validDate_def)
  qed
qed

lemma dayNumber_inject:
  assumes "validDate a" and "validDate b" and "dayNumber a = dayNumber b"
  shows "a = b"
proof -
  have y: "civilYear a = civilYear b" by (rule dayNumber_year_unique[OF assms])
  have m: "civilMonth a = civilMonth b" by (rule dayNumber_month_unique[OF assms])
  from assms(3) y m have "civilDay a = civilDay b" by (simp add: dayNumber_def)
  with y m show ?thesis by simp
qed

lemma carryDay_valid: "m < 12 \<Longrightarrow> validDate (carryDay y m d)"
proof (induction y m d rule: carryDay.induct)
  case (1 y m d)
  show ?case
  proof (cases "d < 1")
    case True
    have "prevMonthIndex m < 12" using "1.prems" by (cases m) (simp_all add: prevMonthIndex_def)
    with 1(1)[OF True] True show ?thesis by (subst carryDay.simps) simp
  next
    case False
    show ?thesis
    proof (cases "daysInMonth y m < d")
      case True
      have "nextMonthIndex m < 12" by (simp add: nextMonthIndex_def)
      with 1(2)[OF False True] False True show ?thesis by (subst carryDay.simps) simp
    next
      case F2: False
      with False "1.prems" show ?thesis by (subst carryDay.simps) (simp add: validDate_def)
    qed
  qed
qed

lemma month_step_back:
  assumes "m < 12"
  shows "DayFromYear (prevMonthYear y m) + daysBeforeMonth (prevMonthYear y m) (prevMonthIndex m) +
         daysInMonth (prevMonthYear y m) (prevMonthIndex m) = DayFromYear y + daysBeforeMonth y m"
proof (cases m)
  case 0
  have "DayFromYear y = DayFromYear (y - 1) + (if isLeapYear (y - 1) then 366 else 365)"
    using DayFromYear_Suc[of "y - 1"] by simp
  moreover have "daysBeforeMonth (y - 1) 12 = daysBeforeMonth (y - 1) 11 + daysInMonth (y - 1) 11"
    using daysBeforeMonth_Suc[of "y - 1" 11] by simp
  ultimately show ?thesis
    using 0 daysBeforeMonth_12[of "y - 1"]
    by (simp add: prevMonthYear_def prevMonthIndex_def)
next
  case (Suc j)
  then show ?thesis
    by (simp add: prevMonthYear_def prevMonthIndex_def daysBeforeMonth_Suc)
qed

lemma month_step_forward:
  assumes "m < 12"
  shows "DayFromYear (nextMonthYear y m) + daysBeforeMonth (nextMonthYear y m) (nextMonthIndex m) =
         DayFromYear y + daysBeforeMonth y m + daysInMonth y m"
proof (cases "m = 11")
  case True
  have "daysBeforeMonth y 12 = daysBeforeMonth y 11 + daysInMonth y 11"
    using daysBeforeMonth_Suc[of y 11] by simp
  then show ?thesis
    using True DayFromYear_Suc[of y] daysBeforeMonth_12[of y]
    by (simp add: nextMonthYear_def nextMonthIndex_def)
next
  case False
  with assms show ?thesis
    by (simp add: nextMonthYear_def nextMonthIndex_def daysBeforeMonth_Suc)
qed

lemma carryDay_dayNumber:
  "m < 12 \<Longrightarrow> dayNumber (carryDay y m d) = DayFromYear y + daysBeforeMonth y m + d - 1"
proof (induction y m d rule: carryDay.induct)
  case (1 y m d)
  show ?case
  proof (cases "d < 1")
    case True
    have p: "prevMonthIndex m < 12" using "1.prems" by (cases m) (simp_all add: prevMonthIndex_def)
    from "1.IH"(1)[OF True p] month_step_back[OF "1.prems", of y] True
    show ?thesis by (subst carryDay.simps) simp
  next
    case False
    show ?thesis
    proof (cases "daysInMonth y m < d")
      case True
      have n: "nextMonthIndex m < 12" by (simp add: nextMonthIndex_def)
      from "1.IH"(2)[OF False True n] month_step_forward[OF "1.prems", of y] False True
      show ?thesis by (subst carryDay.simps) simp
    next
      case F2: False
      with False show ?thesis by (subst carryDay.simps) (simp add: dayNumber_def)
    qed
  qed
qed

text \<open>
  \<open>civilFromDay\<close> is the inverse of the day number on the valid dates, so \<open>YearFromTime\<close>,
  \<open>MonthFromTime\<close> and \<open>DateFromTime\<close> are the functions of the standard: the year is the one
  whose days contain the day, the month the one whose days of the year contain it, and
  the date counts from the first day of the month.
\<close>

lemma civilFromDay_valid: "validDate (civilFromDay n)"
  by (simp add: civilFromDay_def Let_def carryDay_valid)

lemma civilFromDay_dayNumber: "dayNumber (civilFromDay n) = n"
  by (simp add: civilFromDay_def Let_def carryDay_dayNumber)

lemma civilFromDay_unique: "validDate c \<Longrightarrow> civilFromDay (dayNumber c) = c"
  by (rule dayNumber_inject[OF civilFromDay_valid _ civilFromDay_dayNumber])

lemma YearFromTime_bounds:
  "DayFromYear (YearFromTime t) \<le> Day t" "Day t < DayFromYear (YearFromTime t + 1)"
  using dayNumber_in_year[OF civilFromDay_valid[of "Day t"]]
  by (simp_all add: YearFromTime_def civilFromDay_dayNumber)

lemma MonthFromTime_bounds:
  "MonthFromTime t < 12"
  "daysBeforeMonth (YearFromTime t) (MonthFromTime t) \<le> Day t - DayFromYear (YearFromTime t)"
  "Day t - DayFromYear (YearFromTime t) < daysBeforeMonth (YearFromTime t) (MonthFromTime t + 1)"
  using civilFromDay_valid[of "Day t"] civilFromDay_dayNumber[of "Day t"]
  by (simp_all add: YearFromTime_def MonthFromTime_def validDate_def dayNumber_def
      daysBeforeMonth_Suc)

lemma DateFromTime_eq:
  "DateFromTime t =
     Day t - DayFromYear (YearFromTime t) - daysBeforeMonth (YearFromTime t) (MonthFromTime t) + 1"
  using civilFromDay_dayNumber[of "Day t"]
  by (simp add: YearFromTime_def MonthFromTime_def DateFromTime_def dayNumber_def)

lemma MakeDay_month: "m < 12 \<Longrightarrow> MakeDay y (int m) d = DayFromYear y + daysBeforeMonth y m + d - 1"
  by (simp add: MakeDay_def)

lemma MakeDay_fields:
  "MakeDay (YearFromTime t) (int (MonthFromTime t)) d = Day t + d - DateFromTime t"
  using MonthFromTime_bounds(1)[of t] by (simp add: MakeDay_month DateFromTime_eq)

lemma MakeDay_first:
  "civilFromDay (MakeDay y m 1) =
     \<lparr>civilYear = y + m div 12, civilMonth = nat (m mod 12), civilDay = 1\<rparr>"
proof -
  let ?c = "\<lparr>civilYear = y + m div 12, civilMonth = nat (m mod 12), civilDay = 1\<rparr>"
  have "nat (m mod 12) < 12" by simp
  then have v: "validDate ?c"
    using daysInMonth_bounds(1)[of "y + m div 12" "nat (m mod 12)"] by (simp add: validDate_def)
  have "MakeDay y m 1 = dayNumber ?c" by (simp add: MakeDay_def dayNumber_def)
  with civilFromDay_unique[OF v] show ?thesis by simp
qed

lemma msPerDay_pos: "0 < msPerDay"
  by (simp add: msPerDay_def)

lemma Day_MakeDate: "0 \<le> time \<Longrightarrow> time < msPerDay \<Longrightarrow> Day (MakeDate day time) = day"
  using msPerDay_pos by (simp add: Day_def MakeDate_def)

lemma Day_midnight [simp]: "Day (MakeDate day 0) = day"
  using msPerDay_pos by (simp add: Day_def MakeDate_def)

lemma TimeWithinDay_bounds: "0 \<le> TimeWithinDay t" "TimeWithinDay t < msPerDay"
  using msPerDay_pos by (simp_all add: TimeWithinDay_def)

lemma MakeDate_Day: "MakeDate (Day t) (TimeWithinDay t) = t"
  by (simp add: MakeDate_def Day_def TimeWithinDay_def)

lemma MakeDate_previous: "MakeDate (Day t - 1) (TimeWithinDay t) = t - msPerDay"
  using MakeDate_Day[of t] by (simp add: MakeDate_def algebra_simps)

lemma Day_previous: "Day (t - msPerDay) = Day t - 1"
proof -
  have "Day (MakeDate (Day t - 1) (TimeWithinDay t)) = Day t - 1"
    by (rule Day_MakeDate[OF TimeWithinDay_bounds])
  then show ?thesis by (simp add: MakeDate_previous)
qed

text \<open>
  \<open>setDate\<close> with the day of the month less one: the local time moves back by one day and
  is read back through the zone.
\<close>

lemma setDate_yesterday:
  assumes "timeValue clock = Some t"
  shows "setDate clock (map_option (\<lambda>d. d - 1) (getDate clock)) =
           clock\<lparr>timeValue := TimeClip (UTC clock (LocalTime clock t - msPerDay))\<rparr>"
proof -
  have "MakeDay (YearFromTime (LocalTime clock t)) (int (MonthFromTime (LocalTime clock t)))
          (DateFromTime (LocalTime clock t) - 1) = Day (LocalTime clock t) - 1"
    by (simp add: MakeDay_fields)
  then show ?thesis
    using assms by (simp add: setDate_def getDate_def Let_def MakeDate_previous)
qed

lemma localCivil_Some:
  "timeValue date = Some t \<Longrightarrow> localCivil date = Some (civilFromDay (Day (LocalTime date t)))"
  by (simp add: localCivil_def getFullYear_def getMonth_def getDate_def YearFromTime_def
      MonthFromTime_def DateFromTime_def)

lemma LocalTime_update [simp]: "LocalTime (date\<lparr>timeValue := v\<rparr>) = LocalTime date"
  by (rule ext) (simp add: LocalTime_def)

lemma yesterday_civil:
  assumes "timeValue clock = Some t"
    and "keepsLocalDay clock (LocalTime clock t - msPerDay)"
  shows "localCivil (setDate clock (map_option (\<lambda>d. d - 1) (getDate clock))) =
           Some (civilFromDay (Day (LocalTime clock t) - 1))"
proof -
  from assms(2) obtain u where u: "TimeClip (UTC clock (LocalTime clock t - msPerDay)) = Some u"
    and d: "Day (LocalTime clock (UTC clock (LocalTime clock t - msPerDay))) =
            Day (LocalTime clock t - msPerDay)"
    by (auto simp: keepsLocalDay_def)
  from u have uu: "u = UTC clock (LocalTime clock t - msPerDay)"
    by (simp add: TimeClip_def split: if_splits)
  have "localCivil (clock\<lparr>timeValue := Some u\<rparr>) =
          Some (civilFromDay (Day (LocalTime clock u)))"
    using localCivil_Some[of "clock\<lparr>timeValue := Some u\<rparr>" u] by simp
  then show ?thesis
    unfolding setDate_yesterday[OF assms(1)] u using d by (simp add: uu Day_previous)
qed

subsection \<open>Digits\<close>

lemma digitChar_code: "of_char (digitChar n) = (48 + n mod 10 :: nat)"
proof -
  have "n mod 10 < 10" by simp
  then have "n mod 10 = 0 \<or> n mod 10 = 1 \<or> n mod 10 = 2 \<or> n mod 10 = 3 \<or> n mod 10 = 4 \<or>
             n mod 10 = 5 \<or> n mod 10 = 6 \<or> n mod 10 = 7 \<or> n mod 10 = 8 \<or> n mod 10 = 9"
    by arith
  then show ?thesis
    by (elim disjE) (simp_all add: digitChar_def)
qed

lemma isDigit_digitChar [simp]: "isDigit (digitChar n)"
  by (simp add: isDigit_def digitChar_code)

lemma digitChar_not_space [simp]: "\<not> isWhiteSpace (digitChar n)"
  by (simp add: isWhiteSpace_def digitChar_code)

lemma digitChar_0: "digitChar 0 = CHR ''0''"
  by (simp add: digitChar_def)

lemma natToString_1: "n < 10 \<Longrightarrow> natToString n = [digitChar n]"
  by (simp add: natToString.simps[of n])

lemma natToString_2: "10 \<le> n \<Longrightarrow> n < 100 \<Longrightarrow> natToString n = [digitChar (n div 10), digitChar n]"
  by (simp add: natToString.simps[of n] natToString_1)

lemma natToString_3:
  "100 \<le> n \<Longrightarrow> n < 1000 \<Longrightarrow>
   natToString n = [digitChar (n div 100), digitChar (n div 10), digitChar n]"
  using natToString_2[of "n div 10"]
  by (simp add: natToString.simps[of n] div_mult2_eq[of n 10 10, simplified, symmetric])

lemma natToString_4:
  "1000 \<le> n \<Longrightarrow> n < 10000 \<Longrightarrow>
   natToString n = [digitChar (n div 1000), digitChar (n div 100), digitChar (n div 10), digitChar n]"
  using natToString_3[of "n div 10"]
  by (simp add: natToString.simps[of n] div_mult2_eq[of n 10 10, simplified, symmetric]
      div_mult2_eq[of n 10 100, simplified, symmetric])

lemma pad2: "n < 100 \<Longrightarrow> padStart 2 (CHR ''0'') (natToString n) = [digitChar (n div 10), digitChar n]"
  by (cases "n < 10") (simp_all add: padStart_def natToString_1 natToString_2 digitChar_0)

lemma digitsToNat_2: "n < 100 \<Longrightarrow> digitsToNat [digitChar (n div 10), digitChar n] = n"
proof -
  assume "n < 100"
  then have "n div 10 mod 10 = n div 10" by simp
  moreover have "n = 10 * (n div 10) + n mod 10" by simp
  ultimately show ?thesis
    by (simp add: digitsToNat_def digitChar_code)
qed

lemma digitsToNat_4:
  assumes "n < 10000"
  shows "digitsToNat [digitChar (n div 1000), digitChar (n div 100), digitChar (n div 10), digitChar n] = n"
proof -
  define a where "a = n div 10"
  define b where "b = a div 10"
  define c where "c = b div 10"
  define r0 where "r0 = n mod 10"
  define r1 where "r1 = a mod 10"
  define r2 where "r2 = b mod 10"
  have n: "n = 10 * a + r0" by (simp add: a_def r0_def)
  have a: "a = 10 * b + r1" by (simp add: b_def r1_def)
  have b: "b = 10 * c + r2" by (simp add: c_def r2_def)
  have d100: "n div 100 = b" by (simp add: b_def a_def div_mult2_eq[of n 10 10, simplified, symmetric])
  have d1000: "n div 1000 = c"
    by (simp add: c_def b_def a_def div_mult2_eq[of n 10 10, simplified, symmetric]
        div_mult2_eq[of n 100 10, simplified, symmetric])
  have c: "c mod 10 = c" using assms d1000 by simp
  have "digitsToNat [digitChar (n div 1000), digitChar (n div 100), digitChar (n div 10), digitChar n] =
        10 * (10 * (10 * (c mod 10) + b mod 10) + a mod 10) + n mod 10"
    by (simp add: digitsToNat_def digitChar_code d100 d1000 a_def[symmetric])
  also have "\<dots> = 10 * (10 * (10 * c + r2) + r1) + r0"
    by (simp only: c r0_def r1_def r2_def)
  also have "\<dots> = n"
    using n a b by simp
  finally show ?thesis .
qed

subsection \<open>normalizeDateInput\<close>

lemma pattern_shape:
  assumes "ABSOLUTE_DATE_PATTERN_exec t = Some (g1, g2, g3)"
  shows "trim t = t" and "toLowerCase t \<noteq> ''yesterday''"
proof -
  from assms obtain y1 y2 y3 y4 m1 m2 d1 d2 where
    t: "t = [y1, y2, y3, y4, CHR ''-'', m1, m2, CHR ''-'', d1, d2]" and dig: "isDigit y1" "isDigit d2"
    by (auto simp: ABSOLUTE_DATE_PATTERN_exec_def split: list.splits if_splits)
  have ns: "\<not> isWhiteSpace y1" "\<not> isWhiteSpace d2"
    using dig by (auto simp: isDigit_def isWhiteSpace_def Let_def)
  show "trim t = t" by (simp add: t trim_def ns)
  have "length (toLowerCase t) = 10" by (simp add: t toLowerCase_def)
  then show "toLowerCase t \<noteq> ''yesterday''" by auto
qed

lemma digitsToNat_1_bound: "isDigit a \<Longrightarrow> of_char a - 48 \<le> (9::nat)"
  unfolding isDigit_def Let_def by arith

lemma pattern_bounds:
  assumes "ABSOLUTE_DATE_PATTERN_exec t = Some (g1, g2, g3)"
  shows "digitsToNat g1 \<le> 9999" and "digitsToNat g2 \<le> 99" and "digitsToNat g3 \<le> 99"
proof -
  from assms obtain y1 y2 y3 y4 m1 m2 d1 d2 where
    g: "g1 = [y1, y2, y3, y4]" "g2 = [m1, m2]" "g3 = [d1, d2]"
    and dig: "isDigit y1" "isDigit y2" "isDigit y3" "isDigit y4" "isDigit m1" "isDigit m2"
      "isDigit d1" "isDigit d2"
    by (auto simp: ABSOLUTE_DATE_PATTERN_exec_def split: list.splits if_splits)
  note b = dig[THEN digitsToNat_1_bound]
  show "digitsToNat g1 \<le> 9999" using b(1-4) by (simp add: g digitsToNat_def)
  show "digitsToNat g2 \<le> 99" using b(5,6) by (simp add: g digitsToNat_def)
  show "digitsToNat g3 \<le> 99" using b(7,8) by (simp add: g digitsToNat_def)
qed

text \<open>The time values that \<open>Date.UTC\<close> makes of the numbers of a date string are in range.\<close>

lemma DayFromYear_range:
  assumes "0 \<le> y" and "y \<le> 10010"
  shows "- 800000 \<le> DayFromYear y" and "DayFromYear y \<le> 3000000"
proof -
  have "DayFromYear 0 \<le> DayFromYear y" by (rule DayFromYear_mono[OF assms(1)])
  moreover have "DayFromYear 0 = - 719528" by (simp add: DayFromYear_def)
  ultimately show "- 800000 \<le> DayFromYear y" by simp
  have "DayFromYear y \<le> DayFromYear 10010" by (rule DayFromYear_mono[OF assms(2)])
  moreover have "DayFromYear 10010 = 2936550" by (simp add: DayFromYear_def)
  ultimately show "DayFromYear y \<le> 3000000" by simp
qed

lemma daysBeforeMonth_range: "m \<le> 12 \<Longrightarrow> daysBeforeMonth y m \<le> 366"
  using daysBeforeMonth_mono[of m 12 y] by (simp add: daysBeforeMonth_12 split: if_splits)

lemma MakeDay_range:
  assumes "1 \<le> y" and "y \<le> 10000" and "- 1 \<le> m" and "m \<le> 98" and "0 \<le> d" and "d \<le> 99"
  shows "- 1000000 \<le> MakeDay y m d" and "MakeDay y m d \<le> 4000000"
proof -
  have lo: "- 1 \<le> m div 12"
    using assms(3) zdiv_mono1[of "- 1" m 12] by simp
  have hi: "m div 12 \<le> 8"
    using assms(4) zdiv_mono1[of m 98 12] by simp
  have y: "0 \<le> y + m div 12" "y + m div 12 \<le> 10010" using assms(1,2) lo hi by simp_all
  have n: "nat (m mod 12) \<le> 12" by simp
  from DayFromYear_range[OF y] daysBeforeMonth_range[OF n, of "y + m div 12"]
    daysBeforeMonth_nonneg[of "y + m div 12" "nat (m mod 12)"] assms(5,6)
  show "- 1000000 \<le> MakeDay y m d" and "MakeDay y m d \<le> 4000000"
    by (simp_all add: MakeDay_def)
qed

lemma TimeClip_days:
  assumes "- 1000000 \<le> n" and "n \<le> 4000000"
  shows "TimeClip (MakeDate n 0) = Some (MakeDate n 0)"
proof -
  have "\<bar>n * 86400000\<bar> \<le> 8640000000000000" using assms by simp
  then show ?thesis by (simp add: TimeClip_def MakeDate_def msPerDay_def)
qed

lemma Date_UTC_Some:
  assumes "100 \<le> y" and "y \<le> 9999" and "- 1 \<le> m" and "m \<le> 98" and "0 \<le> d" and "d \<le> 99"
  shows "Date_UTC y m d = Some (MakeDate (MakeDay y m d) 0)"
proof -
  have "1 \<le> y" "y \<le> 10000" using assms(1,2) by simp_all
  from TimeClip_days[OF MakeDay_range[OF this assms(3-6)]] assms(1)
  show ?thesis by (simp add: Date_UTC_def)
qed

lemma Date_UTC_fields:
  assumes "Date_UTC y m d = Some (MakeDate n 0)"
  shows "getUTCFullYear (Date_UTC y m d) = Some (civilYear (civilFromDay n))"
    and "getUTCMonth (Date_UTC y m d) = Some (int (civilMonth (civilFromDay n)))"
    and "getUTCDate (Date_UTC y m d) = Some (civilDay (civilFromDay n))"
  by (simp_all add: assms getUTCFullYear_def getUTCMonth_def getUTCDate_def YearFromTime_def
      MonthFromTime_def DateFromTime_def)

lemma MakeDay_real:
  assumes "realCalendarDate y m d"
  shows "civilFromDay (MakeDay y (m - 1) d) =
           \<lparr>civilYear = y, civilMonth = nat (m - 1), civilDay = d\<rparr>"
proof -
  let ?c = "\<lparr>civilYear = y, civilMonth = nat (m - 1), civilDay = d\<rparr>"
  from assms have m: "1 \<le> m" "m \<le> 12" and d: "1 \<le> d" "d \<le> daysInMonth y (nat (m - 1))"
    by (simp_all add: realCalendarDate_def)
  have md: "(m - 1) div 12 = 0" "(m - 1) mod 12 = m - 1" using m by simp_all
  have v: "validDate ?c" using m d by (simp add: validDate_def)
  have "MakeDay y (m - 1) d = dayNumber ?c" by (simp add: MakeDay_def dayNumber_def md)
  with civilFromDay_unique[OF v] show ?thesis by simp
qed

lemma roundtrip_real:
  assumes "civilYear (civilFromDay n) = y"
    and "int (civilMonth (civilFromDay n)) + 1 = m"
    and "civilDay (civilFromDay n) = d"
  shows "realCalendarDate y m d"
proof -
  have v: "validDate (civilFromDay n)" by (rule civilFromDay_valid)
  have "nat (m - 1) = civilMonth (civilFromDay n)" using assms(2) by simp
  with v assms show ?thesis
    by (auto simp: validDate_def realCalendarDate_def)
qed

lemma normalizeDateInput_absolute:
  assumes "ABSOLUTE_DATE_PATTERN_exec (trim input) = Some (g1, g2, g3)"
    and "100 \<le> digitsToNat g1"
  shows "normalizeDateInput input clock =
          (if realCalendarDate (int (digitsToNat g1)) (int (digitsToNat g2)) (int (digitsToNat g3))
           then Inr (trim input)
           else Inl (createValidationError
                  (''Invalid date '' @ dq @ input @ dq @
                   ''. Use a real calendar date in YYYY-MM-DD format.'')))"
proof -
  define y where "y = int (digitsToNat g1)"
  define m where "m = int (digitsToNat g2)"
  define d where "d = int (digitsToNat g3)"
  define n where "n = MakeDay y (m - 1) d"
  have b: "100 \<le> y" "y \<le> 9999" "- 1 \<le> m - 1" "m - 1 \<le> 98" "0 \<le> d" "d \<le> 99"
    using assms(2) pattern_bounds[OF assms(1)] by (simp_all add: y_def m_def d_def)
  have u: "Date_UTC y (m - 1) d = Some (MakeDate n 0)"
    unfolding n_def by (rule Date_UTC_Some[OF b])
  note f = Date_UTC_fields[OF u]
  have n: "normalizeDateInput input clock =
      (if civilYear (civilFromDay n) \<noteq> y \<or> int (civilMonth (civilFromDay n)) + 1 \<noteq> m \<or>
          civilDay (civilFromDay n) \<noteq> d
       then Inl (createValidationError
                  (''Invalid date '' @ dq @ input @ dq @
                   ''. Use a real calendar date in YYYY-MM-DD format.''))
       else Inr (trim input))"
    using assms(1) pattern_shape(2)[OF assms(1)] f
    by (simp add: normalizeDateInput_def Let_def y_def[symmetric] m_def[symmetric] d_def[symmetric])
  show ?thesis
  proof (cases "realCalendarDate y m d")
    case True
    then have "1 \<le> m" by (simp add: realCalendarDate_def)
    with MakeDay_real[OF True] True show ?thesis
      unfolding n by (simp add: n_def[symmetric] y_def[symmetric] m_def[symmetric] d_def[symmetric])
  next
    case False
    with roundtrip_real[of n y m d] show ?thesis
      unfolding n by (auto simp: y_def[symmetric] m_def[symmetric] d_def[symmetric])
  qed
qed

lemma normalizeDateInput_yesterday:
  assumes "toLowerCase (trim input) = ''yesterday''"
  shows "normalizeDateInput input clock =
           Inr (toIsoLocalDate (setDate clock (map_option (\<lambda>d. d - 1) (getDate clock))))"
  using assms by (simp add: normalizeDateInput_def Let_def)

lemma normalizeDateInput_other:
  assumes "toLowerCase (trim input) \<noteq> ''yesterday''"
    and "ABSOLUTE_DATE_PATTERN_exec (trim input) = None"
  shows "normalizeDateInput input clock =
           Inl (createValidationError
                 (''Invalid date '' @ dq @ input @ dq @
                  ''. Expected YYYY-MM-DD or relative value '' @ dq @ ''yesterday'' @ dq @ ''.''))"
  using assms by (simp add: normalizeDateInput_def Let_def)

lemma localCivil_getters:
  assumes "localCivil date = Some c"
  shows "getFullYear date = Some (civilYear c)" and "getMonth date = Some (int (civilMonth c))"
    and "getDate date = Some (civilDay c)" and "validDate c"
proof -
  from assms obtain t where t: "timeValue date = Some t"
    by (cases "timeValue date") (simp_all add: localCivil_def getFullYear_def)
  from localCivil_Some[OF t] assms have c: "c = civilFromDay (Day (LocalTime date t))" by simp
  show "getFullYear date = Some (civilYear c)" and "getMonth date = Some (int (civilMonth c))"
    and "getDate date = Some (civilDay c)"
    by (simp_all add: t c getFullYear_def getMonth_def getDate_def YearFromTime_def
        MonthFromTime_def DateFromTime_def)
  show "validDate c" unfolding c by (rule civilFromDay_valid)
qed

lemma toIsoLocalDate_pattern:
  assumes "localCivil date = Some c" and "1000 \<le> civilYear c" and "civilYear c \<le> 9999"
  shows "\<exists>g1 g2 g3. ABSOLUTE_DATE_PATTERN_exec (toIsoLocalDate date) = Some (g1, g2, g3) \<and>
           int (digitsToNat g1) = civilYear c \<and>
           digitsToNat g2 = civilMonth c + 1 \<and>
           int (digitsToNat g3) = civilDay c"
proof -
  note g = localCivil_getters[OF assms(1)]
  define y where "y = nat (civilYear c)"
  define k where "k = nat (civilDay c)"
  have y: "1000 \<le> y" "y < 10000" "civilYear c = int y" using assms(2,3) by (simp_all add: y_def)
  have m: "civilMonth c + 1 < 100" using g(4) by (simp add: validDate_def)
  have k: "k < 100" "civilDay c = int k" "1 \<le> civilDay c"
    using g(4) daysInMonth_bounds(2)[of "civilYear c" "civilMonth c"]
    by (auto simp: validDate_def k_def)
  have ys: "intToString (civilYear c) = [digitChar (y div 1000), digitChar (y div 100), digitChar (y div 10), digitChar y]"
    using y by (simp add: intToString_def natToString_4)
  have ks: "padStart 2 (CHR ''0'') (intToString (civilDay c)) = [digitChar (k div 10), digitChar k]"
    using k by (simp add: intToString_def pad2)
  have ms: "padStart 2 (CHR ''0'') (intToString (int (civilMonth c) + 1)) =
              [digitChar ((civilMonth c + 1) div 10), digitChar (civilMonth c + 1)]"
  proof -
    have "nat (int (civilMonth c) + 1) = civilMonth c + 1" by linarith
    then have "intToString (int (civilMonth c) + 1) = natToString (civilMonth c + 1)"
      unfolding intToString_def by (simp del: natToString.simps)
    with m show ?thesis by (simp add: pad2 del: natToString.simps)
  qed
  have iso: "toIsoLocalDate date =
      [digitChar (y div 1000), digitChar (y div 100), digitChar (y div 10), digitChar y, CHR ''-'',
       digitChar ((civilMonth c + 1) div 10), digitChar (civilMonth c + 1), CHR ''-'',
       digitChar (k div 10), digitChar k]"
    by (simp add: toIsoLocalDate_def Let_def g(1-3) numberToString_def ys ks ms
        del: natToString.simps)
  show ?thesis
    unfolding iso
    using y k m
    by (simp add: ABSOLUTE_DATE_PATTERN_exec_def digitsToNat_4 digitsToNat_2)
qed

lemma normalizeDateInput_rendered:
  assumes "localCivil date = Some c" and "1000 \<le> civilYear c" and "civilYear c \<le> 9999"
  shows "normalizeDateInput (toIsoLocalDate date) clock = Inr (toIsoLocalDate date)"
proof -
  from toIsoLocalDate_pattern[OF assms] obtain g1 g2 g3 where
    p: "ABSOLUTE_DATE_PATTERN_exec (toIsoLocalDate date) = Some (g1, g2, g3)"
    and g: "int (digitsToNat g1) = civilYear c" "digitsToNat g2 = civilMonth c + 1"
      "int (digitsToNat g3) = civilDay c"
    by blast
  have t: "trim (toIsoLocalDate date) = toIsoLocalDate date" by (rule pattern_shape(1)[OF p])
  have r: "realCalendarDate (int (digitsToNat g1)) (int (digitsToNat g2)) (int (digitsToNat g3))"
    using localCivil_getters(4)[OF assms(1)] g by (simp add: realCalendarDate_def validDate_def)
  have "100 \<le> digitsToNat g1" using g(1) assms(2) by linarith
  from normalizeDateInput_absolute[of "toIsoLocalDate date" g1 g2 g3 clock, unfolded t, OF p this] r t
  show ?thesis by simp
qed

lemma yesterday_days:
  assumes "timeValue clock = Some t"
    and "keepsLocalDay clock (LocalTime clock t - msPerDay)"
  shows "\<exists>today yday.
           localCivil clock = Some today \<and>
           localCivil (setDate clock (map_option (\<lambda>d. d - 1) (getDate clock))) = Some yday \<and>
           validDate today \<and> validDate yday \<and>
           dayNumber today = Day (t + LocalTZA clock t True) \<and>
           dayNumber yday = dayNumber today - 1"
proof (intro exI conjI)
  show "localCivil clock = Some (civilFromDay (Day (LocalTime clock t)))"
    by (rule localCivil_Some[OF assms(1)])
  show "localCivil (setDate clock (map_option (\<lambda>d. d - 1) (getDate clock))) =
          Some (civilFromDay (Day (LocalTime clock t) - 1))"
    by (rule yesterday_civil[OF assms])
  show "validDate (civilFromDay (Day (LocalTime clock t)))" by (rule civilFromDay_valid)
  show "validDate (civilFromDay (Day (LocalTime clock t) - 1))" by (rule civilFromDay_valid)
  show "dayNumber (civilFromDay (Day (LocalTime clock t))) = Day (t + LocalTZA clock t True)"
    by (simp add: civilFromDay_dayNumber LocalTime_def)
  show "dayNumber (civilFromDay (Day (LocalTime clock t) - 1)) =
          dayNumber (civilFromDay (Day (LocalTime clock t))) - 1"
    by (simp add: civilFromDay_dayNumber)
qed

lemma includesStr_mid: "m = a @ p @ b \<Longrightarrow> includesStr m p"
  by (simp add: includesStr_append)




text \<open>
  A year below 100 is read by \<open>Date.UTC\<close> as a year of the 20th century, so such a date
  never round-trips.
\<close>

lemma two_digit_year_rejected:
  "realCalendarDate 50 1 1 \<and> failsWith (normalizeDateInput ''0050-01-01'' exampleNow) validation_error"
  by code_simp

section \<open>search_entities and list_tasks\<close>

subsection \<open>Date filters\<close>

lemma intToString_nonempty: "intToString i \<noteq> []"
  by (simp add: intToString_def natToString.simps[of "nat i"])

lemma toIsoLocalDate_nonempty: "toIsoLocalDate d \<noteq> []"
  by (simp add: toIsoLocalDate_def Let_def intToString_nonempty)

lemma pattern_length: "ABSOLUTE_DATE_PATTERN_exec s = Some g \<Longrightarrow> length s = 10"
  by (auto simp: ABSOLUTE_DATE_PATTERN_exec_def split: list.splits if_splits)

lemma pattern_nonempty [simp]: "ABSOLUTE_DATE_PATTERN_exec [] = None"
  by (simp add: ABSOLUTE_DATE_PATTERN_exec_def)

lemma normalizeDateInput_nonempty:
  assumes "normalizeDateInput s clock = Inr d"
  shows "d \<noteq> []"
  using assms toIsoLocalDate_nonempty
  by (auto simp: normalizeDateInput_def Let_def split: if_splits option.splits prod.splits)

lemma normalizeIfPresent_truthy:
  assumes "normalizeIfPresent v clock = Inr d"
  shows "truthy d \<longleftrightarrow> d \<noteq> None"
  using assms normalizeDateInput_nonempty
  by (cases d) (auto simp: normalizeIfPresent_def split: if_splits sum.splits)

lemma validateDateInputs_conflict:
  assumes "datesConflict d f t"
    and "truthy d \<longleftrightarrow> d \<noteq> None" "truthy f \<longleftrightarrow> f \<noteq> None" "truthy t \<longleftrightarrow> t \<noteq> None"
  shows "\<exists>e. validateDateInputs d f t = Some e \<and> code e = validation_error"
  using assms
  by (auto simp: validateDateInputs_def datesConflict_def split: option.splits)

text \<open>
  Claim C5. When the three date inputs normalize and the normalized values conflict (a
  single date beside an end of a range, only one end of a range, or a range whose start
  is greater than its end as strings), \<open>search_entities\<close> and \<open>list_tasks\<close> return an error
  shape with \<open>validation_error\<close> and have issued no request.
\<close>

theorem conflicting_dates_fail_before_any_call:
  assumes "normalizeIfPresent (se_date sin) (now host) = Inr date"
    and "normalizeIfPresent (se_dateFrom sin) (now host) = Inr dateFrom"
    and "normalizeIfPresent (se_dateTo sin) (now host) = Inr dateTo"
    and "datesConflict date dateFrom dateTo"
    and "lt_date lin = se_date sin" and "lt_dateFrom lin = se_dateFrom sin"
    and "lt_dateTo lin = se_dateTo sin"
  shows "hasErrorCode (fst (search_entities host config sin)) validation_error \<and>
         snd (search_entities host config sin) = [] \<and>
         hasErrorCode (fst (list_tasks (now host) lin)) validation_error \<and>
         snd (list_tasks (now host) lin) = []"
proof -
  from validateDateInputs_conflict[OF assms(4) normalizeIfPresent_truthy[OF assms(1)]
      normalizeIfPresent_truthy[OF assms(2)] normalizeIfPresent_truthy[OF assms(3)]]
  obtain e where e: "validateDateInputs date dateFrom dateTo = Some e" "code e = validation_error"
    by blast
  have s: "normalizeSearchEntitiesFilters sin (now host) = Inl e"
    using assms(1-3) e(1) by (simp add: normalizeSearchEntitiesFilters_def)
  have l: "normalizeListTasksFilters lin (now host) = Inl e"
    using assms(1-3,5-7) e(1) by (simp add: normalizeListTasksFilters_def)
  show ?thesis
    using e(2) by (simp add: search_entities_def list_tasks_def s l errorResult_hasErrorCode)
qed

text \<open>Instances of C5: an inverted range, and a single date beside the end of a range.\<close>

theorem conflicting_dates_fail_before_any_call_witness:
  "hasErrorCode (fst (search_entities (exampleHost [] []) exampleConfig
      (emptySearch\<lparr>se_text := Some ''note'', se_dateFrom := Some ''2024-03-02'',
                    se_dateTo := Some ''2024-03-01''\<rparr>))) validation_error \<and>
   snd (search_entities (exampleHost [] []) exampleConfig
      (emptySearch\<lparr>se_text := Some ''note'', se_dateFrom := Some ''2024-03-02'',
                    se_dateTo := Some ''2024-03-01''\<rparr>)) = [] \<and>
   hasErrorCode (fst (list_tasks exampleNow
      (emptyListTasks\<lparr>lt_dateFrom := Some ''2024-03-02'', lt_dateTo := Some ''2024-03-01''\<rparr>)))
      validation_error \<and>
   hasErrorCode (fst (search_entities (exampleHost [] []) exampleConfig
      (emptySearch\<lparr>se_date := Some ''yesterday'', se_dateTo := Some ''2024-03-01''\<rparr>)))
      validation_error"
proof -
  let ?s1 = "emptySearch\<lparr>se_text := Some ''note'', se_dateFrom := Some ''2024-03-02'',
                    se_dateTo := Some ''2024-03-01''\<rparr>"
  let ?l1 = "emptyListTasks\<lparr>lt_dateFrom := Some ''2024-03-02'', lt_dateTo := Some ''2024-03-01''\<rparr>"
  let ?s2 = "emptySearch\<lparr>se_date := Some ''yesterday'', se_dateTo := Some ''2024-03-01''\<rparr>"
  let ?l2 = "emptyListTasks\<lparr>lt_date := Some ''yesterday'', lt_dateTo := Some ''2024-03-01''\<rparr>"
  let ?host = "exampleHost [] []"
  have n: "now ?host = exampleNow" by (simp add: exampleHost_def)
  have a: "normalizeIfPresent (se_date ?s1) (now ?host) = Inr None"
    "normalizeIfPresent (se_dateFrom ?s1) (now ?host) = Inr (Some ''2024-03-02'')"
    "normalizeIfPresent (se_dateTo ?s1) (now ?host) = Inr (Some ''2024-03-01'')"
    "datesConflict None (Some ''2024-03-02'') (Some ''2024-03-01'')"
    by code_simp+
  have b: "lt_date ?l1 = se_date ?s1" "lt_dateFrom ?l1 = se_dateFrom ?s1" "lt_dateTo ?l1 = se_dateTo ?s1"
    by (simp_all add: emptySearch_def emptyListTasks_def)
  have c: "normalizeIfPresent (se_date ?s2) (now ?host) = Inr (Some ''2026-02-18'')"
    "normalizeIfPresent (se_dateFrom ?s2) (now ?host) = Inr None"
    "normalizeIfPresent (se_dateTo ?s2) (now ?host) = Inr (Some ''2024-03-01'')"
    "datesConflict (Some ''2026-02-18'') None (Some ''2024-03-01'')"
    by code_simp+
  have d: "lt_date ?l2 = se_date ?s2" "lt_dateFrom ?l2 = se_dateFrom ?s2" "lt_dateTo ?l2 = se_dateTo ?s2"
    by (simp_all add: emptySearch_def emptyListTasks_def)
  from conflicting_dates_fail_before_any_call[OF a b, of exampleConfig]
    conflicting_dates_fail_before_any_call[OF c d, of exampleConfig]
  show ?thesis unfolding n by blast
qed

subsection \<open>search_entities without a text\<close>

lemma trimToUndefined_absent:
  "v = None \<or> trim (the v) = [] \<Longrightarrow> trimToUndefined v = None"
  by (cases v) (auto simp: trimToUndefined_Some)

lemma normalizeSearchEntitiesFilters_fields:
  assumes "normalizeSearchEntitiesFilters input clock = Inr filters"
  shows "sf_spaceId filters = trimToUndefined (se_spaceId input)"
    and "sf_text filters = trimToUndefined (se_text input)"
    and "sf_type filters = trimToUndefined (se_type input)"
    and "sf_limit filters = (case se_limit input of None \<Rightarrow> DEFAULT_LIMIT | Some l \<Rightarrow> l)"
  using assms
  by (auto simp: normalizeSearchEntitiesFilters_def split: sum.splits option.splits)

text \<open>
  Claim C2, amended. A \<open>search_entities\<close> call whose text is absent or trims to empty
  issues no request. It returns the unsupported shape, whose details repeat the normalized
  filters and say which dimensions are honored (text yes, type best-effort, date and date
  range no), when its date filters normalize and are consistent and its space id
  resolves; when the date filters or the space id fail, it returns the error shape with
  the code of that failure.
\<close>

theorem search_entities_without_text:
  assumes "se_text input = None \<or> trim (the (se_text input)) = []"
  shows
  "snd (search_entities host config input) = [] \<and>
   (\<forall>e. normalizeSearchEntitiesFilters input (now host) = Inl e \<longrightarrow>
      hasErrorCode (fst (search_entities host config input)) (code e)) \<and>
   (\<forall>filters e. normalizeSearchEntitiesFilters input (now host) = Inr filters \<and>
      resolveSpaceId (sf_spaceId filters) config = Inl e \<longrightarrow>
      hasErrorCode (fst (search_entities host config input)) (code e)) \<and>
   (\<forall>filters spaceId. normalizeSearchEntitiesFilters input (now host) = Inr filters \<and>
      resolveSpaceId (sf_spaceId filters) config = Inr spaceId \<longrightarrow>
      isUnsupportedShape (fst (search_entities host config input)) \<and>
      jpath [''details'', ''requestedFilters'']
        (structuredContent (fst (search_entities host config input))) =
        Some (searchFiltersJson filters) \<and>
      jpath [''details'', ''supported'', ''text'']
        (structuredContent (fst (search_entities host config input))) = Some (JBool True) \<and>
      jpath [''details'', ''supported'', ''type'']
        (structuredContent (fst (search_entities host config input))) =
        Some (JStr ''best-effort (via structureId/title mapping)'') \<and>
      jpath [''details'', ''supported'', ''date'']
        (structuredContent (fst (search_entities host config input))) = Some (JBool False) \<and>
      jpath [''details'', ''supported'', ''dateRange'']
        (structuredContent (fst (search_entities host config input))) = Some (JBool False))"
proof -
  have notext: "sf_text filters = None"
    if "normalizeSearchEntitiesFilters input (now host) = Inr filters" for filters
    using normalizeSearchEntitiesFilters_fields(2)[OF that] trimToUndefined_absent[OF assms]
    by simp
  show ?thesis
  proof (cases "normalizeSearchEntitiesFilters input (now host)")
    case (Inl e)
    then show ?thesis
      by (simp add: search_entities_def errorResult_hasErrorCode)
  next
    case (Inr filters)
    note f = this
    show ?thesis
    proof (cases "resolveSpaceId (sf_spaceId filters) config")
      case (Inl e)
      with f show ?thesis
        by (simp add: search_entities_def errorResult_hasErrorCode)
    next
      case (Inr spaceId)
      with f notext[OF f] show ?thesis
        by (simp add: search_entities_def unsupportedResult_shape unsupportedResult_details
            jget_JObj searchSupportedJson_def)
    qed
  qed
qed

text \<open>Instances of C2: a date alone, with and without a configured space.\<close>

theorem search_entities_without_text_witness:
  "snd (search_entities (exampleHost [] []) exampleConfig
          (emptySearch\<lparr>se_date := Some ''yesterday''\<rparr>)) = [] \<and>
   isUnsupportedShape (fst (search_entities (exampleHost [] []) exampleConfig
          (emptySearch\<lparr>se_date := Some ''yesterday''\<rparr>))) \<and>
   jpath [''details'', ''requestedFilters'', ''date'']
     (structuredContent (fst (search_entities (exampleHost [] []) exampleConfig
          (emptySearch\<lparr>se_date := Some ''yesterday''\<rparr>)))) = Some (JStr ''2026-02-18'') \<and>
   jpath [''details'', ''supported'', ''date'']
     (structuredContent (fst (search_entities (exampleHost [] []) exampleConfig
          (emptySearch\<lparr>se_date := Some ''yesterday''\<rparr>)))) = Some (JBool False) \<and>
   hasErrorCode (fst (search_entities (exampleHost [] []) configWithoutSpace
          (emptySearch\<lparr>se_date := Some ''yesterday''\<rparr>))) config_error \<and>
   snd (search_entities (exampleHost [] []) configWithoutSpace
          (emptySearch\<lparr>se_date := Some ''yesterday''\<rparr>)) = []"
proof -
  let ?input = "emptySearch\<lparr>se_date := Some ''yesterday''\<rparr>"
  let ?host = "exampleHost [] []"
  have h: "se_text ?input = None \<or> trim (the (se_text ?input)) = []"
    by (simp add: emptySearch_def)
  have f: "normalizeSearchEntitiesFilters ?input (now ?host) = Inr yesterdayFilters"
    by code_simp
  have r: "resolveSpaceId (sf_spaceId yesterdayFilters) exampleConfig = Inr exampleSpaceId"
    by code_simp
  have r2: "resolveSpaceId (sf_spaceId yesterdayFilters) configWithoutSpace =
              Inl (createConfigError (''Missing space ID. Provide a space ID in the request or set '' @
                 CAPACITIES_SPACE_ID_ENV @ ''.''))"
    by code_simp
  have q: "jpath [''details'', ''requestedFilters'', ''date'']
     (structuredContent (fst (search_entities ?host exampleConfig ?input))) = Some (JStr ''2026-02-18'')"
    by code_simp
  from search_entities_without_text[OF h, of ?host exampleConfig] f r
  have a: "snd (search_entities ?host exampleConfig ?input) = []"
    and b: "isUnsupportedShape (fst (search_entities ?host exampleConfig ?input))"
    and c: "jpath [''details'', ''supported'', ''date'']
              (structuredContent (fst (search_entities ?host exampleConfig ?input))) = Some (JBool False)"
    by blast+
  from search_entities_without_text[OF h, of ?host configWithoutSpace] f r2
  have d: "hasErrorCode (fst (search_entities ?host configWithoutSpace ?input))
             (code (createConfigError (''Missing space ID. Provide a space ID in the request or set '' @
                 CAPACITIES_SPACE_ID_ENV @ ''.'')))"
    and e: "snd (search_entities ?host configWithoutSpace ?input) = []"
    by blast+
  from a b c d e q show ?thesis by simp
qed

text \<open>
  C2 as stated fails: without a text and with only one end of a date range the result is
  an error, not the unsupported shape.
\<close>

theorem search_without_text_counterexample:
  "trimToUndefined (se_text (emptySearch\<lparr>se_dateFrom := Some ''2024-01-01''\<rparr>)) = None \<and>
   hasErrorCode (fst (search_entities (exampleHost [] []) exampleConfig
      (emptySearch\<lparr>se_dateFrom := Some ''2024-01-01''\<rparr>))) validation_error \<and>
   \<not> isUnsupportedShape (fst (search_entities (exampleHost [] []) exampleConfig
      (emptySearch\<lparr>se_dateFrom := Some ''2024-01-01''\<rparr>)))"
  by code_simp

subsection \<open>The type filter\<close>

lemma structureMatchesType_spec:
  "structureMatchesType (toLowerCase ty) s = typeNamesStructure ty s"
  by (auto simp: structureMatchesType_def typeNamesStructure_def sameIgnoringCase_def
      getOptionalStringField_def Let_def split: option.splits jsval.splits)

lemma set_addStructureIds:
  "set (addStructureIds n structures acc) =
   set acc \<union> structure_id ` {s \<in> set structures. structureMatchesType n s}"
  by (induction structures arbitrary: acc) auto

lemma set_resolveStructureIdsByType:
  "set (resolveStructureIdsByType ty structures) = set (namedStructureIds ty structures)"
  by (auto simp: resolveStructureIdsByType_def namedStructureIds_def set_addStructureIds
      structureMatchesType_spec)

lemma matchesTypeFilter_spec:
  "matchesTypeFilter r ty (resolveStructureIdsByType ty structures) = keptByType ty structures r"
proof -
  have "(resolveStructureIdsByType ty structures = []) = (namedStructureIds ty structures = [])"
    using set_resolveStructureIdsByType[of ty structures] by (metis set_empty)
  then show ?thesis
    by (simp add: matchesTypeFilter_def keptByType_def set_resolveStructureIdsByType
        sameIgnoringCase_def)
qed

lemma searchEntitiesSuccess_payload:
  "jpath [''results''] (structuredContent (searchEntitiesSuccess filters rs notes)) =
     Some (JArr (map lookupResultJson (slice0 rs (sf_limit filters))))"
  "jpath [''totalResultsBeforeLimit''] (structuredContent (searchEntitiesSuccess filters rs notes)) =
     Some (JNum (int (length rs)))"
  "jpath [''returnedResults''] (structuredContent (searchEntitiesSuccess filters rs notes)) =
     Some (JNum (int (length (slice0 rs (sf_limit filters)))))"
  "jpath [''unsupportedNotes''] (structuredContent (searchEntitiesSuccess filters rs notes)) =
     Some (JArr (map JStr
       (notes @ (if truthy (sf_date filters) \<or> truthy (sf_dateFrom filters) \<or>
                    truthy (sf_dateTo filters) then [dateFilterNote] else []))))"
  by (simp_all add: searchEntitiesSuccess_def jget_JObj Let_def)

text \<open>
  Claim C3, amended. For a \<open>search_entities\<close> call with a text and a type filter whose
  two remote calls succeed: the allowed structure ids are the ids of the structures whose
  id, title or \<open>pluralName\<close> equals the type string up to case; a lookup result is kept
  iff its structure id is one of them or, when there is none, iff its structure id equals
  the type string up to case; the kept results are cut to the limit; and the note about
  the type filter is in the result exactly when no result is kept (not when no structure
  matched).
\<close>

theorem search_entities_type_filter:
  assumes "normalizeSearchEntitiesFilters input (now host) = Inr filters"
    and "resolveSpaceId (sf_spaceId filters) config = Inr spaceId"
    and "sf_text filters = Some searchText"
    and "sf_type filters = Some ty"
    and "fst (lookup host config searchText (Some spaceId)) = Inr results"
    and "fst (getSpaceInfo host config (Some spaceId)) = Inr structures"
  shows
  "set (resolveStructureIdsByType ty structures) = set (namedStructureIds ty structures) \<and>
   isSuccessShape (fst (search_entities host config input)) \<and>
   jpath [''totalResultsBeforeLimit''] (structuredContent (fst (search_entities host config input))) =
     Some (JNum (int (length (filter (keptByType ty structures) results)))) \<and>
   jpath [''results''] (structuredContent (fst (search_entities host config input))) =
     Some (JArr (map lookupResultJson
       (slice0 (filter (keptByType ty structures) results) (sf_limit filters)))) \<and>
   jpath [''unsupportedNotes''] (structuredContent (fst (search_entities host config input))) =
     Some (JArr (map JStr
       ((if filter (keptByType ty structures) results = [] then [typeFilterNote ty] else []) @
        (if truthy (sf_date filters) \<or> truthy (sf_dateFrom filters) \<or> truthy (sf_dateTo filters)
         then [dateFilterNote] else []))))"
proof -
  have tx: "searchText \<noteq> []" and tyne: "ty \<noteq> []"
    using normalizeSearchEntitiesFilters_fields(2,3)[OF assms(1)] assms(3,4)
    by (auto simp: trimToUndefined_def split: if_splits)
  let ?kept = "filter (keptByType ty structures) results"
  have r: "fst (search_entities host config input) =
             searchEntitiesSuccess filters ?kept (if ?kept = [] then [typeFilterNote ty] else [])"
    using assms tx tyne
    by (simp add: search_entities_def Let_def matchesTypeFilter_spec)
  show ?thesis
    unfolding r
    by (simp add: searchEntitiesSuccess_payload searchEntitiesSuccess_shape
        set_resolveStructureIdsByType del: jpath.simps)
qed

text \<open>Instances of C3: a type that names a structure by its plural name, with and without a result of that structure.\<close>

theorem search_entities_type_filter_witness:
  "jpath [''results''] (structuredContent (fst (search_entities
      (exampleHost [pageResult, noteResult] [noteStructure]) exampleConfig
      (emptySearch\<lparr>se_text := Some ''note'', se_type := Some ''daily notes''\<rparr>)))) =
     Some (JArr [lookupResultJson noteResult]) \<and>
   jpath [''unsupportedNotes''] (structuredContent (fst (search_entities
      (exampleHost [pageResult, noteResult] [noteStructure]) exampleConfig
      (emptySearch\<lparr>se_text := Some ''note'', se_type := Some ''daily notes''\<rparr>)))) = Some (JArr []) \<and>
   jpath [''results''] (structuredContent (fst (search_entities
      (exampleHost [pageResult] [noteStructure]) exampleConfig
      (emptySearch\<lparr>se_text := Some ''note'', se_type := Some ''daily notes''\<rparr>)))) = Some (JArr []) \<and>
   jpath [''unsupportedNotes''] (structuredContent (fst (search_entities
      (exampleHost [pageResult] [noteStructure]) exampleConfig
      (emptySearch\<lparr>se_text := Some ''note'', se_type := Some ''daily notes''\<rparr>)))) =
     Some (JArr [JStr (typeFilterNote ''daily notes'')])"
proof -
  let ?input = "emptySearch\<lparr>se_text := Some ''note'', se_type := Some ''daily notes''\<rparr>"
  let ?h1 = "exampleHost [pageResult, noteResult] [noteStructure]"
  let ?h2 = "exampleHost [pageResult] [noteStructure]"
  let ?f = "typedFilters ''daily notes''"
  have f: "normalizeSearchEntitiesFilters ?input (now ?h1) = Inr ?f"
    "normalizeSearchEntitiesFilters ?input (now ?h2) = Inr ?f"
    by code_simp+
  have r: "resolveSpaceId (sf_spaceId ?f) exampleConfig = Inr exampleSpaceId"
    by code_simp
  have t: "sf_text ?f = Some ''note''" "sf_type ?f = Some ''daily notes''"
    by (simp_all add: typedFilters_def)
  have l1: "fst (lookup ?h1 exampleConfig ''note'' (Some exampleSpaceId)) = Inr [pageResult, noteResult]"
    by code_simp
  have l2: "fst (lookup ?h2 exampleConfig ''note'' (Some exampleSpaceId)) = Inr [pageResult]"
    by code_simp
  have i1: "fst (getSpaceInfo ?h1 exampleConfig (Some exampleSpaceId)) = Inr [noteStructure]"
    by code_simp
  have i2: "fst (getSpaceInfo ?h2 exampleConfig (Some exampleSpaceId)) = Inr [noteStructure]"
    by code_simp
  have k1: "filter (keptByType ''daily notes'' [noteStructure]) [pageResult, noteResult] = [noteResult]"
    by code_simp
  have k2: "filter (keptByType ''daily notes'' [noteStructure]) [pageResult] = []"
    by code_simp
  have s: "slice0 [noteResult] (sf_limit ?f) = [noteResult]"
    "slice0 ([] :: CapacitiesLookupResult list) (sf_limit ?f) = []"
    by (simp_all add: slice0_def typedFilters_def)
  have d: "\<not> (truthy (sf_date ?f) \<or> truthy (sf_dateFrom ?f) \<or> truthy (sf_dateTo ?f))"
    by (simp add: typedFilters_def)
  note A = search_entities_type_filter[OF f(1) r t l1 i1]
  note B = search_entities_type_filter[OF f(2) r t l2 i2]
  from A have a1: "jpath [''results''] (structuredContent (fst (search_entities ?h1 exampleConfig ?input))) =
     Some (JArr (map lookupResultJson
       (slice0 (filter (keptByType ''daily notes'' [noteStructure]) [pageResult, noteResult]) (sf_limit ?f))))"
    and a2: "jpath [''unsupportedNotes''] (structuredContent (fst (search_entities ?h1 exampleConfig ?input))) =
     Some (JArr (map JStr
       ((if filter (keptByType ''daily notes'' [noteStructure]) [pageResult, noteResult] = []
         then [typeFilterNote ''daily notes''] else []) @
        (if truthy (sf_date ?f) \<or> truthy (sf_dateFrom ?f) \<or> truthy (sf_dateTo ?f)
         then [dateFilterNote] else []))))"
    by blast+
  from B have b1: "jpath [''results''] (structuredContent (fst (search_entities ?h2 exampleConfig ?input))) =
     Some (JArr (map lookupResultJson
       (slice0 (filter (keptByType ''daily notes'' [noteStructure]) [pageResult]) (sf_limit ?f))))"
    and b2: "jpath [''unsupportedNotes''] (structuredContent (fst (search_entities ?h2 exampleConfig ?input))) =
     Some (JArr (map JStr
       ((if filter (keptByType ''daily notes'' [noteStructure]) [pageResult] = []
         then [typeFilterNote ''daily notes''] else []) @
        (if truthy (sf_date ?f) \<or> truthy (sf_dateFrom ?f) \<or> truthy (sf_dateTo ?f)
         then [dateFilterNote] else []))))"
    by blast+
  show ?thesis
    using a1 a2 b1 b2 d unfolding k1 k2 s by simp
qed

text \<open>
  C3 as stated fails: no structure matches the type \<open>Page\<close>, a result is kept by its own
  structure id, and the result carries no note.
\<close>

theorem type_note_counterexample:
  "resolveStructureIdsByType ''Page'' [noteStructure] = [] \<and>
   jpath [''unsupportedNotes''] (structuredContent (fst (search_entities
      (exampleHost [pageResult, noteResult] [noteStructure]) exampleConfig
      (emptySearch\<lparr>se_text := Some ''note'', se_type := Some ''Page''\<rparr>)))) = Some (JArr []) \<and>
   jpath [''returnedResults''] (structuredContent (fst (search_entities
      (exampleHost [pageResult, noteResult] [noteStructure]) exampleConfig
      (emptySearch\<lparr>se_text := Some ''note'', se_type := Some ''Page''\<rparr>)))) = Some (JNum 1)"
  by code_simp

end

